theory Spec2Isabelle
  imports Main "HOL-Library.Word" "HOL-Library.Sublist"
begin

section \<open>Values shared by the services\<close>

text \<open>
  Strings are byte strings: a character outside ASCII is written as its UTF-8 bytes.
  A JavaScript string is falsy exactly when it is empty, so a guard \<^verbatim>\<open>!userId\<close> is
  \<open>userId = []\<close>; an argument that may be \<^verbatim>\<open>undefined\<close> and has a default value
  is an \<open>option\<close>. Timestamps are milliseconds since the epoch; every call receives the
  current time \<open>now\<close> (JavaScript's \<^verbatim>\<open>new Date()\<close> and SQL's \<^verbatim>\<open>CURRENT_TIMESTAMP\<close>).
\<close>

type_synonym ident = string
type_synonym timestamp = int

definition a_acute :: string where "a_acute = [CHR 0xC3, CHR 0xA1]"
definition i_acute :: string where "i_acute = [CHR 0xC3, CHR 0xAD]"
definition o_acute :: string where "o_acute = [CHR 0xC3, CHR 0xB3]"
definition u_acute :: string where "u_acute = [CHR 0xC3, CHR 0xBA]"

subsection \<open>utils/errors.js\<close>

datatype app_error =
  AppError (err_name: string) (status: nat) (code: string) (message: string)
    (cause: "app_error option") (details: "(string \<times> string) list")

definition NotFoundError :: "string \<Rightarrow> app_error" where
  "NotFoundError resource =
     AppError ''NotFoundError'' 404 ''NOT_FOUND'' (resource @ '' no encontrado'') None
       [(''resource'', resource)]"

definition ConflictError :: "string \<Rightarrow> app_error" where
  "ConflictError msg = AppError ''ConflictError'' 409 ''CONFLICT'' msg None []"

definition DatabaseError :: "string \<Rightarrow> app_error option \<Rightarrow> app_error" where
  "DatabaseError msg c = AppError ''DatabaseError'' 500 ''DATABASE_ERROR'' msg c []"

definition BusinessLogicError :: "string \<Rightarrow> app_error" where
  "BusinessLogicError msg =
     AppError ''BusinessLogicError'' 400 ''BUSINESS_LOGIC_ERROR'' msg None []"

subsection \<open>utils/id-generator.js\<close>

text \<open>
  The generators draw from sources outside the repository (\<^verbatim>\<open>cuid()\<close>, nanoid's
  ten characters, \<^verbatim>\<open>crypto.randomBytes(16)\<close>). One call of a service draws at most one
  value of each kind; the record \<open>rng\<close> holds what the sources return during that call.
  SHA-256 belongs to the runtime as well: the digest function is the parameter
  \<open>sha256_hex\<close> of every operation that hashes.
\<close>

record rng =
  cuid_out :: string
  nanoid_out :: string
  pk_bytes :: "8 word list"
  sk_bytes :: "8 word list"

definition digit36 :: "nat \<Rightarrow> char" where
  "digit36 d = ''0123456789abcdefghijklmnopqrstuvwxyz'' ! d"

fun to_base36 :: "nat \<Rightarrow> string" where
  "to_base36 n = (if n < 36 then [digit36 n] else to_base36 (n div 36) @ [digit36 (n mod 36)])"

declare to_base36.simps [simp del]

definition generateId :: "string \<Rightarrow> rng \<Rightarrow> timestamp \<Rightarrow> ident" where
  "generateId prefix' g now =
     (if prefix' = ''org'' \<or> prefix' = ''prj'' then cuid_out g
      else prefix' @ ''_'' @ to_base36 (nat now) @ nanoid_out g)"

definition hex_alphabet :: string where
  "hex_alphabet = ''0123456789abcdef''"

definition hex_digit :: "nat \<Rightarrow> char" where
  "hex_digit d = hex_alphabet ! d"

definition hex_byte :: "8 word \<Rightarrow> string" where
  "hex_byte b = [hex_digit (unat b div 16), hex_digit (unat b mod 16)]"

definition to_hex :: "8 word list \<Rightarrow> string" where
  "to_hex bs = concat (map hex_byte bs)"

definition generateApiKey :: "string \<Rightarrow> 8 word list \<Rightarrow> string" where
  "generateApiKey prefix' randomBytes = prefix' @ ''_'' @ to_hex randomBytes"

definition hashSecretKey :: "(string \<Rightarrow> string) \<Rightarrow> string \<Rightarrow> string" where
  "hashSecretKey sha256_hex secretKey = sha256_hex (''salt'' @ secretKey)"

text \<open>
  \<^verbatim>\<open>String.prototype.trim\<close> removes from both ends the code points that are white space
  or line terminators in JavaScript: U+0009 to U+000D, U+0020, U+00A0, U+1680, U+2000 to
  U+200A, U+2028, U+2029, U+202F, U+205F, U+3000 and U+FEFF. \<open>white_space\<close> lists
  their UTF-8 encodings. In well-formed UTF-8 none of these byte sequences occurs across
  a character boundary, so removing them from the ends of the byte string removes the
  same characters.
\<close>

definition white_space :: "string list" where
  "white_space =
     [[CHR 0x09], [CHR 0x0A], [CHR 0x0B], [CHR 0x0C], [CHR 0x0D], [CHR 0x20],
      [CHR 0xC2, CHR 0xA0],
      [CHR 0xE1, CHR 0x9A, CHR 0x80],
      [CHR 0xE2, CHR 0x80, CHR 0x80], [CHR 0xE2, CHR 0x80, CHR 0x81],
      [CHR 0xE2, CHR 0x80, CHR 0x82], [CHR 0xE2, CHR 0x80, CHR 0x83],
      [CHR 0xE2, CHR 0x80, CHR 0x84], [CHR 0xE2, CHR 0x80, CHR 0x85],
      [CHR 0xE2, CHR 0x80, CHR 0x86], [CHR 0xE2, CHR 0x80, CHR 0x87],
      [CHR 0xE2, CHR 0x80, CHR 0x88], [CHR 0xE2, CHR 0x80, CHR 0x89],
      [CHR 0xE2, CHR 0x80, CHR 0x8A],
      [CHR 0xE2, CHR 0x80, CHR 0xA8], [CHR 0xE2, CHR 0x80, CHR 0xA9],
      [CHR 0xE2, CHR 0x80, CHR 0xAF],
      [CHR 0xE2, CHR 0x81, CHR 0x9F],
      [CHR 0xE3, CHR 0x80, CHR 0x80],
      [CHR 0xEF, CHR 0xBB, CHR 0xBF]]"

text \<open>\<open>strip ws s\<close> removes from the front of \<open>s\<close> every leading sequence of \<open>ws\<close>.\<close>

fun strip :: "string list \<Rightarrow> string \<Rightarrow> string" where
  "strip ws [] = []"
| "strip ws (c # cs) =
     (case find (\<lambda>w. prefix w (c # cs)) ws of
        None \<Rightarrow> c # cs
      | Some w \<Rightarrow> strip ws (drop (length w - 1) cs))"

definition trimStart :: "string \<Rightarrow> string" where
  "trimStart s = strip white_space s"

definition trimEnd :: "string \<Rightarrow> string" where
  "trimEnd s = rev (strip (map rev white_space) (rev s))"

definition trim :: "string \<Rightarrow> string" where
  "trim s = trimEnd (trimStart s)"

section \<open>The datastore\<close>

text \<open>
  A table is the list of its rows in insertion order. \<^verbatim>\<open>INSERT\<close> appends a row,
  \<^verbatim>\<open>UPDATE ... WHERE\<close> rewrites every row the condition selects, \<^verbatim>\<open>DELETE ... WHERE\<close>
  removes them, and a query returns the selected rows in table order. The schema is not
  part of the repository, so no key or foreign-key constraint is built into the tables:
  where a statement of this theory needs one, it is a hypothesis.
\<close>

record user_row =
  u_id :: ident
  u_name :: string
  u_email :: string
  u_image :: "string option"

record account_row =
  acc_id :: ident
  acc_user_id :: ident

record session_row =
  ses_id :: ident
  ses_user_id :: ident

record organization_row =
  org_id :: ident
  org_name :: string
  org_created_at :: timestamp
  org_updated_at :: timestamp

record organization_membership_row =
  om_id :: ident
  om_org_id :: ident
  om_user_id :: ident
  om_role :: string
  om_created_at :: timestamp
  om_updated_at :: timestamp

record project_row =
  prj_id :: ident
  prj_name :: string
  prj_org_id :: ident
  prj_deleted_at :: "timestamp option"
  prj_created_at :: timestamp
  prj_updated_at :: timestamp

record project_membership_row =
  pm_project_id :: ident
  pm_user_id :: ident
  pm_org_membership_id :: ident
  pm_role :: string
  pm_created_at :: timestamp
  pm_updated_at :: timestamp

record api_key_row =
  ak_id :: ident
  ak_project_id :: ident
  ak_created_at :: timestamp
  ak_updated_at :: "timestamp option"
  ak_public_key :: string
  ak_hashed_secret_key :: string
  ak_display_secret_key :: string
  ak_note :: "string option"
  ak_expires_at :: "timestamp option"
  ak_last_used_at :: "timestamp option"

record db =
  users :: "user_row list"
  Account :: "account_row list"
  Session :: "session_row list"
  organizations :: "organization_row list"
  organization_memberships :: "organization_membership_row list"
  projects :: "project_row list"
  project_memberships :: "project_membership_row list"
  api_keys :: "api_key_row list"

definition empty_db :: db where
  "empty_db = \<lparr>users = [], Account = [], Session = [], organizations = [],
     organization_memberships = [], projects = [], project_memberships = [], api_keys = []\<rparr>"

subsection \<open>services/database.service.js\<close>

definition transaction_message :: string where
  "transaction_message = ''Error al ejecutar transacci'' @ o_acute @ ''n''"

text \<open>
  \<^verbatim>\<open>transaction(callback)\<close>: the callback runs on the client's view of the data; when it
  returns, the changes are committed, and when it throws, they are rolled back and a
  \<^verbatim>\<open>DatabaseError\<close> is thrown whose \<^verbatim>\<open>cause\<close> is the error caught.
\<close>

definition transaction ::
  "(db \<Rightarrow> app_error + 'a \<times> db) \<Rightarrow> db \<Rightarrow> (app_error + 'a) \<times> db" where
  "transaction callback s =
     (case callback s of
        Inr (result, client) \<Rightarrow> (Inr result, client)
      | Inl error \<Rightarrow> (Inl (DatabaseError transaction_message (Some error)), s))"

section \<open>services/organizations.service.js\<close>

definition OrganizationsService_create_tx ::
  "timestamp \<Rightarrow> rng \<Rightarrow> string \<Rightarrow> ident \<Rightarrow> db \<Rightarrow> app_error + organization_row \<times> db" where
  "OrganizationsService_create_tx now g name userId client =
     (let userExists = filter (\<lambda>u. u_id u = userId) (users client) in
      if userExists = [] then Inl (NotFoundError ''Usuario no encontrado'')
      else
        let id = generateId ''org'' g now;
            organization = \<lparr>org_id = id, org_name = trim name,
              org_created_at = now, org_updated_at = now\<rparr>;
            client1 = client\<lparr>organizations := organizations client @ [organization]\<rparr>;
            membershipId = generateId ''om'' g now;
            client2 = client1\<lparr>organization_memberships :=
              organization_memberships client1 @
                [\<lparr>om_id = membershipId, om_org_id = id, om_user_id = userId,
                  om_role = ''OWNER'', om_created_at = now, om_updated_at = now\<rparr>]\<rparr>
        in Inr (organization, client2))"

definition OrganizationsService_create ::
  "db \<Rightarrow> timestamp \<Rightarrow> rng \<Rightarrow> string \<Rightarrow> ident \<Rightarrow> (app_error + organization_row) \<times> db" where
  "OrganizationsService_create s now g name userId =
     (if name = [] \<or> trim name = [] then (Inl (BusinessLogicError ''El nombre es requerido''), s)
      else if userId = [] then
        (Inl (BusinessLogicError
           (''El ID de usuario es obligatorio para crear una organizaci'' @ o_acute @ ''n'')), s)
      else transaction (OrganizationsService_create_tx now g name userId) s)"

definition org_validRoles :: "string list" where
  "org_validRoles = [''OWNER'', ''ADMIN'', ''VIEWER'', ''NONE'']"

definition org_invalid_role_message :: string where
  "org_invalid_role_message =
     ''Rol inv'' @ a_acute @ ''lido. Debe ser OWNER, ADMIN, VIEWER o NONE''"

definition Organizacion :: string where
  "Organizacion = ''Organizaci'' @ o_acute @ ''n''"

definition Membresia :: string where
  "Membresia = ''Membres'' @ i_acute @ ''a''"

definition OrganizationsService_addMember_tx ::
  "timestamp \<Rightarrow> rng \<Rightarrow> ident \<Rightarrow> ident \<Rightarrow> string \<Rightarrow> db
     \<Rightarrow> app_error + organization_membership_row \<times> db" where
  "OrganizationsService_addMember_tx now g orgId userId role client =
     (let userCheck = filter (\<lambda>u. u_id u = userId) (users client) in
      if userCheck = [] then Inl (NotFoundError ''Usuario'')
      else
        let orgCheck = filter (\<lambda>r. org_id r = orgId) (organizations client) in
        if orgCheck = [] then Inl (NotFoundError Organizacion)
        else
          let memberCheck = filter (\<lambda>m. om_org_id m = orgId \<and> om_user_id m = userId)
                (organization_memberships client) in
          if memberCheck \<noteq> [] then
            Inl (ConflictError (''El usuario ya es miembro de esta organizaci'' @ o_acute @ ''n''))
          else
            let membershipId = generateId ''om'' g now;
                row = \<lparr>om_id = membershipId, om_org_id = orgId, om_user_id = userId,
                  om_role = role, om_created_at = now, om_updated_at = now\<rparr>
            in Inr (row, client\<lparr>organization_memberships :=
                     organization_memberships client @ [row]\<rparr>))"

definition OrganizationsService_addMember ::
  "db \<Rightarrow> timestamp \<Rightarrow> rng \<Rightarrow> ident \<Rightarrow> ident \<Rightarrow> string option
     \<Rightarrow> (app_error + organization_membership_row) \<times> db" where
  "OrganizationsService_addMember s now g orgId userId role_arg =
     (let role = (case role_arg of None \<Rightarrow> ''VIEWER'' | Some r \<Rightarrow> r) in
      if userId = [] then (Inl (BusinessLogicError ''El ID de usuario es requerido''), s)
      else if role \<notin> set org_validRoles then
        (Inl (BusinessLogicError org_invalid_role_message), s)
      else transaction (OrganizationsService_addMember_tx now g orgId userId role) s)"

text \<open>The \<^verbatim>\<open>UPDATE ... SET role\<close> statement both branches of \<^verbatim>\<open>updateMember\<close> run.\<close>

definition org_update_role ::
  "timestamp \<Rightarrow> ident \<Rightarrow> ident \<Rightarrow> string \<Rightarrow> organization_membership_row list
     \<Rightarrow> organization_membership_row list" where
  "org_update_role now orgId userId role rows =
     map (\<lambda>m. if om_org_id m = orgId \<and> om_user_id m = userId
              then m\<lparr>om_role := role, om_updated_at := now\<rparr> else m) rows"

definition org_owner_count :: "db \<Rightarrow> ident \<Rightarrow> nat" where
  "org_owner_count s orgId =
     length (filter (\<lambda>m. om_org_id m = orgId \<and> om_role m = ''OWNER'')
       (organization_memberships s))"

definition OrganizationsService_updateMember_tx ::
  "timestamp \<Rightarrow> ident \<Rightarrow> ident \<Rightarrow> string \<Rightarrow> db
     \<Rightarrow> app_error + organization_membership_row \<times> db" where
  "OrganizationsService_updateMember_tx now orgId userId role client =
     (let currentRole = filter (\<lambda>m. om_org_id m = orgId \<and> om_user_id m = userId)
            (organization_memberships client) in
      case currentRole of
        [] \<Rightarrow> Inl (NotFoundError Membresia)
      | current # _ \<Rightarrow>
          if om_role current = ''OWNER'' \<and> org_owner_count client orgId \<le> 1 then
            Inl (BusinessLogicError
              (''No se puede cambiar el rol del '' @ u_acute @ ''ltimo propietario''))
          else
            let rows = org_update_role now orgId userId role (organization_memberships client);
                updateResult = filter (\<lambda>m. om_org_id m = orgId \<and> om_user_id m = userId) rows
            in case updateResult of
                 [] \<Rightarrow> Inl (NotFoundError Membresia)
               | updated # _ \<Rightarrow> Inr (updated, client\<lparr>organization_memberships := rows\<rparr>))"

definition OrganizationsService_updateMember ::
  "db \<Rightarrow> timestamp \<Rightarrow> ident \<Rightarrow> ident \<Rightarrow> string
     \<Rightarrow> (app_error + organization_membership_row) \<times> db" where
  "OrganizationsService_updateMember s now orgId userId role =
     (if role = [] then (Inl (BusinessLogicError ''El rol es requerido''), s)
      else if role \<notin> set org_validRoles then
        (Inl (BusinessLogicError org_invalid_role_message), s)
      else if role \<noteq> ''OWNER'' then
        transaction (OrganizationsService_updateMember_tx now orgId userId role) s
      else
        let rows = org_update_role now orgId userId role (organization_memberships s);
            updated = filter (\<lambda>m. om_org_id m = orgId \<and> om_user_id m = userId) rows
        in case updated of
             [] \<Rightarrow> (Inl (NotFoundError Membresia), s)
           | row # _ \<Rightarrow> (Inr row, s\<lparr>organization_memberships := rows\<rparr>))"

definition OrganizationsService_removeMember_tx ::
  "ident \<Rightarrow> ident \<Rightarrow> db \<Rightarrow> app_error + bool \<times> db" where
  "OrganizationsService_removeMember_tx orgId userId client =
     (let currentRole = filter (\<lambda>m. om_org_id m = orgId \<and> om_user_id m = userId)
            (organization_memberships client) in
      case currentRole of
        [] \<Rightarrow> Inl (NotFoundError Membresia)
      | current # _ \<Rightarrow>
          if om_role current = ''OWNER'' \<and> org_owner_count client orgId \<le> 1 then
            Inl (BusinessLogicError
              (''No se puede eliminar al '' @ u_acute @ ''ltimo propietario''))
          else
            let ids = map om_id currentRole;
                client1 = client\<lparr>project_memberships :=
                  filter (\<lambda>pm. pm_org_membership_id pm \<notin> set ids) (project_memberships client)\<rparr>;
                deleteResult = filter (\<lambda>m. om_org_id m = orgId \<and> om_user_id m = userId)
                  (organization_memberships client1);
                client2 = client1\<lparr>organization_memberships :=
                  filter (\<lambda>m. \<not> (om_org_id m = orgId \<and> om_user_id m = userId))
                    (organization_memberships client1)\<rparr>
            in if deleteResult = [] then Inl (NotFoundError Membresia)
               else Inr (True, client2))"

definition OrganizationsService_removeMember ::
  "db \<Rightarrow> ident \<Rightarrow> ident \<Rightarrow> (app_error + bool) \<times> db" where
  "OrganizationsService_removeMember s orgId userId =
     transaction (OrganizationsService_removeMember_tx orgId userId) s"

section \<open>services/project-memberships.service.js\<close>

text \<open>What \<^verbatim>\<open>addMember\<close> and \<^verbatim>\<open>updateMember\<close> return: the membership's columns spread
  together with the user's.\<close>

record project_member_view =
  pmv_project_id :: ident
  pmv_user_id :: ident
  pmv_role :: string
  pmv_created_at :: timestamp
  pmv_updated_at :: timestamp
  pmv_name :: string
  pmv_email :: string
  pmv_image :: "string option"

definition member_view :: "project_membership_row \<Rightarrow> user_row \<Rightarrow> project_member_view" where
  "member_view m u =
     \<lparr>pmv_project_id = pm_project_id m, pmv_user_id = pm_user_id m, pmv_role = pm_role m,
      pmv_created_at = pm_created_at m, pmv_updated_at = pm_updated_at m,
      pmv_name = u_name u, pmv_email = u_email u, pmv_image = u_image u\<rparr>"

definition prj_validRoles :: "string list" where
  "prj_validRoles = [''OWNER'', ''ADMIN'', ''MEMBER'', ''VIEWER'']"

definition prj_invalid_role_message :: string where
  "prj_invalid_role_message =
     ''Rol inv'' @ a_acute @ ''lido. Debe ser OWNER, ADMIN, MEMBER o VIEWER''"

definition Membresia_de_proyecto :: string where
  "Membresia_de_proyecto = Membresia @ '' de proyecto''"

text \<open>
  The spread \<^verbatim>\<open>{...memberResult.rows[0], ...userResult.rows[0]}\<close> of a user row that is
  missing adds no column; the user was selected earlier in the same transaction, so the
  branch for an empty \<open>userResult\<close> is not reached from \<open>addMember\<close>, and in
  \<open>updateMember\<close> it returns the membership's columns with the user's left empty.
\<close>

definition no_user :: user_row where
  "no_user = \<lparr>u_id = [], u_name = [], u_email = [], u_image = None\<rparr>"

definition ProjectMembershipsService_addMember_tx ::
  "timestamp \<Rightarrow> rng \<Rightarrow> ident \<Rightarrow> ident \<Rightarrow> string \<Rightarrow> db
     \<Rightarrow> app_error + project_member_view \<times> db" where
  "ProjectMembershipsService_addMember_tx now g projectId userId role client =
     (let projectCheck = filter (\<lambda>p. prj_id p = projectId \<and> prj_deleted_at p = None)
            (projects client) in
      case projectCheck of
        [] \<Rightarrow> Inl (NotFoundError ''Proyecto'')
      | project # _ \<Rightarrow>
          let orgId = prj_org_id project;
              userCheck = filter (\<lambda>u. u_id u = userId) (users client) in
          if userCheck = [] then Inl (NotFoundError ''Usuario'')
          else
            let orgMembershipCheck = filter (\<lambda>m. om_org_id m = orgId \<and> om_user_id m = userId)
                  (organization_memberships client);
                (orgMembershipId, client1) =
                  (case orgMembershipCheck of
                     [] \<Rightarrow>
                       (generateId ''om'' g now,
                        client\<lparr>organization_memberships := organization_memberships client @
                          [\<lparr>om_id = generateId ''om'' g now, om_org_id = orgId,
                            om_user_id = userId, om_role = ''VIEWER'',
                            om_created_at = now, om_updated_at = now\<rparr>]\<rparr>)
                   | existing # _ \<Rightarrow> (om_id existing, client));
                memberCheck = filter (\<lambda>m. pm_project_id m = projectId \<and> pm_user_id m = userId)
                  (project_memberships client1) in
            if memberCheck \<noteq> [] then
              Inl (ConflictError ''El usuario ya es miembro de este proyecto'')
            else
              let row = \<lparr>pm_project_id = projectId, pm_user_id = userId,
                    pm_org_membership_id = orgMembershipId, pm_role = role,
                    pm_created_at = now, pm_updated_at = now\<rparr>;
                  client2 = client1\<lparr>project_memberships := project_memberships client1 @ [row]\<rparr>;
                  userResult = filter (\<lambda>u. u_id u = userId) (users client2)
              in Inr (member_view row (case userResult of [] \<Rightarrow> no_user | u # _ \<Rightarrow> u), client2))"

definition ProjectMembershipsService_addMember ::
  "db \<Rightarrow> timestamp \<Rightarrow> rng \<Rightarrow> ident \<Rightarrow> ident \<Rightarrow> string option
     \<Rightarrow> (app_error + project_member_view) \<times> db" where
  "ProjectMembershipsService_addMember s now g projectId userId role_arg =
     (let role = (case role_arg of None \<Rightarrow> ''VIEWER'' | Some r \<Rightarrow> r) in
      if userId = [] then (Inl (BusinessLogicError ''El ID de usuario es requerido''), s)
      else if role \<notin> set prj_validRoles then
        (Inl (BusinessLogicError prj_invalid_role_message), s)
      else transaction (ProjectMembershipsService_addMember_tx now g projectId userId role) s)"

definition prj_update_role ::
  "timestamp \<Rightarrow> ident \<Rightarrow> ident \<Rightarrow> string \<Rightarrow> project_membership_row list
     \<Rightarrow> project_membership_row list" where
  "prj_update_role now projectId userId role rows =
     map (\<lambda>m. if pm_project_id m = projectId \<and> pm_user_id m = userId
              then m\<lparr>pm_role := role, pm_updated_at := now\<rparr> else m) rows"

definition prj_owner_count :: "db \<Rightarrow> ident \<Rightarrow> nat" where
  "prj_owner_count s projectId =
     length (filter (\<lambda>m. pm_project_id m = projectId \<and> pm_role m = ''OWNER'')
       (project_memberships s))"

text \<open>The update and the user lookup that end both branches of \<^verbatim>\<open>updateMember\<close>.\<close>

definition prj_update_and_return ::
  "timestamp \<Rightarrow> ident \<Rightarrow> ident \<Rightarrow> string \<Rightarrow> db \<Rightarrow> app_error + project_member_view \<times> db" where
  "prj_update_and_return now projectId userId role client =
     (let rows = prj_update_role now projectId userId role (project_memberships client);
          updateResult = filter (\<lambda>m. pm_project_id m = projectId \<and> pm_user_id m = userId) rows
      in case updateResult of
           [] \<Rightarrow> Inl (NotFoundError Membresia_de_proyecto)
         | updated # _ \<Rightarrow>
             let userResult = filter (\<lambda>u. u_id u = userId) (users client)
             in Inr (member_view updated (case userResult of [] \<Rightarrow> no_user | u # _ \<Rightarrow> u),
                     client\<lparr>project_memberships := rows\<rparr>))"

definition ProjectMembershipsService_updateMember_tx ::
  "timestamp \<Rightarrow> ident \<Rightarrow> ident \<Rightarrow> string \<Rightarrow> db \<Rightarrow> app_error + project_member_view \<times> db" where
  "ProjectMembershipsService_updateMember_tx now projectId userId role client =
     (let currentRole = filter (\<lambda>m. pm_project_id m = projectId \<and> pm_user_id m = userId)
            (project_memberships client) in
      case currentRole of
        [] \<Rightarrow> Inl (NotFoundError Membresia_de_proyecto)
      | current # _ \<Rightarrow>
          if pm_role current = ''OWNER'' \<and> prj_owner_count client projectId \<le> 1 then
            Inl (BusinessLogicError
              (''No se puede cambiar el rol del '' @ u_acute @ ''ltimo propietario''))
          else prj_update_and_return now projectId userId role client)"

definition ProjectMembershipsService_updateMember ::
  "db \<Rightarrow> timestamp \<Rightarrow> ident \<Rightarrow> ident \<Rightarrow> string \<Rightarrow> (app_error + project_member_view) \<times> db" where
  "ProjectMembershipsService_updateMember s now projectId userId role =
     (if role = [] then (Inl (BusinessLogicError ''El rol es requerido''), s)
      else if role \<notin> set prj_validRoles then
        (Inl (BusinessLogicError prj_invalid_role_message), s)
      else if role \<noteq> ''OWNER'' then
        transaction (ProjectMembershipsService_updateMember_tx now projectId userId role) s
      else transaction (prj_update_and_return now projectId userId role) s)"

definition ProjectMembershipsService_removeMember_tx ::
  "ident \<Rightarrow> ident \<Rightarrow> db \<Rightarrow> app_error + bool \<times> db" where
  "ProjectMembershipsService_removeMember_tx projectId userId client =
     (let currentRole = filter (\<lambda>m. pm_project_id m = projectId \<and> pm_user_id m = userId)
            (project_memberships client) in
      case currentRole of
        [] \<Rightarrow> Inl (NotFoundError Membresia_de_proyecto)
      | current # _ \<Rightarrow>
          if pm_role current = ''OWNER'' \<and> prj_owner_count client projectId \<le> 1 then
            Inl (BusinessLogicError
              (''No se puede eliminar al '' @ u_acute @ ''ltimo propietario''))
          else
            let deleteResult = filter (\<lambda>m. pm_project_id m = projectId \<and> pm_user_id m = userId)
                  (project_memberships client);
                client1 = client\<lparr>project_memberships :=
                  filter (\<lambda>m. \<not> (pm_project_id m = projectId \<and> pm_user_id m = userId))
                    (project_memberships client)\<rparr>
            in if deleteResult = [] then Inl (NotFoundError Membresia_de_proyecto)
               else Inr (True, client1))"

definition ProjectMembershipsService_removeMember ::
  "db \<Rightarrow> ident \<Rightarrow> ident \<Rightarrow> (app_error + bool) \<times> db" where
  "ProjectMembershipsService_removeMember s projectId userId =
     transaction (ProjectMembershipsService_removeMember_tx projectId userId) s"







section \<open>services/users.service.js\<close>

text \<open>\<^verbatim>\<open>`${membershipCount}`\<close>: a number in decimal.\<close>

definition decimal_digit :: "nat \<Rightarrow> char" where
  "decimal_digit d = ''0123456789'' ! d"

fun decimal :: "nat \<Rightarrow> string" where
  "decimal n =
     (if n < 10 then [decimal_digit n] else decimal (n div 10) @ [decimal_digit (n mod 10)])"

declare decimal.simps [simp del]

definition delete_user_message :: "nat \<Rightarrow> string" where
  "delete_user_message membershipCount =
     ''No se puede eliminar el usuario porque pertenece a '' @ decimal membershipCount @
     '' organizaci'' @ o_acute @ ''n(es). '' @
     ''Elimine primero las membres'' @ i_acute @ ''as del usuario.''"

definition UsersService_delete_tx :: "ident \<Rightarrow> db \<Rightarrow> app_error + bool \<times> db" where
  "UsersService_delete_tx userId client =
     (let membershipCount = length (filter (\<lambda>m. om_user_id m = userId)
            (organization_memberships client)) in
      if membershipCount > 0 then Inl (BusinessLogicError (delete_user_message membershipCount))
      else
        let client1 = client\<lparr>Account := filter (\<lambda>a. acc_user_id a \<noteq> userId) (Account client)\<rparr>;
            client2 = client1\<lparr>Session := filter (\<lambda>x. ses_user_id x \<noteq> userId) (Session client1)\<rparr>;
            result = filter (\<lambda>u. u_id u = userId) (users client2);
            client3 = client2\<lparr>users := filter (\<lambda>u. u_id u \<noteq> userId) (users client2)\<rparr>
        in if result = [] then Inl (NotFoundError ''Usuario'')
           else Inr (True, client3))"

definition UsersService_delete :: "db \<Rightarrow> ident \<Rightarrow> (app_error + bool) \<times> db" where
  "UsersService_delete s userId = transaction (UsersService_delete_tx userId) s"

section \<open>services/api-keys.service.js\<close>

text \<open>The columns the reading statements select, and what the writing ones return.\<close>

record api_key_view =
  akv_id :: ident
  akv_created_at :: timestamp
  akv_public_key :: string
  akv_display_secret_key :: string
  akv_last_used_at :: "timestamp option"
  akv_note :: "string option"
  akv_expires_at :: "timestamp option"

record api_key_detail = api_key_view +
  akd_project_id :: ident
  akd_project_name :: string

record created_api_key =
  ck_id :: ident
  ck_created_at :: timestamp
  ck_public_key :: string
  ck_display_secret_key :: string
  ck_note :: "string option"
  ck_expires_at :: "timestamp option"
  ck_secretKey :: string

record regenerated_api_key = api_key_view +
  rk_secretKey :: string

definition view_of :: "api_key_row \<Rightarrow> api_key_view" where
  "view_of k =
     \<lparr>akv_id = ak_id k, akv_created_at = ak_created_at k, akv_public_key = ak_public_key k,
      akv_display_secret_key = ak_display_secret_key k, akv_last_used_at = ak_last_used_at k,
      akv_note = ak_note k, akv_expires_at = ak_expires_at k\<rparr>"

text \<open>\<^verbatim>\<open>ORDER BY created_at DESC\<close>; rows created at the same instant keep their table
  order.\<close>

definition ApiKeysService_getByProject :: "db \<Rightarrow> ident \<Rightarrow> api_key_view list" where
  "ApiKeysService_getByProject s projectId =
     map view_of (sort_key (\<lambda>k. - ak_created_at k)
       (filter (\<lambda>k. ak_project_id k = projectId) (api_keys s)))"

definition ApiKeysService_getById :: "db \<Rightarrow> ident \<Rightarrow> app_error + api_key_detail" where
  "ApiKeysService_getById s id' =
     (let joined = concat (map (\<lambda>ak.
            map (\<lambda>p. (ak, p))
              (filter (\<lambda>p. ak_project_id ak = prj_id p \<and> prj_deleted_at p = None) (projects s)))
            (filter (\<lambda>ak. ak_id ak = id') (api_keys s)))
      in case joined of
           [] \<Rightarrow> Inl (NotFoundError ''API key'')
         | (ak, p) # _ \<Rightarrow>
             Inr (api_key_view.extend (view_of ak)
                    \<lparr>akd_project_id = prj_id p, akd_project_name = prj_name p\<rparr>))"

text \<open>
  The \<^verbatim>\<open>expiresAt\<close> argument as the service sees it: left out, \<^verbatim>\<open>null\<close>, another falsy
  value (the empty string), or a truthy value together with the time
  \<^verbatim>\<open>new Date(expiresAt).getTime()\<close> gives for it, \<open>None\<close> standing for \<^verbatim>\<open>NaN\<close>.
\<close>

datatype date_arg = Undefined | Null | Falsy | DateValue "timestamp option"

definition invalid_date_message :: string where
  "invalid_date_message =
     ''Formato de fecha de expiraci'' @ o_acute @ ''n inv'' @ a_acute @ ''lido''"

definition past_date_message :: string where
  "past_date_message = ''La fecha de expiraci'' @ o_acute @ ''n debe ser futura''"

text \<open>The validation that opens \<^verbatim>\<open>create\<close>, \<^verbatim>\<open>regenerate\<close> and \<^verbatim>\<open>updateExpiration\<close>.\<close>

definition parsedExpiresAt :: "timestamp \<Rightarrow> date_arg \<Rightarrow> app_error + timestamp option" where
  "parsedExpiresAt now expiresAt =
     (case expiresAt of
        DateValue t \<Rightarrow>
          (case t of
             None \<Rightarrow> Inl (BusinessLogicError invalid_date_message)
           | Some v \<Rightarrow>
               if v \<le> now then Inl (BusinessLogicError past_date_message) else Inr (Some v))
      | _ \<Rightarrow> Inr None)"

definition display_fragment :: "string \<Rightarrow> string" where
  "display_fragment secretKey = take 8 secretKey @ ''...''"

definition ApiKeysService_create_tx ::
  "(string \<Rightarrow> string) \<Rightarrow> timestamp \<Rightarrow> rng \<Rightarrow> ident \<Rightarrow> string option \<Rightarrow> timestamp option \<Rightarrow> db
     \<Rightarrow> app_error + created_api_key \<times> db" where
  "ApiKeysService_create_tx sha256_hex now g projectId note parsed client =
     (let projectCheck = filter (\<lambda>p. prj_id p = projectId \<and> prj_deleted_at p = None)
            (projects client) in
      if projectCheck = [] then Inl (NotFoundError ''Proyecto'')
      else
        let publicKey = generateApiKey ''pk'' (pk_bytes g);
            secretKey = generateApiKey ''sk'' (sk_bytes g);
            hashedSecretKey = hashSecretKey sha256_hex secretKey;
            apiKeyId = generateId ''key'' g now;
            row = \<lparr>ak_id = apiKeyId, ak_project_id = projectId, ak_created_at = now,
              ak_updated_at = None, ak_public_key = publicKey,
              ak_hashed_secret_key = hashedSecretKey,
              ak_display_secret_key = display_fragment secretKey,
              ak_note = note, ak_expires_at = parsed, ak_last_used_at = None\<rparr>
        in Inr (\<lparr>ck_id = ak_id row, ck_created_at = ak_created_at row,
                  ck_public_key = ak_public_key row,
                  ck_display_secret_key = ak_display_secret_key row,
                  ck_note = ak_note row, ck_expires_at = ak_expires_at row,
                  ck_secretKey = secretKey\<rparr>,
                client\<lparr>api_keys := api_keys client @ [row]\<rparr>))"

definition ApiKeysService_create ::
  "(string \<Rightarrow> string) \<Rightarrow> db \<Rightarrow> timestamp \<Rightarrow> rng \<Rightarrow> ident \<Rightarrow> string option \<Rightarrow> date_arg
     \<Rightarrow> (app_error + created_api_key) \<times> db" where
  "ApiKeysService_create sha256_hex s now g projectId note expiresAt =
     (case parsedExpiresAt now expiresAt of
        Inl error \<Rightarrow> (Inl error, s)
      | Inr parsed \<Rightarrow>
          transaction (ApiKeysService_create_tx sha256_hex now g projectId note parsed) s)"

definition ApiKeysService_regenerate_tx ::
  "(string \<Rightarrow> string) \<Rightarrow> timestamp \<Rightarrow> rng \<Rightarrow> ident \<Rightarrow> date_arg \<Rightarrow> timestamp option \<Rightarrow> db
     \<Rightarrow> app_error + regenerated_api_key \<times> db" where
  "ApiKeysService_regenerate_tx sha256_hex now g id' expiresAt parsed client =
     (let apiKeyCheck = filter (\<lambda>k. ak_id k = id') (api_keys client) in
      case apiKeyCheck of
        [] \<Rightarrow> Inl (NotFoundError ''API key'')
      | existingKey # _ \<Rightarrow>
          let parsed' =
                (if (expiresAt = Undefined \<or> expiresAt = Null) \<and> ak_expires_at existingKey \<noteq> None
                 then ak_expires_at existingKey else parsed);
              publicKey = generateApiKey ''pk'' (pk_bytes g);
              secretKey = generateApiKey ''sk'' (sk_bytes g);
              hashedSecretKey = hashSecretKey sha256_hex secretKey;
              rows = map (\<lambda>k. if ak_id k = id'
                    then k\<lparr>ak_public_key := publicKey, ak_hashed_secret_key := hashedSecretKey,
                           ak_display_secret_key := display_fragment secretKey,
                           ak_updated_at := Some now, ak_expires_at := parsed'\<rparr>
                    else k) (api_keys client);
              apiKeyResult = filter (\<lambda>k. ak_id k = id') rows
          in case apiKeyResult of
               [] \<Rightarrow> Inl (NotFoundError ''API key'')
             | updated # _ \<Rightarrow>
                 Inr (api_key_view.extend (view_of updated) \<lparr>rk_secretKey = secretKey\<rparr>,
                      client\<lparr>api_keys := rows\<rparr>))"

definition ApiKeysService_regenerate ::
  "(string \<Rightarrow> string) \<Rightarrow> db \<Rightarrow> timestamp \<Rightarrow> rng \<Rightarrow> ident \<Rightarrow> date_arg
     \<Rightarrow> (app_error + regenerated_api_key) \<times> db" where
  "ApiKeysService_regenerate sha256_hex s now g id' expiresAt =
     (case parsedExpiresAt now expiresAt of
        Inl error \<Rightarrow> (Inl error, s)
      | Inr parsed \<Rightarrow>
          transaction (ApiKeysService_regenerate_tx sha256_hex now g id' expiresAt parsed) s)"

definition ApiKeysService_updateExpiration ::
  "db \<Rightarrow> timestamp \<Rightarrow> ident \<Rightarrow> date_arg \<Rightarrow> (app_error + api_key_view) \<times> db" where
  "ApiKeysService_updateExpiration s now id' expiresAt =
     (case parsedExpiresAt now expiresAt of
        Inl error \<Rightarrow> (Inl error, s)
      | Inr parsed \<Rightarrow>
          let rows = map (\<lambda>k. if ak_id k = id'
                  then k\<lparr>ak_expires_at := parsed, ak_updated_at := Some now\<rparr> else k) (api_keys s);
              result = filter (\<lambda>k. ak_id k = id') rows
          in case result of
               [] \<Rightarrow> (Inl (NotFoundError ''API key''), s)
             | updated # _ \<Rightarrow> (Inr (view_of updated), s\<lparr>api_keys := rows\<rparr>))"

text \<open>What \<^verbatim>\<open>verify\<close> returns on a match: the project without \<^verbatim>\<open>deleted_at\<close>.\<close>

record project_data =
  pd_id :: ident
  pd_org_id :: ident
  pd_name :: string

definition ApiKeysService_verify ::
  "(string \<Rightarrow> string) \<Rightarrow> db \<Rightarrow> timestamp \<Rightarrow> string \<Rightarrow> string \<Rightarrow> project_data option \<times> db" where
  "ApiKeysService_verify sha256_hex s now publicKey secretKey =
     (if publicKey = [] \<or> secretKey = [] then (None, s)
      else
        case filter (\<lambda>k. ak_public_key k = publicKey) (api_keys s) of
          [] \<Rightarrow> (None, s)
        | apiKey # _ \<Rightarrow>
            if (case ak_expires_at apiKey of None \<Rightarrow> False | Some e \<Rightarrow> e < now) then (None, s)
            else
              let hashedSecret = hashSecretKey sha256_hex secretKey in
              if hashedSecret \<noteq> ak_hashed_secret_key apiKey then (None, s)
              else
                case filter (\<lambda>p. prj_id p = ak_project_id apiKey) (projects s) of
                  [] \<Rightarrow> (None, s)
                | project # _ \<Rightarrow>
                    if prj_deleted_at project \<noteq> None then (None, s)
                    else
                      (Some \<lparr>pd_id = prj_id project, pd_org_id = prj_org_id project,
                             pd_name = prj_name project\<rparr>,
                       s\<lparr>api_keys := map (\<lambda>k. if ak_public_key k = publicKey
                              then k\<lparr>ak_last_used_at := Some now\<rparr> else k) (api_keys s)\<rparr>))"

text \<open>The datastore with the stored hashes blanked: what is left of the key material is
  the public key and the display fragment.\<close>

definition without_hashes :: "db \<Rightarrow> db" where
  "without_hashes s =
     s\<lparr>api_keys := map (\<lambda>k. k\<lparr>ak_hashed_secret_key := []\<rparr>) (api_keys s)\<rparr>"

section \<open>services/projects.service.js\<close>

record project_api_keys =
  publicKey :: string
  secretKey :: string

record created_project =
  project :: project_row
  apiKeys :: project_api_keys

text \<open>
  A query that the database rejects (a constraint of the schema, which is not part of the
  repository, or a lost connection) makes \<^verbatim>\<open>client.query\<close> throw. For project creation
  the outcome of each of the three queries of its transaction is an input: \<open>faults\<close> gives,
  for each query, the error the driver throws, if it throws. An error of the driver has a
  name, a code and a message as the application's errors have, and is written as a value
  of the same type.
\<close>

record faults =
  org_check_fault :: "app_error option"
  project_insert_fault :: "app_error option"
  key_insert_fault :: "app_error option"

definition no_faults :: faults where
  "no_faults = \<lparr>org_check_fault = None, project_insert_fault = None, key_insert_fault = None\<rparr>"

definition ProjectsService_create_tx ::
  "(string \<Rightarrow> string) \<Rightarrow> timestamp \<Rightarrow> rng \<Rightarrow> faults \<Rightarrow> string \<Rightarrow> ident \<Rightarrow> db
     \<Rightarrow> app_error + created_project \<times> db" where
  "ProjectsService_create_tx sha256_hex now g f name orgId client =
     (case org_check_fault f of
        Some error \<Rightarrow> Inl error
      | None \<Rightarrow>
          let orgCheck = filter (\<lambda>r. org_id r = orgId) (organizations client) in
          if orgCheck = [] then Inl (NotFoundError Organizacion)
          else
            let projectId = generateId ''prj'' g now in
            case project_insert_fault f of
              Some error \<Rightarrow> Inl error
            | None \<Rightarrow>
                let row = \<lparr>prj_id = projectId, prj_name = trim name, prj_org_id = orgId,
                      prj_deleted_at = None, prj_created_at = now, prj_updated_at = now\<rparr>;
                    client1 = client\<lparr>projects := projects client @ [row]\<rparr>;
                    pk = generateApiKey ''pk'' (pk_bytes g);
                    sk = generateApiKey ''sk'' (sk_bytes g);
                    hashedSecretKey = hashSecretKey sha256_hex sk;
                    apiKeyId = generateId ''key'' g now
                in case key_insert_fault f of
                     Some error \<Rightarrow> Inl error
                   | None \<Rightarrow>
                       let client2 = client1\<lparr>api_keys := api_keys client1 @
                             [\<lparr>ak_id = apiKeyId, ak_project_id = projectId, ak_created_at = now,
                               ak_updated_at = None, ak_public_key = pk,
                               ak_hashed_secret_key = hashedSecretKey,
                               ak_display_secret_key = display_fragment sk,
                               ak_note = None, ak_expires_at = None, ak_last_used_at = None\<rparr>]\<rparr>
                       in Inr (\<lparr>project = row, apiKeys = \<lparr>publicKey = pk, secretKey = sk\<rparr>\<rparr>,
                               client2))"

definition ProjectsService_create ::
  "(string \<Rightarrow> string) \<Rightarrow> db \<Rightarrow> timestamp \<Rightarrow> rng \<Rightarrow> faults \<Rightarrow> string \<Rightarrow> ident
     \<Rightarrow> (app_error + created_project) \<times> db" where
  "ProjectsService_create sha256_hex s now g f name orgId =
     (if name = [] \<or> trim name = [] then (Inl (BusinessLogicError ''El nombre es requerido''), s)
      else if orgId = [] then
        (Inl (BusinessLogicError (''El ID de organizaci'' @ o_acute @ ''n es requerido'')), s)
      else transaction (ProjectsService_create_tx sha256_hex now g f name orgId) s)"

section \<open>Sequences of membership operations\<close>

text \<open>
  A call that fails leaves the datastore as it was, so a sequence of calls is followed
  through the datastore each call leaves behind, whatever the call returned.
\<close>

datatype org_op =
    OrgCreate timestamp rng string ident
  | OrgAddMember timestamp rng ident ident "string option"
  | OrgUpdateMember timestamp ident ident string
  | OrgRemoveMember ident ident

fun org_step :: "db \<Rightarrow> org_op \<Rightarrow> db" where
  "org_step s (OrgCreate now g name userId) =
     snd (OrganizationsService_create s now g name userId)"
| "org_step s (OrgAddMember now g orgId userId role) =
     snd (OrganizationsService_addMember s now g orgId userId role)"
| "org_step s (OrgUpdateMember now orgId userId role) =
     snd (OrganizationsService_updateMember s now orgId userId role)"
| "org_step s (OrgRemoveMember orgId userId) =
     snd (OrganizationsService_removeMember s orgId userId)"

fun org_run :: "db \<Rightarrow> org_op list \<Rightarrow> db" where
  "org_run s [] = s"
| "org_run s (op # ops) = org_run (org_step s op) ops"

definition org_member_count :: "db \<Rightarrow> ident \<Rightarrow> nat" where
  "org_member_count s orgId =
     length (filter (\<lambda>m. om_org_id m = orgId) (organization_memberships s))"

text \<open>
  The state the organization operations maintain: a user has at most one membership in
  an organization, and every organization that has a row or a membership has an OWNER.
\<close>

definition org_consistent :: "db \<Rightarrow> bool" where
  "org_consistent s =
     (distinct (map (\<lambda>m. (om_org_id m, om_user_id m)) (organization_memberships s)) \<and>
      list_all (\<lambda>r. 1 \<le> org_owner_count s (org_id r)) (organizations s) \<and>
      list_all (\<lambda>m. 1 \<le> org_owner_count s (om_org_id m)) (organization_memberships s))"

text \<open>The identifier generator's contract: an identifier it returns is not in use.\<close>

definition fresh_org_id :: "db \<Rightarrow> ident \<Rightarrow> bool" where
  "fresh_org_id s i =
     (i \<notin> set (map org_id (organizations s)) \<and>
      i \<notin> set (map om_org_id (organization_memberships s)))"

fun ids_fresh :: "db \<Rightarrow> org_op list \<Rightarrow> bool" where
  "ids_fresh s [] = True"
| "ids_fresh s (OrgCreate now g name userId # ops) =
     (fresh_org_id s (generateId ''org'' g now) \<and>
      ids_fresh (org_step s (OrgCreate now g name userId)) ops)"
| "ids_fresh s (op # ops) = ids_fresh (org_step s op) ops"

datatype prj_op =
    PrjAddMember timestamp rng ident ident "string option"
  | PrjUpdateMember timestamp ident ident string
  | PrjRemoveMember ident ident

fun prj_step :: "db \<Rightarrow> prj_op \<Rightarrow> db" where
  "prj_step s (PrjAddMember now g projectId userId role) =
     snd (ProjectMembershipsService_addMember s now g projectId userId role)"
| "prj_step s (PrjUpdateMember now projectId userId role) =
     snd (ProjectMembershipsService_updateMember s now projectId userId role)"
| "prj_step s (PrjRemoveMember projectId userId) =
     snd (ProjectMembershipsService_removeMember s projectId userId)"

fun prj_run :: "db \<Rightarrow> prj_op list \<Rightarrow> db" where
  "prj_run s [] = s"
| "prj_run s (op # ops) = prj_run (prj_step s op) ops"

definition prj_member_count :: "db \<Rightarrow> ident \<Rightarrow> nat" where
  "prj_member_count s projectId =
     length (filter (\<lambda>m. pm_project_id m = projectId) (project_memberships s))"

definition pm_unique :: "db \<Rightarrow> bool" where
  "pm_unique s =
     distinct (map (\<lambda>m. (pm_project_id m, pm_user_id m)) (project_memberships s))"

text \<open>
  The table of project memberships has one row per (project, user) and holds an OWNER of
  the project \<open>p\<close>.
\<close>

definition pm_ok :: "project_membership_row list \<Rightarrow> ident \<Rightarrow> bool" where
  "pm_ok rows p =
     (distinct (map (\<lambda>m. (pm_project_id m, pm_user_id m)) rows) \<and>
      1 \<le> length (filter (\<lambda>m. pm_project_id m = p \<and> pm_role m = ''OWNER'') rows))"

section \<open>Example data\<close>

text \<open>
  Three users; the organization Acme as \<open>create\<close> leaves it, with the first user its
  only member and OWNER; the project Apollo of Acme, first without members, then with
  the first user as its only member and OWNER; Acme with an account and a session of
  the second user, who belongs to no organization.
\<close>

definition draw :: "string \<Rightarrow> string \<Rightarrow> 8 word \<Rightarrow> 8 word \<Rightarrow> rng" where
  "draw c n p k = \<lparr>cuid_out = c, nanoid_out = n, pk_bytes = replicate 16 p,
     sk_bytes = replicate 16 k\<rparr>"

definition usr_1 :: user_row where
  "usr_1 = \<lparr>u_id = ''usr_1'', u_name = ''Ana'', u_email = ''ana@example.com'', u_image = None\<rparr>"

definition usr_2 :: user_row where
  "usr_2 = \<lparr>u_id = ''usr_2'', u_name = ''Luis'', u_email = ''luis@example.com'', u_image = None\<rparr>"

definition usr_3 :: user_row where
  "usr_3 = \<lparr>u_id = ''usr_3'', u_name = ''Eva'', u_email = ''eva@example.com'', u_image = None\<rparr>"

definition three_users :: db where
  "three_users = empty_db\<lparr>users := [usr_1, usr_2, usr_3]\<rparr>"

definition acme_owner :: organization_membership_row where
  "acme_owner = \<lparr>om_id = ''om_1a'', om_org_id = ''corg1'', om_user_id = ''usr_1'',
     om_role = ''OWNER'', om_created_at = 1, om_updated_at = 1\<rparr>"

definition acme_db :: db where
  "acme_db = three_users\<lparr>
     organizations := [\<lparr>org_id = ''corg1'', org_name = ''Acme'', org_created_at = 1,
       org_updated_at = 1\<rparr>],
     organization_memberships := [acme_owner]\<rparr>"

definition apollo :: project_row where
  "apollo = \<lparr>prj_id = ''cprj1'', prj_name = ''Apollo'', prj_org_id = ''corg1'',
     prj_deleted_at = None, prj_created_at = 2, prj_updated_at = 2\<rparr>"

definition apollo_db :: db where
  "apollo_db = acme_db\<lparr>projects := [apollo]\<rparr>"

definition apollo_owner :: project_membership_row where
  "apollo_owner = \<lparr>pm_project_id = ''cprj1'', pm_user_id = ''usr_1'',
     pm_org_membership_id = ''om_1a'', pm_role = ''OWNER'', pm_created_at = 3,
     pm_updated_at = 3\<rparr>"

definition apollo_owned_db :: db where
  "apollo_owned_db = apollo_db\<lparr>project_memberships := [apollo_owner]\<rparr>"

definition linked_db :: db where
  "linked_db = acme_db\<lparr>
     Account := [\<lparr>acc_id = ''acc_1'', acc_user_id = ''usr_2''\<rparr>],
     Session := [\<lparr>ses_id = ''ses_1'', ses_user_id = ''usr_2''\<rparr>]\<rparr>"



text \<open>
  In examples the digest is a stand-in: the reversed input, or the reversed input cut or
  padded with zeros to the 64 characters of a SHA-256 digest in hexadecimal. The theorems
  hold for every digest function. Apollo's key is the row
  \<open>create(''cprj1'', {note: ''ci'', expiresAt: 1000})\<close> inserts at time 10 when the generators
  return the bytes 01...01 and 02...02 and the characters \<open>k\<close>.
\<close>

definition toy_digest :: "string \<Rightarrow> string" where
  "toy_digest x = rev x"

definition padded_digest :: "string \<Rightarrow> string" where
  "padded_digest x = take 64 (rev x @ replicate 64 CHR ''0'')"

text \<open>What the driver throws when an \<^verbatim>\<open>INSERT\<close> breaks a unique constraint; the error
  has no status, written 0.\<close>

definition unique_violation :: app_error where
  "unique_violation =
     AppError ''error'' 0 ''23505'' ''duplicate key value violates unique constraint'' None []"

definition apollo_key :: api_key_row where
  "apollo_key =
     \<lparr>ak_id = ''key_ak'', ak_project_id = ''cprj1'', ak_created_at = 10, ak_updated_at = None,
      ak_public_key = generateApiKey ''pk'' (replicate 16 1),
      ak_hashed_secret_key = hashSecretKey toy_digest (generateApiKey ''sk'' (replicate 16 2)),
      ak_display_secret_key = display_fragment (generateApiKey ''sk'' (replicate 16 2)),
      ak_note = Some ''ci'', ak_expires_at = Some 1000, ak_last_used_at = None\<rparr>"

definition apollo_key_db :: db where
  "apollo_key_db = apollo_db\<lparr>api_keys := [apollo_key]\<rparr>"

text \<open>The scenario of the specification: Acme is created by the first user, the second joins
  as ADMIN, the demotion of the first is refused, the third joins as OWNER, and the
  demotion of the first is accepted.\<close>

definition acme_scenario :: "org_op list" where
  "acme_scenario =
     [OrgCreate 1 (draw ''corg1'' ''a'' 1 2) ''Acme'' ''usr_1'',
      OrgAddMember 2 (draw [] ''b'' 1 2) ''corg1'' ''usr_2'' (Some ''ADMIN''),
      OrgUpdateMember 3 ''corg1'' ''usr_1'' ''VIEWER'',
      OrgAddMember 4 (draw [] ''c'' 1 2) ''corg1'' ''usr_3'' (Some ''OWNER''),
      OrgUpdateMember 5 ''corg1'' ''usr_1'' ''VIEWER'']"

section \<open>Verification\<close>

lemma distinct_filter_key_le1:
  "distinct (map f xs) \<Longrightarrow> length (filter (\<lambda>x. f x = k) xs) \<le> 1"
  by (induction xs) (auto simp: image_iff filter_empty_conv)

lemma org_update_role_keys:
  "map (\<lambda>m. (om_org_id m, om_user_id m)) (org_update_role now orgId userId role rows) =
   map (\<lambda>m. (om_org_id m, om_user_id m)) rows"
  by (induction rows) (auto simp: org_update_role_def)

lemma org_update_role_absent:
  "(orgId, userId) \<notin> set (map (\<lambda>m. (om_org_id m, om_user_id m)) rows) \<Longrightarrow>
   org_update_role now orgId userId role rows = rows"
  by (induction rows) (auto simp: org_update_role_def)

lemma org_update_role_owner_drop:
  "distinct (map (\<lambda>m. (om_org_id m, om_user_id m)) rows) \<Longrightarrow>
   length (filter (\<lambda>m. om_org_id m = oid \<and> om_role m = ''OWNER'') rows) \<le>
   Suc (length (filter (\<lambda>m. om_org_id m = oid \<and> om_role m = ''OWNER'')
     (org_update_role now orgId userId role rows)))"
proof (induction rows)
  case Nil
  then show ?case by (simp add: org_update_role_def)
next
  case (Cons m rows)
  show ?case
  proof (cases "om_org_id m = orgId \<and> om_user_id m = userId")
    case True
    with Cons.prems have "(orgId, userId) \<notin> set (map (\<lambda>m. (om_org_id m, om_user_id m)) rows)"
      by auto
    then have "org_update_role now orgId userId role rows = rows"
      by (rule org_update_role_absent)
    then have "org_update_role now orgId userId role (m # rows) =
        m\<lparr>om_role := role, om_updated_at := now\<rparr> # rows"
      using True by (simp add: org_update_role_def)
    then show ?thesis by simp
  next
    case False
    then have "org_update_role now orgId userId role (m # rows) =
        m # org_update_role now orgId userId role rows"
      by (auto simp: org_update_role_def)
    with Cons show ?thesis by auto
  qed
qed

lemma org_update_role_owner_keep:
  "\<forall>m \<in> set rows. om_org_id m = orgId \<and> om_user_id m = userId \<longrightarrow>
      \<not> (om_org_id m = oid \<and> om_role m = ''OWNER'') \<Longrightarrow>
   length (filter (\<lambda>m. om_org_id m = oid \<and> om_role m = ''OWNER'') rows) \<le>
   length (filter (\<lambda>m. om_org_id m = oid \<and> om_role m = ''OWNER'')
     (org_update_role now orgId userId role rows))"
  by (induction rows) (auto simp: org_update_role_def)

lemma org_update_role_owner_promote:
  "length (filter (\<lambda>m. om_org_id m = oid \<and> om_role m = ''OWNER'') rows) \<le>
   length (filter (\<lambda>m. om_org_id m = oid \<and> om_role m = ''OWNER'')
     (org_update_role now orgId userId ''OWNER'' rows))"
  by (induction rows) (auto simp: org_update_role_def)

lemma org_delete_owner_drop:
  "distinct (map (\<lambda>m. (om_org_id m, om_user_id m)) rows) \<Longrightarrow>
   length (filter (\<lambda>m. om_org_id m = oid \<and> om_role m = ''OWNER'') rows) \<le>
   Suc (length (filter (\<lambda>m. om_org_id m = oid \<and> om_role m = ''OWNER'')
     (filter (\<lambda>m. \<not> (om_org_id m = orgId \<and> om_user_id m = userId)) rows)))"
proof (induction rows)
  case Nil
  then show ?case by simp
next
  case (Cons m rows)
  show ?case
  proof (cases "om_org_id m = orgId \<and> om_user_id m = userId")
    case True
    with Cons.prems have "\<forall>x \<in> set rows. \<not> (om_org_id x = orgId \<and> om_user_id x = userId)"
      by (auto simp: image_iff)
    then have "filter (\<lambda>m. \<not> (om_org_id m = orgId \<and> om_user_id m = userId)) rows = rows"
      by (simp add: filter_id_conv)
    with True show ?thesis by simp
  next
    case False
    with Cons show ?thesis by auto
  qed
qed

lemma org_delete_owner_keep:
  "\<forall>m \<in> set rows. om_org_id m = orgId \<and> om_user_id m = userId \<longrightarrow>
      \<not> (om_org_id m = oid \<and> om_role m = ''OWNER'') \<Longrightarrow>
   length (filter (\<lambda>m. om_org_id m = oid \<and> om_role m = ''OWNER'')
     (filter (\<lambda>m. \<not> (om_org_id m = orgId \<and> om_user_id m = userId)) rows)) =
   length (filter (\<lambda>m. om_org_id m = oid \<and> om_role m = ''OWNER'') rows)"
  by (induction rows) auto

lemma filter_key_single:
  assumes "distinct (map f xs)" and "filter (\<lambda>x. f x = k) xs = y # ys"
  shows "ys = []" and "\<forall>x \<in> set xs. f x = k \<longrightarrow> x = y"
proof -
  have "length (filter (\<lambda>x. f x = k) xs) \<le> 1"
    using assms(1) by (rule distinct_filter_key_le1)
  with assms(2) show ys: "ys = []" by simp
  show "\<forall>x \<in> set xs. f x = k \<longrightarrow> x = y"
  proof (intro ballI impI)
    fix x assume "x \<in> set xs" "f x = k"
    then have "x \<in> set (filter (\<lambda>x. f x = k) xs)" by simp
    with assms(2) ys show "x = y" by simp
  qed
qed

lemma org_consistent_iff:
  "org_consistent s \<longleftrightarrow>
     distinct (map (\<lambda>m. (om_org_id m, om_user_id m)) (organization_memberships s)) \<and>
     (\<forall>oid \<in> org_id ` set (organizations s) \<union> om_org_id ` set (organization_memberships s).
        1 \<le> org_owner_count s oid)"
  by (auto simp: org_consistent_def list_all_iff)

lemma OrganizationsService_create_cases:
  "snd (OrganizationsService_create s now g name userId) = s \<or>
   snd (OrganizationsService_create s now g name userId) =
     s\<lparr>organizations := organizations s @
          [\<lparr>org_id = generateId ''org'' g now, org_name = trim name,
            org_created_at = now, org_updated_at = now\<rparr>],
        organization_memberships := organization_memberships s @
          [\<lparr>om_id = generateId ''om'' g now, om_org_id = generateId ''org'' g now,
            om_user_id = userId, om_role = ''OWNER'', om_created_at = now,
            om_updated_at = now\<rparr>]\<rparr>"
  by (simp add: OrganizationsService_create_def OrganizationsService_create_tx_def
      transaction_def Let_def)

lemma org_owner_count_mono_list_all:
  assumes "\<And>oid. org_owner_count s oid \<le> org_owner_count s' oid"
    and "list_all (\<lambda>x. 1 \<le> org_owner_count s (f x)) xs"
  shows "list_all (\<lambda>x. 1 \<le> org_owner_count s' (f x)) xs"
  using assms(2) by (induction xs) (auto intro: order_trans [OF _ assms(1)])

lemma org_create_consistent:
  assumes "org_consistent s" and "fresh_org_id s (generateId ''org'' g now)"
  shows "org_consistent (snd (OrganizationsService_create s now g name userId))"
proof -
  let ?oid = "generateId ''org'' g now"
  let ?s' = "s\<lparr>organizations := organizations s @
          [\<lparr>org_id = ?oid, org_name = trim name,
            org_created_at = now, org_updated_at = now\<rparr>],
        organization_memberships := organization_memberships s @
          [\<lparr>om_id = generateId ''om'' g now, om_org_id = ?oid,
            om_user_id = userId, om_role = ''OWNER'', om_created_at = now,
            om_updated_at = now\<rparr>]\<rparr>"
  have mono: "\<And>oid. org_owner_count s oid \<le> org_owner_count ?s' oid"
    by (simp add: org_owner_count_def)
  have new: "1 \<le> org_owner_count ?s' ?oid"
    by (simp add: org_owner_count_def)
  have d: "distinct (map (\<lambda>m. (om_org_id m, om_user_id m)) (organization_memberships ?s'))"
    using assms by (auto simp: org_consistent_def fresh_org_id_def)
  have "org_consistent ?s'"
    unfolding org_consistent_def
  proof (intro conjI)
    show "distinct (map (\<lambda>m. (om_org_id m, om_user_id m)) (organization_memberships ?s'))"
      by (rule d)
    have "list_all (\<lambda>r. 1 \<le> org_owner_count ?s' (org_id r)) (organizations s)"
      by (rule org_owner_count_mono_list_all [OF mono]) (use assms(1) in \<open>simp add: org_consistent_def\<close>)
    then show "list_all (\<lambda>r. 1 \<le> org_owner_count ?s' (org_id r)) (organizations ?s')"
      using new by simp
    have "list_all (\<lambda>m. 1 \<le> org_owner_count ?s' (om_org_id m)) (organization_memberships s)"
      by (rule org_owner_count_mono_list_all [OF mono]) (use assms(1) in \<open>simp add: org_consistent_def\<close>)
    then show "list_all (\<lambda>m. 1 \<le> org_owner_count ?s' (om_org_id m)) (organization_memberships ?s')"
      using new by simp
  qed
  then show ?thesis
    using OrganizationsService_create_cases [of s now g name userId] assms(1) by auto
qed

lemma OrganizationsService_addMember_cases:
  "snd (OrganizationsService_addMember s now g orgId userId role) = s \<or>
   (filter (\<lambda>r. org_id r = orgId) (organizations s) \<noteq> [] \<and>
    filter (\<lambda>m. om_org_id m = orgId \<and> om_user_id m = userId) (organization_memberships s) = [] \<and>
    snd (OrganizationsService_addMember s now g orgId userId role) =
      s\<lparr>organization_memberships := organization_memberships s @
        [\<lparr>om_id = generateId ''om'' g now, om_org_id = orgId, om_user_id = userId,
          om_role = (case role of None \<Rightarrow> ''VIEWER'' | Some r \<Rightarrow> r),
          om_created_at = now, om_updated_at = now\<rparr>]\<rparr>)"
  by (simp add: OrganizationsService_addMember_def OrganizationsService_addMember_tx_def
      transaction_def Let_def)

lemma org_addMember_consistent:
  assumes "org_consistent s"
  shows "org_consistent (snd (OrganizationsService_addMember s now g orgId userId role))"
proof -
  from OrganizationsService_addMember_cases [of s now g orgId userId role]
  show ?thesis
  proof (elim disjE conjE)
    assume "snd (OrganizationsService_addMember s now g orgId userId role) = s"
    with assms show ?thesis by simp
  next
    define row where "row = \<lparr>om_id = generateId ''om'' g now, om_org_id = orgId, om_user_id = userId,
          om_role = (case role of None \<Rightarrow> ''VIEWER'' | Some r \<Rightarrow> r),
          om_created_at = now, om_updated_at = now\<rparr>"
    have row: "om_org_id row = orgId" "om_user_id row = userId" by (simp_all add: row_def)
    assume org: "filter (\<lambda>r. org_id r = orgId) (organizations s) \<noteq> []"
      and nomem: "filter (\<lambda>m. om_org_id m = orgId \<and> om_user_id m = userId)
         (organization_memberships s) = []"
      and eq0: "snd (OrganizationsService_addMember s now g orgId userId role) =
        s\<lparr>organization_memberships := organization_memberships s @
        [\<lparr>om_id = generateId ''om'' g now, om_org_id = orgId, om_user_id = userId,
          om_role = (case role of None \<Rightarrow> ''VIEWER'' | Some r \<Rightarrow> r),
          om_created_at = now, om_updated_at = now\<rparr>]\<rparr>"
    have eq: "snd (OrganizationsService_addMember s now g orgId userId role) =
        s\<lparr>organization_memberships := organization_memberships s @ [row]\<rparr>"
      using eq0 by (simp add: row_def)
    let ?s' = "s\<lparr>organization_memberships := organization_memberships s @ [row]\<rparr>"
    have mono: "\<And>oid. org_owner_count s oid \<le> org_owner_count ?s' oid"
      by (simp add: org_owner_count_def)
    from org obtain r where r: "r \<in> set (organizations s)" "org_id r = orgId"
      by (auto simp: filter_empty_conv)
    have "1 \<le> org_owner_count s orgId"
      using assms r by (auto simp: org_consistent_def list_all_iff)
    then have new: "1 \<le> org_owner_count ?s' orgId"
      using mono [of orgId] by linarith
    have d: "distinct (map (\<lambda>m. (om_org_id m, om_user_id m)) (organization_memberships ?s'))"
      using assms nomem row by (auto simp: org_consistent_def filter_empty_conv)
    have "org_consistent ?s'"
      unfolding org_consistent_def
    proof (intro conjI)
      show "distinct (map (\<lambda>m. (om_org_id m, om_user_id m)) (organization_memberships ?s'))"
        by (rule d)
      have "list_all (\<lambda>r. 1 \<le> org_owner_count ?s' (org_id r)) (organizations s)"
        by (rule org_owner_count_mono_list_all [OF mono]) (use assms(1) in \<open>simp add: org_consistent_def\<close>)
      then show "list_all (\<lambda>r. 1 \<le> org_owner_count ?s' (org_id r)) (organizations ?s')"
        by simp
      have "list_all (\<lambda>m. 1 \<le> org_owner_count ?s' (om_org_id m)) (organization_memberships s)"
        by (rule org_owner_count_mono_list_all [OF mono]) (use assms(1) in \<open>simp add: org_consistent_def\<close>)
      then show "list_all (\<lambda>m. 1 \<le> org_owner_count ?s' (om_org_id m)) (organization_memberships ?s')"
        using new row by simp
    qed
    with eq show ?thesis by simp
  qed
qed


lemma OrganizationsService_updateMember_cases:
  "snd (OrganizationsService_updateMember s now orgId userId role) = s \<or>
   (snd (OrganizationsService_updateMember s now orgId userId role) =
      s\<lparr>organization_memberships :=
          org_update_role now orgId userId role (organization_memberships s)\<rparr> \<and>
    (role = ''OWNER'' \<or>
     (\<exists>current rest.
        filter (\<lambda>m. om_org_id m = orgId \<and> om_user_id m = userId) (organization_memberships s) =
          current # rest \<and>
        \<not> (om_role current = ''OWNER'' \<and> org_owner_count s orgId \<le> 1))))"
  by (auto simp: OrganizationsService_updateMember_def OrganizationsService_updateMember_tx_def
      transaction_def Let_def split: list.splits)

lemma org_updateMember_consistent:
  assumes "org_consistent s"
  shows "org_consistent (snd (OrganizationsService_updateMember s now orgId userId role))"
proof -
  let ?rows = "organization_memberships s"
  let ?s' = "s\<lparr>organization_memberships := org_update_role now orgId userId role ?rows\<rparr>"
  have d: "distinct (map (\<lambda>m. (om_org_id m, om_user_id m)) ?rows)"
    using assms by (simp add: org_consistent_iff)
  have orgs: "om_org_id ` set (org_update_role now orgId userId role ?rows) = om_org_id ` set ?rows"
  proof -
    have "map om_org_id (org_update_role now orgId userId role ?rows) = map om_org_id ?rows"
      by (induction ?rows) (auto simp: org_update_role_def)
    then show ?thesis by (metis set_map)
  qed
  have step: "org_consistent ?s'"
    if ok: "role = ''OWNER'' \<or> (\<exists>current rest.
        filter (\<lambda>m. om_org_id m = orgId \<and> om_user_id m = userId) ?rows = current # rest \<and>
        \<not> (om_role current = ''OWNER'' \<and> org_owner_count s orgId \<le> 1))"
  proof -
    have keep: "1 \<le> org_owner_count ?s' oid" if one: "1 \<le> org_owner_count s oid" for oid
    proof (cases "role = ''OWNER''")
      case True
      then show ?thesis
        using org_update_role_owner_promote [of oid ?rows now orgId userId] one
        by (simp add: org_owner_count_def)
    next
      case False
      with ok obtain current rest where
        cur: "filter (\<lambda>m. om_org_id m = orgId \<and> om_user_id m = userId) ?rows = current # rest"
        and guard: "\<not> (om_role current = ''OWNER'' \<and> org_owner_count s orgId \<le> 1)"
        by blast
      have cur': "filter (\<lambda>m. (om_org_id m, om_user_id m) = (orgId, userId)) ?rows = current # rest"
        using cur by simp
      have only: "\<forall>m \<in> set ?rows. om_org_id m = orgId \<and> om_user_id m = userId \<longrightarrow> m = current"
        using filter_key_single(2) [OF d cur'] by simp
      show ?thesis
      proof (cases "oid = orgId \<and> om_role current = ''OWNER''")
        case True
        with guard have "2 \<le> org_owner_count s oid" by simp
        moreover have "org_owner_count s oid \<le> Suc (org_owner_count ?s' oid)"
          using org_update_role_owner_drop [OF d, of oid now orgId userId role]
          by (simp add: org_owner_count_def)
        ultimately show ?thesis by linarith
      next
        case False
        have "org_owner_count s oid \<le> org_owner_count ?s' oid"
          unfolding org_owner_count_def
          using org_update_role_owner_keep [of ?rows orgId userId oid now role] only False
          by auto
        with one show ?thesis by linarith
      qed
    qed
    show ?thesis
      unfolding org_consistent_iff
    proof (intro conjI ballI)
      show "distinct (map (\<lambda>m. (om_org_id m, om_user_id m)) (organization_memberships ?s'))"
        using d by (simp add: org_update_role_keys)
      fix oid
      assume "oid \<in> org_id ` set (organizations ?s') \<union> om_org_id ` set (organization_memberships ?s')"
      then have "oid \<in> org_id ` set (organizations s) \<union> om_org_id ` set ?rows"
        using orgs by simp
      then have "1 \<le> org_owner_count s oid"
        using assms by (simp add: org_consistent_iff)
      then show "1 \<le> org_owner_count ?s' oid" by (rule keep)
    qed
  qed
  from OrganizationsService_updateMember_cases [of s now orgId userId role]
  show ?thesis using assms step by auto
qed

lemma OrganizationsService_removeMember_cases:
  "snd (OrganizationsService_removeMember s orgId userId) = s \<or>
   ((\<exists>pms. snd (OrganizationsService_removeMember s orgId userId) =
      s\<lparr>project_memberships := pms,
        organization_memberships :=
          filter (\<lambda>m. \<not> (om_org_id m = orgId \<and> om_user_id m = userId))
            (organization_memberships s)\<rparr>) \<and>
     (\<exists>current rest.
        filter (\<lambda>m. om_org_id m = orgId \<and> om_user_id m = userId) (organization_memberships s) =
          current # rest \<and>
        \<not> (om_role current = ''OWNER'' \<and> org_owner_count s orgId \<le> 1)))"
  by (auto simp: OrganizationsService_removeMember_def OrganizationsService_removeMember_tx_def
      transaction_def Let_def split: list.splits)

lemma org_removeMember_consistent:
  assumes "org_consistent s"
  shows "org_consistent (snd (OrganizationsService_removeMember s orgId userId))"
proof -
  let ?rows = "organization_memberships s"
  let ?rows' = "filter (\<lambda>m. \<not> (om_org_id m = orgId \<and> om_user_id m = userId)) ?rows"
  have d: "distinct (map (\<lambda>m. (om_org_id m, om_user_id m)) ?rows)"
    using assms by (simp add: org_consistent_iff)
  have step: "org_consistent (s\<lparr>project_memberships := pms, organization_memberships := ?rows'\<rparr>)"
    (is "org_consistent ?s'")
    if ok: "\<exists>current rest.
        filter (\<lambda>m. om_org_id m = orgId \<and> om_user_id m = userId) ?rows = current # rest \<and>
        \<not> (om_role current = ''OWNER'' \<and> org_owner_count s orgId \<le> 1)" for pms
  proof -
    from ok obtain current rest where
      cur: "filter (\<lambda>m. om_org_id m = orgId \<and> om_user_id m = userId) ?rows = current # rest"
      and guard: "\<not> (om_role current = ''OWNER'' \<and> org_owner_count s orgId \<le> 1)"
      by blast
    have cur': "filter (\<lambda>m. (om_org_id m, om_user_id m) = (orgId, userId)) ?rows = current # rest"
      using cur by simp
    have only: "\<forall>m \<in> set ?rows. om_org_id m = orgId \<and> om_user_id m = userId \<longrightarrow> m = current"
      using filter_key_single(2) [OF d cur'] by simp
    have keep: "1 \<le> org_owner_count ?s' oid" if one: "1 \<le> org_owner_count s oid" for oid
    proof (cases "oid = orgId \<and> om_role current = ''OWNER''")
      case True
      with guard have "2 \<le> org_owner_count s oid" by simp
      moreover have "org_owner_count s oid \<le> Suc (org_owner_count ?s' oid)"
        using org_delete_owner_drop [OF d, of oid orgId userId]
        by (simp add: org_owner_count_def)
      ultimately show ?thesis by linarith
    next
      case False
      have "org_owner_count ?s' oid = org_owner_count s oid"
        unfolding org_owner_count_def
        using org_delete_owner_keep [of ?rows orgId userId oid] only False
        by auto
      with one show ?thesis by linarith
    qed
    show ?thesis
      unfolding org_consistent_iff
    proof (intro conjI ballI)
      show "distinct (map (\<lambda>m. (om_org_id m, om_user_id m)) (organization_memberships ?s'))"
        using d by (simp add: distinct_map_filter)
      fix oid
      assume "oid \<in> org_id ` set (organizations ?s') \<union> om_org_id ` set (organization_memberships ?s')"
      then have "oid \<in> org_id ` set (organizations s) \<union> om_org_id ` set ?rows"
        by auto
      then have "1 \<le> org_owner_count s oid"
        using assms by (simp add: org_consistent_iff)
      then show "1 \<le> org_owner_count ?s' oid" by (rule keep)
    qed
  qed
  from OrganizationsService_removeMember_cases [of s orgId userId]
  show ?thesis using assms step by auto
qed

lemma org_run_consistent:
  "org_consistent s \<Longrightarrow> ids_fresh s ops \<Longrightarrow> org_consistent (org_run s ops)"
proof (induction ops arbitrary: s)
  case Nil
  then show ?case by simp
next
  case (Cons op ops)
  have "org_consistent (org_step s op)" and "ids_fresh (org_step s op) ops"
    using Cons.prems
    by (cases op; simp add: org_create_consistent org_addMember_consistent
        org_updateMember_consistent org_removeMember_consistent)+
  then show ?case using Cons.IH by simp
qed

lemma org_consistent_owner:
  assumes "org_consistent s" and "1 \<le> org_member_count s oid"
  shows "1 \<le> org_owner_count s oid"
proof -
  from assms(2) have "filter (\<lambda>m. om_org_id m = oid) (organization_memberships s) \<noteq> []"
    by (auto simp: org_member_count_def)
  then obtain m where "m \<in> set (organization_memberships s)" "om_org_id m = oid"
    by (auto simp: filter_empty_conv)
  with assms(1) show ?thesis by (auto simp: org_consistent_iff)
qed

lemma org_create_success:
  assumes "name \<noteq> []" "trim name \<noteq> []" "userId \<noteq> []" "userId \<in> u_id ` set (users s)"
  shows "OrganizationsService_create s now g name userId =
    (Inr \<lparr>org_id = generateId ''org'' g now, org_name = trim name,
           org_created_at = now, org_updated_at = now\<rparr>,
     s\<lparr>organizations := organizations s @
          [\<lparr>org_id = generateId ''org'' g now, org_name = trim name,
            org_created_at = now, org_updated_at = now\<rparr>],
        organization_memberships := organization_memberships s @
          [\<lparr>om_id = generateId ''om'' g now, om_org_id = generateId ''org'' g now,
            om_user_id = userId, om_role = ''OWNER'', om_created_at = now,
            om_updated_at = now\<rparr>]\<rparr>)"
proof -
  have "filter (\<lambda>u. u_id u = userId) (users s) \<noteq> []"
    using assms(4) by (auto simp: filter_empty_conv)
  then show ?thesis
    using assms(1-3)
    by (simp add: OrganizationsService_create_def OrganizationsService_create_tx_def
        transaction_def Let_def)
qed

lemma org_updateMember_last_owner:
  assumes "filter (\<lambda>m. om_org_id m = orgId \<and> om_user_id m = userId) (organization_memberships s)
             = current # rest"
    and "om_role current = ''OWNER''" and "org_owner_count s orgId \<le> 1"
    and "role \<in> set org_validRoles" and "role \<noteq> ''OWNER''"
  shows "OrganizationsService_updateMember s now orgId userId role =
    (Inl (DatabaseError transaction_message (Some (BusinessLogicError
       (''No se puede cambiar el rol del '' @ u_acute @ ''ltimo propietario'')))), s)"
proof -
  have "role \<noteq> []" using assms(4) by (auto simp: org_validRoles_def)
  then show ?thesis
    using assms
    by (simp add: OrganizationsService_updateMember_def OrganizationsService_updateMember_tx_def
        transaction_def Let_def)
qed

lemma org_removeMember_last_owner:
  assumes "filter (\<lambda>m. om_org_id m = orgId \<and> om_user_id m = userId) (organization_memberships s)
             = current # rest"
    and "om_role current = ''OWNER''" and "org_owner_count s orgId \<le> 1"
  shows "OrganizationsService_removeMember s orgId userId =
    (Inl (DatabaseError transaction_message (Some (BusinessLogicError
       (''No se puede eliminar al '' @ u_acute @ ''ltimo propietario'')))), s)"
  using assms
  by (simp add: OrganizationsService_removeMember_def OrganizationsService_removeMember_tx_def
      transaction_def Let_def)

text \<open>
  The owner invariant of organizations. From a consistent datastore (the empty one is),
  and with organization
  identifiers that are not in use when \<open>create\<close> draws them, every sequence of
  \<open>create\<close>, \<open>addMember\<close>, \<open>updateMember\<close> and \<open>removeMember\<close> leaves every
  organization that has a membership with at least one OWNER. \<open>create\<close> inserts the
  organization together with an OWNER membership of the given user. When the member is
  an OWNER and the organization has no other OWNER, \<open>updateMember\<close> to another role and
  \<open>removeMember\<close> change nothing: the guard raises the business-rule error inside the
  transaction, which rolls back and throws its own \<open>DatabaseError\<close> (status 500, code
  DATABASE_ERROR) with the business-rule error as its cause.
\<close>

theorem org_owner_invariant:
  "(org_consistent s \<and> ids_fresh s ops \<longrightarrow>
      org_consistent (org_run s ops) \<and>
      (\<forall>oid. 1 \<le> org_member_count (org_run s ops) oid \<longrightarrow>
             1 \<le> org_owner_count (org_run s ops) oid)) \<and>
   (name \<noteq> [] \<and> trim name \<noteq> [] \<and> owner \<noteq> [] \<and> owner \<in> u_id ` set (users t) \<longrightarrow>
      OrganizationsService_create t now g name owner =
        (Inr \<lparr>org_id = generateId ''org'' g now, org_name = trim name,
               org_created_at = now, org_updated_at = now\<rparr>,
         t\<lparr>organizations := organizations t @
              [\<lparr>org_id = generateId ''org'' g now, org_name = trim name,
                org_created_at = now, org_updated_at = now\<rparr>],
            organization_memberships := organization_memberships t @
              [\<lparr>om_id = generateId ''om'' g now, om_org_id = generateId ''org'' g now,
                om_user_id = owner, om_role = ''OWNER'', om_created_at = now,
                om_updated_at = now\<rparr>]\<rparr>)) \<and>
   (filter (\<lambda>m. om_org_id m = orgId \<and> om_user_id m = userId) (organization_memberships t)
        = current # rest \<and>
    om_role current = ''OWNER'' \<and> org_owner_count t orgId \<le> 1 \<longrightarrow>
      (role \<in> set org_validRoles \<and> role \<noteq> ''OWNER'' \<longrightarrow>
         OrganizationsService_updateMember t now orgId userId role =
           (Inl (DatabaseError transaction_message (Some (BusinessLogicError
              (''No se puede cambiar el rol del '' @ u_acute @ ''ltimo propietario'')))), t)) \<and>
      OrganizationsService_removeMember t orgId userId =
        (Inl (DatabaseError transaction_message (Some (BusinessLogicError
           (''No se puede eliminar al '' @ u_acute @ ''ltimo propietario'')))), t))"
proof (intro conjI impI)
  assume h: "org_consistent s \<and> ids_fresh s ops"
  then show c: "org_consistent (org_run s ops)"
    by (simp add: org_run_consistent)
  show "\<forall>oid. 1 \<le> org_member_count (org_run s ops) oid \<longrightarrow>
             1 \<le> org_owner_count (org_run s ops) oid"
    using org_consistent_owner [OF c] by blast
next
  assume "name \<noteq> [] \<and> trim name \<noteq> [] \<and> owner \<noteq> [] \<and> owner \<in> u_id ` set (users t)"
  then show "OrganizationsService_create t now g name owner =
        (Inr \<lparr>org_id = generateId ''org'' g now, org_name = trim name,
               org_created_at = now, org_updated_at = now\<rparr>,
         t\<lparr>organizations := organizations t @
              [\<lparr>org_id = generateId ''org'' g now, org_name = trim name,
                org_created_at = now, org_updated_at = now\<rparr>],
            organization_memberships := organization_memberships t @
              [\<lparr>om_id = generateId ''om'' g now, om_org_id = generateId ''org'' g now,
                om_user_id = owner, om_role = ''OWNER'', om_created_at = now,
                om_updated_at = now\<rparr>]\<rparr>)"
    by (simp add: org_create_success)
next
  assume h: "filter (\<lambda>m. om_org_id m = orgId \<and> om_user_id m = userId) (organization_memberships t)
        = current # rest \<and>
    om_role current = ''OWNER'' \<and> org_owner_count t orgId \<le> 1"
  then show "OrganizationsService_removeMember t orgId userId =
        (Inl (DatabaseError transaction_message (Some (BusinessLogicError
           (''No se puede eliminar al '' @ u_acute @ ''ltimo propietario'')))), t)"
    using org_removeMember_last_owner [of orgId userId t current rest] by simp
  assume "role \<in> set org_validRoles \<and> role \<noteq> ''OWNER''"
  with h show "OrganizationsService_updateMember t now orgId userId role =
           (Inl (DatabaseError transaction_message (Some (BusinessLogicError
              (''No se puede cambiar el rol del '' @ u_acute @ ''ltimo propietario'')))), t)"
    using org_updateMember_last_owner [of orgId userId t current rest role now] by simp
qed

lemma prj_update_role_keys:
  "map (\<lambda>m. (pm_project_id m, pm_user_id m)) (prj_update_role now projectId userId role rows) =
   map (\<lambda>m. (pm_project_id m, pm_user_id m)) rows"
  by (induction rows) (auto simp: prj_update_role_def)

lemma prj_update_role_absent:
  "(projectId, userId) \<notin> set (map (\<lambda>m. (pm_project_id m, pm_user_id m)) rows) \<Longrightarrow>
   prj_update_role now projectId userId role rows = rows"
  by (induction rows) (auto simp: prj_update_role_def)

lemma prj_update_role_owner_drop:
  "distinct (map (\<lambda>m. (pm_project_id m, pm_user_id m)) rows) \<Longrightarrow>
   length (filter (\<lambda>m. pm_project_id m = p \<and> pm_role m = ''OWNER'') rows) \<le>
   Suc (length (filter (\<lambda>m. pm_project_id m = p \<and> pm_role m = ''OWNER'')
     (prj_update_role now projectId userId role rows)))"
proof (induction rows)
  case Nil
  then show ?case by (simp add: prj_update_role_def)
next
  case (Cons m rows)
  show ?case
  proof (cases "pm_project_id m = projectId \<and> pm_user_id m = userId")
    case True
    with Cons.prems have "(projectId, userId) \<notin> set (map (\<lambda>m. (pm_project_id m, pm_user_id m)) rows)"
      by auto
    then have "prj_update_role now projectId userId role rows = rows"
      by (rule prj_update_role_absent)
    then have "prj_update_role now projectId userId role (m # rows) =
        m\<lparr>pm_role := role, pm_updated_at := now\<rparr> # rows"
      using True by (simp add: prj_update_role_def)
    then show ?thesis by simp
  next
    case False
    then have "prj_update_role now projectId userId role (m # rows) =
        m # prj_update_role now projectId userId role rows"
      by (auto simp: prj_update_role_def)
    with Cons show ?thesis by auto
  qed
qed

lemma prj_update_role_owner_keep:
  "\<forall>m \<in> set rows. pm_project_id m = projectId \<and> pm_user_id m = userId \<longrightarrow>
      \<not> (pm_project_id m = p \<and> pm_role m = ''OWNER'') \<Longrightarrow>
   length (filter (\<lambda>m. pm_project_id m = p \<and> pm_role m = ''OWNER'') rows) \<le>
   length (filter (\<lambda>m. pm_project_id m = p \<and> pm_role m = ''OWNER'')
     (prj_update_role now projectId userId role rows))"
  by (induction rows) (auto simp: prj_update_role_def)

lemma prj_update_role_owner_promote:
  "length (filter (\<lambda>m. pm_project_id m = p \<and> pm_role m = ''OWNER'') rows) \<le>
   length (filter (\<lambda>m. pm_project_id m = p \<and> pm_role m = ''OWNER'')
     (prj_update_role now projectId userId ''OWNER'' rows))"
  by (induction rows) (auto simp: prj_update_role_def)

lemma prj_delete_owner_drop:
  "distinct (map (\<lambda>m. (pm_project_id m, pm_user_id m)) rows) \<Longrightarrow>
   length (filter (\<lambda>m. pm_project_id m = p \<and> pm_role m = ''OWNER'') rows) \<le>
   Suc (length (filter (\<lambda>m. pm_project_id m = p \<and> pm_role m = ''OWNER'')
     (filter (\<lambda>m. \<not> (pm_project_id m = projectId \<and> pm_user_id m = userId)) rows)))"
proof (induction rows)
  case Nil
  then show ?case by simp
next
  case (Cons m rows)
  show ?case
  proof (cases "pm_project_id m = projectId \<and> pm_user_id m = userId")
    case True
    with Cons.prems have "\<forall>x \<in> set rows. \<not> (pm_project_id x = projectId \<and> pm_user_id x = userId)"
      by (auto simp: image_iff)
    then have "filter (\<lambda>m. \<not> (pm_project_id m = projectId \<and> pm_user_id m = userId)) rows = rows"
      by (simp add: filter_id_conv)
    with True show ?thesis by simp
  next
    case False
    with Cons show ?thesis by auto
  qed
qed

lemma prj_delete_owner_keep:
  "\<forall>m \<in> set rows. pm_project_id m = projectId \<and> pm_user_id m = userId \<longrightarrow>
      \<not> (pm_project_id m = p \<and> pm_role m = ''OWNER'') \<Longrightarrow>
   length (filter (\<lambda>m. pm_project_id m = p \<and> pm_role m = ''OWNER'')
     (filter (\<lambda>m. \<not> (pm_project_id m = projectId \<and> pm_user_id m = userId)) rows)) =
   length (filter (\<lambda>m. pm_project_id m = p \<and> pm_role m = ''OWNER'') rows)"
  by (induction rows) auto

lemma ProjectMembershipsService_addMember_cases:
  "project_memberships (snd (ProjectMembershipsService_addMember s now g projectId userId role)) =
     project_memberships s \<or>
   (filter (\<lambda>m. pm_project_id m = projectId \<and> pm_user_id m = userId) (project_memberships s) = [] \<and>
    project_memberships (snd (ProjectMembershipsService_addMember s now g projectId userId role)) =
      project_memberships s @
        [\<lparr>pm_project_id = projectId, pm_user_id = userId,
          pm_org_membership_id =
            (case filter (\<lambda>m. om_org_id m =
                     prj_org_id (hd (filter (\<lambda>p. prj_id p = projectId \<and> prj_deleted_at p = None)
                       (projects s))) \<and> om_user_id m = userId)
                   (organization_memberships s) of
               [] \<Rightarrow> generateId ''om'' g now | existing # _ \<Rightarrow> om_id existing),
          pm_role = (case role of None \<Rightarrow> ''VIEWER'' | Some r \<Rightarrow> r),
          pm_created_at = now, pm_updated_at = now\<rparr>])"
  by (auto simp: ProjectMembershipsService_addMember_def ProjectMembershipsService_addMember_tx_def
      transaction_def Let_def split: list.splits)

lemma ProjectMembershipsService_updateMember_cases:
  "project_memberships (snd (ProjectMembershipsService_updateMember s now projectId userId role)) =
     project_memberships s \<or>
   (project_memberships (snd (ProjectMembershipsService_updateMember s now projectId userId role)) =
      prj_update_role now projectId userId role (project_memberships s) \<and>
    (role = ''OWNER'' \<or>
     (\<exists>current rest.
        filter (\<lambda>m. pm_project_id m = projectId \<and> pm_user_id m = userId) (project_memberships s) =
          current # rest \<and>
        \<not> (pm_role current = ''OWNER'' \<and> prj_owner_count s projectId \<le> 1))))"
  by (auto simp: ProjectMembershipsService_updateMember_def
      ProjectMembershipsService_updateMember_tx_def prj_update_and_return_def
      transaction_def Let_def split: list.splits)

lemma ProjectMembershipsService_removeMember_cases:
  "project_memberships (snd (ProjectMembershipsService_removeMember s projectId userId)) =
     project_memberships s \<or>
   (project_memberships (snd (ProjectMembershipsService_removeMember s projectId userId)) =
      filter (\<lambda>m. \<not> (pm_project_id m = projectId \<and> pm_user_id m = userId)) (project_memberships s) \<and>
    (\<exists>current rest.
        filter (\<lambda>m. pm_project_id m = projectId \<and> pm_user_id m = userId) (project_memberships s) =
          current # rest \<and>
        \<not> (pm_role current = ''OWNER'' \<and> prj_owner_count s projectId \<le> 1)))"
  by (auto simp: ProjectMembershipsService_removeMember_def
      ProjectMembershipsService_removeMember_tx_def transaction_def Let_def split: list.splits)

lemma pm_ok_iff: "pm_ok (project_memberships s) p \<longleftrightarrow> pm_unique s \<and> 1 \<le> prj_owner_count s p"
  by (simp add: pm_ok_def pm_unique_def prj_owner_count_def)

lemma prj_addMember_ok:
  assumes "pm_ok (project_memberships s) p"
  shows "pm_ok (project_memberships
           (snd (ProjectMembershipsService_addMember s now g projectId userId role))) p"
  using ProjectMembershipsService_addMember_cases [of s now g projectId userId role] assms
  by (auto simp: pm_ok_def filter_empty_conv)

lemma prj_updateMember_ok:
  assumes "pm_ok (project_memberships s) p"
  shows "pm_ok (project_memberships
           (snd (ProjectMembershipsService_updateMember s now projectId userId role))) p"
proof -
  let ?rows = "project_memberships s"
  let ?rows' = "prj_update_role now projectId userId role ?rows"
  have d: "distinct (map (\<lambda>m. (pm_project_id m, pm_user_id m)) ?rows)"
    and one: "1 \<le> length (filter (\<lambda>m. pm_project_id m = p \<and> pm_role m = ''OWNER'') ?rows)"
    using assms by (simp_all add: pm_ok_def)
  have step: "pm_ok ?rows' p"
    if ok: "role = ''OWNER'' \<or> (\<exists>current rest.
        filter (\<lambda>m. pm_project_id m = projectId \<and> pm_user_id m = userId) ?rows = current # rest \<and>
        \<not> (pm_role current = ''OWNER'' \<and> prj_owner_count s projectId \<le> 1))"
  proof -
    have keep: "1 \<le> length (filter (\<lambda>m. pm_project_id m = p \<and> pm_role m = ''OWNER'') ?rows')"
    proof (cases "role = ''OWNER''")
      case True
      then show ?thesis
        using prj_update_role_owner_promote [of p ?rows now projectId userId] one by simp
    next
      case False
      with ok obtain current rest where
        cur: "filter (\<lambda>m. pm_project_id m = projectId \<and> pm_user_id m = userId) ?rows = current # rest"
        and guard: "\<not> (pm_role current = ''OWNER'' \<and> prj_owner_count s projectId \<le> 1)"
        by blast
      have cur': "filter (\<lambda>m. (pm_project_id m, pm_user_id m) = (projectId, userId)) ?rows
          = current # rest"
        using cur by simp
      have only: "\<forall>m \<in> set ?rows. pm_project_id m = projectId \<and> pm_user_id m = userId \<longrightarrow> m = current"
        using filter_key_single(2) [OF d cur'] by simp
      show ?thesis
      proof (cases "p = projectId \<and> pm_role current = ''OWNER''")
        case True
        with guard have "2 \<le> length (filter (\<lambda>m. pm_project_id m = p \<and> pm_role m = ''OWNER'') ?rows)"
          by (simp add: prj_owner_count_def)
        moreover have "length (filter (\<lambda>m. pm_project_id m = p \<and> pm_role m = ''OWNER'') ?rows)
            \<le> Suc (length (filter (\<lambda>m. pm_project_id m = p \<and> pm_role m = ''OWNER'') ?rows'))"
          using prj_update_role_owner_drop [OF d, of p now projectId userId role] by simp
        ultimately show ?thesis by linarith
      next
        case False
        have "length (filter (\<lambda>m. pm_project_id m = p \<and> pm_role m = ''OWNER'') ?rows)
            \<le> length (filter (\<lambda>m. pm_project_id m = p \<and> pm_role m = ''OWNER'') ?rows')"
          using prj_update_role_owner_keep [of ?rows projectId userId p now role] only False
          by auto
        with one show ?thesis by linarith
      qed
    qed
    show ?thesis
      unfolding pm_ok_def using d keep by (simp add: prj_update_role_keys)
  qed
  from ProjectMembershipsService_updateMember_cases [of s now projectId userId role]
  show ?thesis using assms step by auto
qed

lemma prj_removeMember_ok:
  assumes "pm_ok (project_memberships s) p"
  shows "pm_ok (project_memberships
           (snd (ProjectMembershipsService_removeMember s projectId userId))) p"
proof -
  let ?rows = "project_memberships s"
  let ?rows' = "filter (\<lambda>m. \<not> (pm_project_id m = projectId \<and> pm_user_id m = userId)) ?rows"
  have d: "distinct (map (\<lambda>m. (pm_project_id m, pm_user_id m)) ?rows)"
    and one: "1 \<le> length (filter (\<lambda>m. pm_project_id m = p \<and> pm_role m = ''OWNER'') ?rows)"
    using assms by (simp_all add: pm_ok_def)
  have step: "pm_ok ?rows' p"
    if ok: "\<exists>current rest.
        filter (\<lambda>m. pm_project_id m = projectId \<and> pm_user_id m = userId) ?rows = current # rest \<and>
        \<not> (pm_role current = ''OWNER'' \<and> prj_owner_count s projectId \<le> 1)"
  proof -
    from ok obtain current rest where
      cur: "filter (\<lambda>m. pm_project_id m = projectId \<and> pm_user_id m = userId) ?rows = current # rest"
      and guard: "\<not> (pm_role current = ''OWNER'' \<and> prj_owner_count s projectId \<le> 1)"
      by blast
    have cur': "filter (\<lambda>m. (pm_project_id m, pm_user_id m) = (projectId, userId)) ?rows
        = current # rest"
      using cur by simp
    have only: "\<forall>m \<in> set ?rows. pm_project_id m = projectId \<and> pm_user_id m = userId \<longrightarrow> m = current"
      using filter_key_single(2) [OF d cur'] by simp
    have keep: "1 \<le> length (filter (\<lambda>m. pm_project_id m = p \<and> pm_role m = ''OWNER'') ?rows')"
    proof (cases "p = projectId \<and> pm_role current = ''OWNER''")
      case True
      with guard have "2 \<le> length (filter (\<lambda>m. pm_project_id m = p \<and> pm_role m = ''OWNER'') ?rows)"
        by (simp add: prj_owner_count_def)
      moreover have "length (filter (\<lambda>m. pm_project_id m = p \<and> pm_role m = ''OWNER'') ?rows)
          \<le> Suc (length (filter (\<lambda>m. pm_project_id m = p \<and> pm_role m = ''OWNER'') ?rows'))"
        using prj_delete_owner_drop [OF d, of p projectId userId] by simp
      ultimately show ?thesis by linarith
    next
      case False
      have "length (filter (\<lambda>m. pm_project_id m = p \<and> pm_role m = ''OWNER'') ?rows')
          = length (filter (\<lambda>m. pm_project_id m = p \<and> pm_role m = ''OWNER'') ?rows)"
        using prj_delete_owner_keep [of ?rows projectId userId p] only False
        by auto
      with one show ?thesis by linarith
    qed
    show ?thesis
      unfolding pm_ok_def using d keep by (simp add: distinct_map_filter)
  qed
  from ProjectMembershipsService_removeMember_cases [of s projectId userId]
  show ?thesis using assms step by auto
qed

lemma prj_run_ok:
  "pm_ok (project_memberships s) p \<Longrightarrow> pm_ok (project_memberships (prj_run s ops)) p"
proof (induction ops arbitrary: s)
  case Nil
  then show ?case by simp
next
  case (Cons op ops)
  have "pm_ok (project_memberships (prj_step s op)) p"
    using Cons.prems
    by (cases op) (simp_all add: prj_addMember_ok prj_updateMember_ok prj_removeMember_ok)
  then show ?case using Cons.IH by simp
qed

lemma to_base36_small: "n < 36 \<Longrightarrow> to_base36 n = [digit36 n]"
  by (simp add: to_base36.simps)

lemma trim_examples:
  "trim ''Acme'' = ''Acme''"
  "trim '' Apollo '' = ''Apollo''"
  "trim (''Apollo'' @ [CHR 0xE3, CHR 0x80, CHR 0x80]) = ''Apollo''"
  "trim [CHR 0xC2, CHR 0xA0] = []"
  by code_simp+

lemmas example_defs = three_users_def empty_db_def usr_1_def usr_2_def usr_3_def acme_db_def
  acme_owner_def apollo_def apollo_db_def apollo_owner_def apollo_owned_db_def draw_def

lemmas org_service_defs = OrganizationsService_create_def
  OrganizationsService_create_tx_def OrganizationsService_addMember_def
  OrganizationsService_addMember_tx_def OrganizationsService_updateMember_def
  OrganizationsService_updateMember_tx_def OrganizationsService_removeMember_def
  OrganizationsService_removeMember_tx_def transaction_def Let_def org_validRoles_def
  trim_examples generateId_def to_base36_small digit36_def org_owner_count_def
  org_update_role_def org_member_count_def

lemma acme_scenario_run:
  "org_run three_users acme_scenario =
     three_users\<lparr>
       organizations := [\<lparr>org_id = ''corg1'', org_name = ''Acme'', org_created_at = 1,
         org_updated_at = 1\<rparr>],
       organization_memberships :=
         [\<lparr>om_id = ''om_1a'', om_org_id = ''corg1'', om_user_id = ''usr_1'',
            om_role = ''VIEWER'', om_created_at = 1, om_updated_at = 5\<rparr>,
          \<lparr>om_id = ''om_2b'', om_org_id = ''corg1'', om_user_id = ''usr_2'',
            om_role = ''ADMIN'', om_created_at = 2, om_updated_at = 2\<rparr>,
          \<lparr>om_id = ''om_4c'', om_org_id = ''corg1'', om_user_id = ''usr_3'',
            om_role = ''OWNER'', om_created_at = 4, om_updated_at = 4\<rparr>]\<rparr>"
  by (simp add: acme_scenario_def example_defs org_service_defs)

lemma acme_scenario_fresh: "ids_fresh three_users acme_scenario"
  by (simp add: acme_scenario_def example_defs org_service_defs fresh_org_id_def)

lemma three_users_consistent: "org_consistent three_users"
  by (simp add: org_consistent_def example_defs)

text \<open>The scenario, and the refusals on Acme as created.\<close>

theorem org_owner_invariant_witness:
  "org_consistent three_users \<and> ids_fresh three_users acme_scenario \<and>
   org_consistent (org_run three_users acme_scenario) \<and>
   1 \<le> org_member_count (org_run three_users acme_scenario) ''corg1'' \<and>
   1 \<le> org_owner_count (org_run three_users acme_scenario) ''corg1'' \<and>
   OrganizationsService_create three_users 1 (draw ''corg1'' ''a'' 1 2) ''Acme'' ''usr_1'' =
     (Inr \<lparr>org_id = ''corg1'', org_name = ''Acme'', org_created_at = 1, org_updated_at = 1\<rparr>,
      acme_db) \<and>
   org_owner_count acme_db ''corg1'' = 1 \<and>
   OrganizationsService_updateMember acme_db 3 ''corg1'' ''usr_1'' ''VIEWER'' =
     (Inl (DatabaseError transaction_message (Some (BusinessLogicError
        (''No se puede cambiar el rol del '' @ u_acute @ ''ltimo propietario'')))), acme_db) \<and>
   OrganizationsService_removeMember acme_db ''corg1'' ''usr_1'' =
     (Inl (DatabaseError transaction_message (Some (BusinessLogicError
        (''No se puede eliminar al '' @ u_acute @ ''ltimo propietario'')))), acme_db)"
proof -
  note inst = org_owner_invariant [where s = three_users and ops = acme_scenario
      and name = "''Acme''" and owner = "''usr_1''" and t = three_users and now = 1
      and g = "draw ''corg1'' ''a'' 1 2"]
  note rej = org_owner_invariant [where t = acme_db and orgId = "''corg1''"
      and userId = "''usr_1''" and current = acme_owner and rest = "[]"
      and role = "''VIEWER''" and now = 3]
  have members: "1 \<le> org_member_count (org_run three_users acme_scenario) ''corg1''"
    unfolding acme_scenario_run by (simp add: org_member_count_def)
  have create_hyp: "''Acme'' \<noteq> [] \<and> trim ''Acme'' \<noteq> [] \<and> ''usr_1'' \<noteq> [] \<and>
      ''usr_1'' \<in> u_id ` set (users three_users)"
    by (simp add: example_defs trim_examples)
  have created: "three_users\<lparr>organizations := organizations three_users @
              [\<lparr>org_id = generateId ''org'' (draw ''corg1'' ''a'' 1 2) 1, org_name = trim ''Acme'',
                org_created_at = 1, org_updated_at = 1\<rparr>],
            organization_memberships := organization_memberships three_users @
              [\<lparr>om_id = generateId ''om'' (draw ''corg1'' ''a'' 1 2) 1,
                om_org_id = generateId ''org'' (draw ''corg1'' ''a'' 1 2) 1,
                om_user_id = ''usr_1'', om_role = ''OWNER'', om_created_at = 1,
                om_updated_at = 1\<rparr>]\<rparr> = acme_db"
    by (simp add: example_defs generateId_def to_base36_small digit36_def trim_examples)
  have rej_hyp: "filter (\<lambda>m. om_org_id m = ''corg1'' \<and> om_user_id m = ''usr_1'')
        (organization_memberships acme_db) = acme_owner # [] \<and>
      om_role acme_owner = ''OWNER'' \<and> org_owner_count acme_db ''corg1'' \<le> 1"
    by (simp add: example_defs org_owner_count_def)
  have role_hyp: "''VIEWER'' \<in> set org_validRoles \<and> ''VIEWER'' \<noteq> ''OWNER''"
    by (simp add: org_validRoles_def)
  have count: "org_owner_count acme_db ''corg1'' = 1"
    by (simp add: example_defs org_owner_count_def)
  from inst three_users_consistent acme_scenario_fresh members create_hyp created
  have part1: "org_consistent (org_run three_users acme_scenario) \<and>
      1 \<le> org_owner_count (org_run three_users acme_scenario) ''corg1'' \<and>
      OrganizationsService_create three_users 1 (draw ''corg1'' ''a'' 1 2) ''Acme'' ''usr_1'' =
       (Inr \<lparr>org_id = ''corg1'', org_name = ''Acme'', org_created_at = 1, org_updated_at = 1\<rparr>,
        acme_db)"
    by (simp add: generateId_def draw_def trim_examples)
  from rej rej_hyp role_hyp
  have part2: "OrganizationsService_updateMember acme_db 3 ''corg1'' ''usr_1'' ''VIEWER'' =
     (Inl (DatabaseError transaction_message (Some (BusinessLogicError
        (''No se puede cambiar el rol del '' @ u_acute @ ''ltimo propietario'')))), acme_db) \<and>
   OrganizationsService_removeMember acme_db ''corg1'' ''usr_1'' =
     (Inl (DatabaseError transaction_message (Some (BusinessLogicError
        (''No se puede eliminar al '' @ u_acute @ ''ltimo propietario'')))), acme_db)"
    by blast
  show ?thesis
    using three_users_consistent acme_scenario_fresh members part1 part2 count by blast
qed

text \<open>
  Claim C1. The invariant holds, and the guards of \<open>updateMember\<close> and \<open>removeMember\<close>
  refuse to demote or delete the only OWNER. What the caller catches is not the
  business-rule error (status 400) the guard throws: \<open>transaction\<close> replaces every error
  thrown in its callback by a \<open>DatabaseError\<close> (status 500, code DATABASE_ERROR) that
  keeps the original only as its cause. Acme has one OWNER, the first user. Demoting or
  removing that user is answered with the \<open>DatabaseError\<close>, and so is a membership that
  does not exist when the check runs inside the transaction; the checks that run outside
  a transaction (an invalid role, a promotion to OWNER of a user who is not a member)
  deliver their business-rule and not-found errors as thrown.
\<close>

theorem last_owner_demotion_error_class:
  "OrganizationsService_updateMember acme_db 3 ''corg1'' ''usr_1'' ''VIEWER'' =
     (Inl (AppError ''DatabaseError'' 500 ''DATABASE_ERROR''
        (''Error al ejecutar transacci'' @ o_acute @ ''n'')
        (Some (AppError ''BusinessLogicError'' 400 ''BUSINESS_LOGIC_ERROR''
           (''No se puede cambiar el rol del '' @ u_acute @ ''ltimo propietario'') None [])) []),
      acme_db) \<and>
   OrganizationsService_removeMember acme_db ''corg1'' ''usr_1'' =
     (Inl (AppError ''DatabaseError'' 500 ''DATABASE_ERROR''
        (''Error al ejecutar transacci'' @ o_acute @ ''n'')
        (Some (AppError ''BusinessLogicError'' 400 ''BUSINESS_LOGIC_ERROR''
           (''No se puede eliminar al '' @ u_acute @ ''ltimo propietario'') None [])) []),
      acme_db) \<and>
   OrganizationsService_updateMember acme_db 3 ''corg1'' ''usr_9'' ''VIEWER'' =
     (Inl (AppError ''DatabaseError'' 500 ''DATABASE_ERROR''
        (''Error al ejecutar transacci'' @ o_acute @ ''n'')
        (Some (AppError ''NotFoundError'' 404 ''NOT_FOUND''
           (''Membres'' @ i_acute @ ''a no encontrado'') None
           [(''resource'', ''Membres'' @ i_acute @ ''a'')])) []),
      acme_db) \<and>
   OrganizationsService_updateMember acme_db 3 ''corg1'' ''usr_9'' ''OWNER'' =
     (Inl (AppError ''NotFoundError'' 404 ''NOT_FOUND''
        (''Membres'' @ i_acute @ ''a no encontrado'') None
        [(''resource'', ''Membres'' @ i_acute @ ''a'')]),
      acme_db) \<and>
   OrganizationsService_updateMember acme_db 3 ''corg1'' ''usr_1'' ''BOSS'' =
     (Inl (AppError ''BusinessLogicError'' 400 ''BUSINESS_LOGIC_ERROR''
        (''Rol inv'' @ a_acute @ ''lido. Debe ser OWNER, ADMIN, VIEWER o NONE'') None []),
      acme_db)"
  by (simp add: example_defs org_service_defs DatabaseError_def BusinessLogicError_def
      NotFoundError_def transaction_message_def Membresia_def org_invalid_role_message_def)

lemmas prj_service_defs = ProjectMembershipsService_addMember_def
  ProjectMembershipsService_addMember_tx_def ProjectMembershipsService_updateMember_def
  ProjectMembershipsService_updateMember_tx_def prj_update_and_return_def
  ProjectMembershipsService_removeMember_def ProjectMembershipsService_removeMember_tx_def
  transaction_def Let_def prj_validRoles_def generateId_def to_base36_small digit36_def
  prj_owner_count_def prj_update_role_def prj_member_count_def member_view_def

lemma prj_first_member:
  assumes "prj_member_count t projectId = 0" and "userId \<noteq> []" and "role \<in> set prj_validRoles"
    and "filter (\<lambda>p. prj_id p = projectId \<and> prj_deleted_at p = None) (projects t) \<noteq> []"
    and "userId \<in> u_id ` set (users t)"
  shows "prj_member_count
           (snd (ProjectMembershipsService_addMember t now g projectId userId (Some role)))
           projectId = 1"
    and "prj_owner_count
           (snd (ProjectMembershipsService_addMember t now g projectId userId (Some role)))
           projectId = (if role = ''OWNER'' then 1 else 0)"
proof -
  have none: "filter (\<lambda>m. pm_project_id m = projectId) (project_memberships t) = []"
    using assms(1) by (simp add: prj_member_count_def)
  then have none': "filter (\<lambda>m. pm_project_id m = projectId \<and> pm_user_id m = userId)
      (project_memberships t) = []"
    and none'': "filter (\<lambda>m. pm_project_id m = projectId \<and> pm_role m = ''OWNER'')
      (project_memberships t) = []"
    by (auto simp: filter_empty_conv)
  have user: "filter (\<lambda>u. u_id u = userId) (users t) \<noteq> []"
    using assms(5) by (auto simp: filter_empty_conv)
  show "prj_member_count
           (snd (ProjectMembershipsService_addMember t now g projectId userId (Some role)))
           projectId = 1"
    using assms(2-4) none none' user
    by (auto simp: ProjectMembershipsService_addMember_def
        ProjectMembershipsService_addMember_tx_def transaction_def Let_def prj_member_count_def
        split: list.splits)
  show "prj_owner_count
           (snd (ProjectMembershipsService_addMember t now g projectId userId (Some role)))
           projectId = (if role = ''OWNER'' then 1 else 0)"
    using assms(2-4) none'' none' user
    by (auto simp: ProjectMembershipsService_addMember_def
        ProjectMembershipsService_addMember_tx_def transaction_def Let_def prj_owner_count_def
        split: list.splits)
qed

lemma prj_updateMember_last_owner:
  assumes "filter (\<lambda>m. pm_project_id m = projectId \<and> pm_user_id m = userId) (project_memberships s)
             = current # rest"
    and "pm_role current = ''OWNER''" and "prj_owner_count s projectId \<le> 1"
    and "role \<in> set prj_validRoles" and "role \<noteq> ''OWNER''"
  shows "ProjectMembershipsService_updateMember s now projectId userId role =
    (Inl (DatabaseError transaction_message (Some (BusinessLogicError
       (''No se puede cambiar el rol del '' @ u_acute @ ''ltimo propietario'')))), s)"
proof -
  have "role \<noteq> []" using assms(4) by (auto simp: prj_validRoles_def)
  then show ?thesis
    using assms
    by (simp add: ProjectMembershipsService_updateMember_def
        ProjectMembershipsService_updateMember_tx_def transaction_def Let_def)
qed


text \<open>
  Claim C2, as the code has it. The operations keep an OWNER a project has, they do not
  give it one: in a table with one row per (project, user), a project with an OWNER
  still has one after any sequence of \<open>addMember\<close>, \<open>updateMember\<close> and
  \<open>removeMember\<close>; the first member added to a project is its OWNER exactly when the
  role passed is OWNER.
\<close>

theorem prj_owner_preserved:
  "(pm_unique s \<and> 1 \<le> prj_owner_count s p \<longrightarrow>
      pm_unique (prj_run s ops) \<and> 1 \<le> prj_owner_count (prj_run s ops) p) \<and>
   (prj_member_count t projectId = 0 \<and> userId \<noteq> [] \<and> role \<in> set prj_validRoles \<and>
    filter (\<lambda>p. prj_id p = projectId \<and> prj_deleted_at p = None) (projects t) \<noteq> [] \<and>
    userId \<in> u_id ` set (users t) \<longrightarrow>
      prj_member_count
        (snd (ProjectMembershipsService_addMember t now g projectId userId (Some role)))
        projectId = 1 \<and>
      prj_owner_count
        (snd (ProjectMembershipsService_addMember t now g projectId userId (Some role)))
        projectId = (if role = ''OWNER'' then 1 else 0))"
proof (intro conjI impI)
  assume "pm_unique s \<and> 1 \<le> prj_owner_count s p"
  then have "pm_ok (project_memberships s) p" by (simp add: pm_ok_iff)
  then have "pm_ok (project_memberships (prj_run s ops)) p" by (rule prj_run_ok)
  then show "pm_unique (prj_run s ops)" and "1 \<le> prj_owner_count (prj_run s ops) p"
    by (simp_all add: pm_ok_iff)
next
  assume h: "prj_member_count t projectId = 0 \<and> userId \<noteq> [] \<and> role \<in> set prj_validRoles \<and>
    filter (\<lambda>p. prj_id p = projectId \<and> prj_deleted_at p = None) (projects t) \<noteq> [] \<and>
    userId \<in> u_id ` set (users t)"
  then show "prj_member_count
        (snd (ProjectMembershipsService_addMember t now g projectId userId (Some role)))
        projectId = 1"
    using prj_first_member(1) [of t projectId userId role now g] by blast
  from h show "prj_owner_count
        (snd (ProjectMembershipsService_addMember t now g projectId userId (Some role)))
        projectId = (if role = ''OWNER'' then 1 else 0)"
    using prj_first_member(2) [of t projectId userId role now g] by blast
qed

text \<open>Apollo's OWNER survives the arrival of a viewer, the viewer's promotion and the
  attempts to demote and to remove the OWNER; a first member added as OWNER gives Apollo
  its OWNER.\<close>

theorem prj_owner_preserved_witness:
  "pm_unique apollo_owned_db \<and> 1 \<le> prj_owner_count apollo_owned_db ''cprj1'' \<and>
   pm_unique (prj_run apollo_owned_db
     [PrjAddMember 4 (draw [] ''d'' 1 2) ''cprj1'' ''usr_2'' (Some ''VIEWER''),
      PrjUpdateMember 5 ''cprj1'' ''usr_1'' ''MEMBER'',
      PrjRemoveMember ''cprj1'' ''usr_1'']) \<and>
   1 \<le> prj_owner_count (prj_run apollo_owned_db
     [PrjAddMember 4 (draw [] ''d'' 1 2) ''cprj1'' ''usr_2'' (Some ''VIEWER''),
      PrjUpdateMember 5 ''cprj1'' ''usr_1'' ''MEMBER'',
      PrjRemoveMember ''cprj1'' ''usr_1'']) ''cprj1'' \<and>
   prj_member_count apollo_db ''cprj1'' = 0 \<and>
   prj_member_count
     (snd (ProjectMembershipsService_addMember apollo_db 3 (draw [] ''d'' 1 2) ''cprj1''
        ''usr_1'' (Some ''OWNER''))) ''cprj1'' = 1 \<and>
   prj_owner_count
     (snd (ProjectMembershipsService_addMember apollo_db 3 (draw [] ''d'' 1 2) ''cprj1''
        ''usr_1'' (Some ''OWNER''))) ''cprj1'' = 1"
proof -
  have h1: "pm_unique apollo_owned_db \<and> 1 \<le> prj_owner_count apollo_owned_db ''cprj1''"
    by (simp add: pm_unique_def prj_owner_count_def example_defs)
  have h2: "prj_member_count apollo_db ''cprj1'' = 0 \<and> ''usr_1'' \<noteq> [] \<and>
      ''OWNER'' \<in> set prj_validRoles \<and>
      filter (\<lambda>p. prj_id p = ''cprj1'' \<and> prj_deleted_at p = None) (projects apollo_db) \<noteq> [] \<and>
      ''usr_1'' \<in> u_id ` set (users apollo_db)"
    by (simp add: prj_member_count_def prj_validRoles_def example_defs)
  from prj_owner_preserved [where s = apollo_owned_db and p = "''cprj1''" and t = apollo_db
      and projectId = "''cprj1''" and userId = "''usr_1''" and role = "''OWNER''"
      and now = 3 and g = "draw [] ''d'' 1 2"
      and ops = "[PrjAddMember 4 (draw [] ''d'' 1 2) ''cprj1'' ''usr_2'' (Some ''VIEWER''),
      PrjUpdateMember 5 ''cprj1'' ''usr_1'' ''MEMBER'',
      PrjRemoveMember ''cprj1'' ''usr_1'']"] h1 h2
  show ?thesis by simp
qed

text \<open>Apollo has no member; the second user is added as VIEWER; Apollo then has one
  membership and no OWNER.\<close>

theorem first_member_viewer_no_owner:
  "prj_member_count apollo_db ''cprj1'' = 0 \<and>
   prj_member_count
     (snd (ProjectMembershipsService_addMember apollo_db 3 (draw [] ''d'' 1 2) ''cprj1''
        ''usr_2'' (Some ''VIEWER''))) ''cprj1'' = 1 \<and>
   prj_owner_count
     (snd (ProjectMembershipsService_addMember apollo_db 3 (draw [] ''d'' 1 2) ''cprj1''
        ''usr_2'' (Some ''VIEWER''))) ''cprj1'' = 0"
  by (simp add: example_defs prj_service_defs)




lemma decimal_small: "n < 10 \<Longrightarrow> decimal n = [decimal_digit n]"
  by (simp add: decimal.simps)

text \<open>
  The deletion guard of users. \<open>n\<close> is the number of the user's organization
  memberships. With \<open>n > 0\<close> the call changes nothing, and the caller catches the
  transaction's \<open>DatabaseError\<close> whose cause is the business-rule error that names
  \<open>n\<close>. With \<open>n = 0\<close> the user's \<open>Account\<close> and \<open>Session\<close> rows and the user row are
  deleted in one transaction; when there is no user row, the cause is the not-found error
  and the deletions of the linked rows are rolled back with the rest.
\<close>

theorem delete_user_guard:
  "(0 < length (filter (\<lambda>m. om_user_id m = userId) (organization_memberships s)) \<longrightarrow>
      UsersService_delete s userId =
        (Inl (DatabaseError transaction_message (Some (BusinessLogicError
           (delete_user_message
              (length (filter (\<lambda>m. om_user_id m = userId) (organization_memberships s))))))),
         s)) \<and>
   (filter (\<lambda>m. om_user_id m = userId) (organization_memberships s) = [] \<and>
    userId \<in> u_id ` set (users s) \<longrightarrow>
      UsersService_delete s userId =
        (Inr True,
         s\<lparr>Account := filter (\<lambda>a. acc_user_id a \<noteq> userId) (Account s),
           Session := filter (\<lambda>x. ses_user_id x \<noteq> userId) (Session s),
           users := filter (\<lambda>u. u_id u \<noteq> userId) (users s)\<rparr>)) \<and>
   (filter (\<lambda>m. om_user_id m = userId) (organization_memberships s) = [] \<and>
    userId \<notin> u_id ` set (users s) \<longrightarrow>
      UsersService_delete s userId =
        (Inl (DatabaseError transaction_message (Some (NotFoundError ''Usuario''))), s))"
proof (intro conjI impI)
  assume "0 < length (filter (\<lambda>m. om_user_id m = userId) (organization_memberships s))"
  then show "UsersService_delete s userId =
        (Inl (DatabaseError transaction_message (Some (BusinessLogicError
           (delete_user_message
              (length (filter (\<lambda>m. om_user_id m = userId) (organization_memberships s))))))),
         s)"
    by (simp add: UsersService_delete_def UsersService_delete_tx_def transaction_def Let_def)
next
  assume h: "filter (\<lambda>m. om_user_id m = userId) (organization_memberships s) = [] \<and>
    userId \<in> u_id ` set (users s)"
  then have "filter (\<lambda>u. u_id u = userId) (users s) \<noteq> []"
    by (auto simp: filter_empty_conv)
  with h show "UsersService_delete s userId =
        (Inr True,
         s\<lparr>Account := filter (\<lambda>a. acc_user_id a \<noteq> userId) (Account s),
           Session := filter (\<lambda>x. ses_user_id x \<noteq> userId) (Session s),
           users := filter (\<lambda>u. u_id u \<noteq> userId) (users s)\<rparr>)"
    by (simp add: UsersService_delete_def UsersService_delete_tx_def transaction_def Let_def)
next
  assume h: "filter (\<lambda>m. om_user_id m = userId) (organization_memberships s) = [] \<and>
    userId \<notin> u_id ` set (users s)"
  then have "filter (\<lambda>u. u_id u = userId) (users s) = []"
    by (auto simp: filter_empty_conv)
  with h show "UsersService_delete s userId =
        (Inl (DatabaseError transaction_message (Some (NotFoundError ''Usuario''))), s)"
    by (simp add: UsersService_delete_def UsersService_delete_tx_def transaction_def Let_def)
qed

text \<open>The first user belongs to Acme and cannot be deleted; the second user, who has an
  account and a session, belongs to no organization and is deleted with them; a user
  that does not exist is not found.\<close>

theorem delete_user_guard_witness:
  "0 < length (filter (\<lambda>m. om_user_id m = ''usr_1'') (organization_memberships linked_db)) \<and>
   delete_user_message 1 =
     ''No se puede eliminar el usuario porque pertenece a 1 organizaci'' @ o_acute @
     ''n(es). Elimine primero las membres'' @ i_acute @ ''as del usuario.'' \<and>
   UsersService_delete linked_db ''usr_1'' =
     (Inl (DatabaseError transaction_message (Some (BusinessLogicError (delete_user_message 1)))),
      linked_db) \<and>
   ''usr_2'' \<in> u_id ` set (users linked_db) \<and>
   UsersService_delete linked_db ''usr_2'' =
     (Inr True, linked_db\<lparr>Account := [], Session := [], users := [usr_1, usr_3]\<rparr>) \<and>
   ''usr_9'' \<notin> u_id ` set (users linked_db) \<and>
   UsersService_delete linked_db ''usr_9'' =
     (Inl (DatabaseError transaction_message (Some (NotFoundError ''Usuario''))), linked_db)"
proof -
  have n1: "length (filter (\<lambda>m. om_user_id m = ''usr_1'') (organization_memberships linked_db)) = 1"
    by (simp add: linked_db_def example_defs)
  have n2: "filter (\<lambda>m. om_user_id m = ''usr_2'') (organization_memberships linked_db) = [] \<and>
      ''usr_2'' \<in> u_id ` set (users linked_db)"
    by (simp add: linked_db_def example_defs)
  have n9: "filter (\<lambda>m. om_user_id m = ''usr_9'') (organization_memberships linked_db) = [] \<and>
      ''usr_9'' \<notin> u_id ` set (users linked_db)"
    by (simp add: linked_db_def example_defs)
  have msg: "delete_user_message 1 =
     ''No se puede eliminar el usuario porque pertenece a 1 organizaci'' @ o_acute @
     ''n(es). Elimine primero las membres'' @ i_acute @ ''as del usuario.''"
    by (simp add: delete_user_message_def decimal_small decimal_digit_def)
  have after: "linked_db\<lparr>Account := filter (\<lambda>a. acc_user_id a \<noteq> ''usr_2'') (Account linked_db),
           Session := filter (\<lambda>x. ses_user_id x \<noteq> ''usr_2'') (Session linked_db),
           users := filter (\<lambda>u. u_id u \<noteq> ''usr_2'') (users linked_db)\<rparr> =
        linked_db\<lparr>Account := [], Session := [], users := [usr_1, usr_3]\<rparr>"
    by (simp add: linked_db_def example_defs)
  from delete_user_guard [where s = linked_db and userId = "''usr_1''"] n1
  have a: "UsersService_delete linked_db ''usr_1'' =
     (Inl (DatabaseError transaction_message (Some (BusinessLogicError (delete_user_message 1)))),
      linked_db)"
    by simp
  from delete_user_guard [where s = linked_db and userId = "''usr_2''"] n2 after
  have b: "UsersService_delete linked_db ''usr_2'' =
     (Inr True, linked_db\<lparr>Account := [], Session := [], users := [usr_1, usr_3]\<rparr>)"
    by simp
  from delete_user_guard [where s = linked_db and userId = "''usr_9''"] n9
  have c: "UsersService_delete linked_db ''usr_9'' =
     (Inl (DatabaseError transaction_message (Some (NotFoundError ''Usuario''))), linked_db)"
    by blast
  show ?thesis using n1 n2 n9 msg a b c by simp
qed

text \<open>
  Claim C7. The guard and the cascade are as the claim says: a user with memberships is
  not deleted and nothing changes, and a user without them is deleted together with the
  linked rows. What the caller catches is not the business-rule error the guard throws,
  whose message names the number of memberships, nor the not-found error: \<open>delete\<close> runs
  entirely inside \<open>transaction\<close>, which replaces every error thrown in its callback by a
  \<open>DatabaseError\<close> (status 500, code DATABASE_ERROR) with its own message and keeps the
  original only as its cause. The first user is Acme's OWNER; no user \<open>usr_9\<close> exists.
\<close>

theorem delete_user_error_class:
  "length (filter (\<lambda>m. om_user_id m = ''usr_1'') (organization_memberships linked_db)) = 1 \<and>
   UsersService_delete linked_db ''usr_1'' =
     (Inl (AppError ''DatabaseError'' 500 ''DATABASE_ERROR''
        (''Error al ejecutar transacci'' @ o_acute @ ''n'')
        (Some (AppError ''BusinessLogicError'' 400 ''BUSINESS_LOGIC_ERROR''
           (delete_user_message 1) None [])) []),
      linked_db) \<and>
   delete_user_message 1 =
     ''No se puede eliminar el usuario porque pertenece a 1 organizaci'' @ o_acute @
     ''n(es). Elimine primero las membres'' @ i_acute @ ''as del usuario.'' \<and>
   UsersService_delete linked_db ''usr_9'' =
     (Inl (AppError ''DatabaseError'' 500 ''DATABASE_ERROR''
        (''Error al ejecutar transacci'' @ o_acute @ ''n'')
        (Some (AppError ''NotFoundError'' 404 ''NOT_FOUND'' ''Usuario no encontrado'' None
           [(''resource'', ''Usuario'')])) []),
      linked_db)"
  by (simp add: linked_db_def example_defs UsersService_delete_def UsersService_delete_tx_def
      transaction_def Let_def DatabaseError_def BusinessLogicError_def NotFoundError_def
      transaction_message_def delete_user_message_def decimal_small decimal_digit_def)

lemma addMember_failure_unchanged:
  "fst (ProjectMembershipsService_addMember s now g projectId userId role_arg) = Inl e \<Longrightarrow>
   snd (ProjectMembershipsService_addMember s now g projectId userId role_arg) = s"
  by (auto simp: ProjectMembershipsService_addMember_def transaction_def Let_def
      split: if_splits sum.splits)

text \<open>
  Claim C6. The user exists, the project exists and is not deleted, and the user has no
  membership in the project's organization. When the user identifier is not empty, the
  role is a project role and the user is not yet a member of the project, \<open>addMember\<close>
  returns the membership and the datastore differs from the old one in exactly two
  appended rows: a VIEWER membership of the organization, and the project membership that
  refers to it. In every other case the call throws and the datastore is the old one;
  that a throwing call changes nothing holds with no condition at all.
\<close>

theorem addMember_cascade:
  "(userId \<in> u_id ` set (users s) \<and>
    filter (\<lambda>p. prj_id p = projectId \<and> prj_deleted_at p = None) (projects s) = prj # others \<and>
    filter (\<lambda>m. om_org_id m = prj_org_id prj \<and> om_user_id m = userId)
      (organization_memberships s) = [] \<longrightarrow>
      (if userId \<noteq> [] \<and> (case role_arg of None \<Rightarrow> ''VIEWER'' | Some r \<Rightarrow> r) \<in> set prj_validRoles \<and>
          filter (\<lambda>m. pm_project_id m = projectId \<and> pm_user_id m = userId)
            (project_memberships s) = []
       then (\<exists>membership.
               fst (ProjectMembershipsService_addMember s now g projectId userId role_arg) =
                 Inr membership) \<and>
            snd (ProjectMembershipsService_addMember s now g projectId userId role_arg) =
              s\<lparr>organization_memberships := organization_memberships s @
                   [\<lparr>om_id = generateId ''om'' g now, om_org_id = prj_org_id prj,
                     om_user_id = userId, om_role = ''VIEWER'', om_created_at = now,
                     om_updated_at = now\<rparr>],
                 project_memberships := project_memberships s @
                   [\<lparr>pm_project_id = projectId, pm_user_id = userId,
                     pm_org_membership_id = generateId ''om'' g now,
                     pm_role = (case role_arg of None \<Rightarrow> ''VIEWER'' | Some r \<Rightarrow> r),
                     pm_created_at = now, pm_updated_at = now\<rparr>]\<rparr>
       else (\<exists>error.
               fst (ProjectMembershipsService_addMember s now g projectId userId role_arg) =
                 Inl error) \<and>
            snd (ProjectMembershipsService_addMember s now g projectId userId role_arg) = s)) \<and>
   (fst (ProjectMembershipsService_addMember t now g projectId userId role_arg) = Inl e \<longrightarrow>
      snd (ProjectMembershipsService_addMember t now g projectId userId role_arg) = t)"
proof (intro conjI impI)
  assume h: "userId \<in> u_id ` set (users s) \<and>
    filter (\<lambda>p. prj_id p = projectId \<and> prj_deleted_at p = None) (projects s) = prj # others \<and>
    filter (\<lambda>m. om_org_id m = prj_org_id prj \<and> om_user_id m = userId)
      (organization_memberships s) = []"
  then have user: "filter (\<lambda>u. u_id u = userId) (users s) \<noteq> []"
    by (auto simp: filter_empty_conv)
  show "if userId \<noteq> [] \<and> (case role_arg of None \<Rightarrow> ''VIEWER'' | Some r \<Rightarrow> r) \<in> set prj_validRoles \<and>
          filter (\<lambda>m. pm_project_id m = projectId \<and> pm_user_id m = userId)
            (project_memberships s) = []
       then (\<exists>membership.
               fst (ProjectMembershipsService_addMember s now g projectId userId role_arg) =
                 Inr membership) \<and>
            snd (ProjectMembershipsService_addMember s now g projectId userId role_arg) =
              s\<lparr>organization_memberships := organization_memberships s @
                   [\<lparr>om_id = generateId ''om'' g now, om_org_id = prj_org_id prj,
                     om_user_id = userId, om_role = ''VIEWER'', om_created_at = now,
                     om_updated_at = now\<rparr>],
                 project_memberships := project_memberships s @
                   [\<lparr>pm_project_id = projectId, pm_user_id = userId,
                     pm_org_membership_id = generateId ''om'' g now,
                     pm_role = (case role_arg of None \<Rightarrow> ''VIEWER'' | Some r \<Rightarrow> r),
                     pm_created_at = now, pm_updated_at = now\<rparr>]\<rparr>
       else (\<exists>error.
               fst (ProjectMembershipsService_addMember s now g projectId userId role_arg) =
                 Inl error) \<and>
            snd (ProjectMembershipsService_addMember s now g projectId userId role_arg) = s"
    using h user
    by (simp add: ProjectMembershipsService_addMember_def
        ProjectMembershipsService_addMember_tx_def transaction_def Let_def)
next
  assume "fst (ProjectMembershipsService_addMember t now g projectId userId role_arg) = Inl e"
  then show "snd (ProjectMembershipsService_addMember t now g projectId userId role_arg) = t"
    by (rule addMember_failure_unchanged)
qed














text \<open>The second user, who is not a member of Acme, joins Apollo as MEMBER; adding
  Apollo's OWNER once more fails and changes nothing.\<close>

theorem addMember_cascade_witness:
  "''usr_2'' \<in> u_id ` set (users apollo_db) \<and>
   filter (\<lambda>p. prj_id p = ''cprj1'' \<and> prj_deleted_at p = None) (projects apollo_db) = [apollo] \<and>
   filter (\<lambda>m. om_org_id m = prj_org_id apollo \<and> om_user_id m = ''usr_2'')
     (organization_memberships apollo_db) = [] \<and>
   ProjectMembershipsService_addMember apollo_db 3 (draw [] ''d'' 1 2) ''cprj1'' ''usr_2''
       (Some ''MEMBER'') =
     (Inr \<lparr>pmv_project_id = ''cprj1'', pmv_user_id = ''usr_2'', pmv_role = ''MEMBER'',
        pmv_created_at = 3, pmv_updated_at = 3, pmv_name = ''Luis'',
        pmv_email = ''luis@example.com'', pmv_image = None\<rparr>,
      apollo_db\<lparr>
        organization_memberships := [acme_owner,
          \<lparr>om_id = ''om_3d'', om_org_id = ''corg1'', om_user_id = ''usr_2'', om_role = ''VIEWER'',
            om_created_at = 3, om_updated_at = 3\<rparr>],
        project_memberships :=
          [\<lparr>pm_project_id = ''cprj1'', pm_user_id = ''usr_2'', pm_org_membership_id = ''om_3d'',
            pm_role = ''MEMBER'', pm_created_at = 3, pm_updated_at = 3\<rparr>]\<rparr>) \<and>
   fst (ProjectMembershipsService_addMember apollo_owned_db 4 (draw [] ''d'' 1 2) ''cprj1''
       ''usr_1'' (Some ''ADMIN'')) =
     Inl (DatabaseError transaction_message
       (Some (ConflictError ''El usuario ya es miembro de este proyecto''))) \<and>
   snd (ProjectMembershipsService_addMember apollo_owned_db 4 (draw [] ''d'' 1 2) ''cprj1''
       ''usr_1'' (Some ''ADMIN'')) = apollo_owned_db"
proof -
  have h: "''usr_2'' \<in> u_id ` set (users apollo_db) \<and>
     filter (\<lambda>p. prj_id p = ''cprj1'' \<and> prj_deleted_at p = None) (projects apollo_db) =
       apollo # [] \<and>
     filter (\<lambda>m. om_org_id m = prj_org_id apollo \<and> om_user_id m = ''usr_2'')
       (organization_memberships apollo_db) = []"
    by (simp add: example_defs)
  have ok: "''usr_2'' \<noteq> [] \<and>
      (case Some ''MEMBER'' of None \<Rightarrow> ''VIEWER'' | Some r \<Rightarrow> r) \<in> set prj_validRoles \<and>
      filter (\<lambda>m. pm_project_id m = ''cprj1'' \<and> pm_user_id m = ''usr_2'')
        (project_memberships apollo_db) = []"
    by (simp add: example_defs prj_validRoles_def)
  have f: "fst (ProjectMembershipsService_addMember apollo_db 3 (draw [] ''d'' 1 2) ''cprj1''
        ''usr_2'' (Some ''MEMBER'')) =
      Inr \<lparr>pmv_project_id = ''cprj1'', pmv_user_id = ''usr_2'', pmv_role = ''MEMBER'',
        pmv_created_at = 3, pmv_updated_at = 3, pmv_name = ''Luis'',
        pmv_email = ''luis@example.com'', pmv_image = None\<rparr>"
    by (simp add: example_defs prj_service_defs)
  have c: "fst (ProjectMembershipsService_addMember apollo_owned_db 4 (draw [] ''d'' 1 2) ''cprj1''
       ''usr_1'' (Some ''ADMIN'')) =
     Inl (DatabaseError transaction_message
       (Some (ConflictError ''El usuario ya es miembro de este proyecto'')))"
    by (simp add: example_defs prj_service_defs)
  note inst = addMember_cascade [where s = apollo_db and userId = "''usr_2''"
      and projectId = "''cprj1''" and prj = apollo and others = "[]"
      and role_arg = "Some ''MEMBER''" and now = 3 and g = "draw [] ''d'' 1 2"]
  from inst h ok
  have s: "snd (ProjectMembershipsService_addMember apollo_db 3 (draw [] ''d'' 1 2) ''cprj1''
        ''usr_2'' (Some ''MEMBER'')) =
      apollo_db\<lparr>
        organization_memberships := [acme_owner,
          \<lparr>om_id = ''om_3d'', om_org_id = ''corg1'', om_user_id = ''usr_2'', om_role = ''VIEWER'',
            om_created_at = 3, om_updated_at = 3\<rparr>],
        project_memberships :=
          [\<lparr>pm_project_id = ''cprj1'', pm_user_id = ''usr_2'', pm_org_membership_id = ''om_3d'',
            pm_role = ''MEMBER'', pm_created_at = 3, pm_updated_at = 3\<rparr>]\<rparr>"
    by (simp add: example_defs generateId_def to_base36_small digit36_def)
  from addMember_cascade [where t = apollo_owned_db and userId = "''usr_1''"
      and projectId = "''cprj1''" and role_arg = "Some ''ADMIN''" and now = 4
      and g = "draw [] ''d'' 1 2"] c
  have u: "snd (ProjectMembershipsService_addMember apollo_owned_db 4 (draw [] ''d'' 1 2) ''cprj1''
       ''usr_1'' (Some ''ADMIN'')) = apollo_owned_db"
    by blast
  show ?thesis using h f s c u by (simp add: prod_eq_iff)
qed




subsection \<open>Key material\<close>

lemma hex_digit_in: "d < 16 \<Longrightarrow> hex_digit d \<in> set hex_alphabet"
  unfolding hex_digit_def by (rule nth_mem) (simp add: hex_alphabet_def)

lemma hex_byte_chars:
  fixes b :: "8 word"
  shows "set (hex_byte b) \<subseteq> set hex_alphabet"
proof -
  have "unat b < 256" using unsigned_less [of b] by simp
  then have "unat b div 16 < 16" by simp
  then have hi: "hex_digit (unat b div 16) \<in> set hex_alphabet"
    by (rule hex_digit_in)
  have "unat b mod 16 < 16" by simp
  then have lo: "hex_digit (unat b mod 16) \<in> set hex_alphabet"
    by (rule hex_digit_in)
  show ?thesis using hi lo by (simp add: hex_byte_def)
qed

lemma to_hex_chars: "set (to_hex bs) \<subseteq> set hex_alphabet"
  using hex_byte_chars by (auto simp: to_hex_def)

lemma dot_not_hex: "CHR ''.'' \<notin> set hex_alphabet"
  by (simp add: hex_alphabet_def)

lemma length_to_hex: "length (to_hex bs) = 2 * length bs"
  by (induction bs) (simp_all add: to_hex_def hex_byte_def)

lemma generateApiKey_nonempty: "generateApiKey p bs \<noteq> []"
  by (simp add: generateApiKey_def)

lemma secret_has_no_dot: "CHR ''.'' \<notin> set (generateApiKey ''sk'' bs)"
proof -
  have "CHR ''.'' \<notin> set (to_hex bs)"
    using to_hex_chars [of bs] dot_not_hex by blast
  then show ?thesis by (simp add: generateApiKey_def)
qed

lemma display_fragment_differs: "display_fragment (generateApiKey ''sk'' bs) \<noteq> generateApiKey ''sk'' bs"
proof
  assume "display_fragment (generateApiKey ''sk'' bs) = generateApiKey ''sk'' bs"
  then have "set (display_fragment (generateApiKey ''sk'' bs)) = set (generateApiKey ''sk'' bs)"
    by simp
  moreover have "CHR ''.'' \<in> set (display_fragment (generateApiKey ''sk'' bs))"
    by (simp add: display_fragment_def)
  ultimately show False using secret_has_no_dot [of bs] by simp
qed

lemma public_key_differs: "generateApiKey ''pk'' bs \<noteq> generateApiKey ''sk'' bs'"
  by (simp add: generateApiKey_def)

lemma key_id_differs: "generateId ''key'' g now \<noteq> generateApiKey ''sk'' bs"
  by (simp add: generateId_def generateApiKey_def)

lemma example_keys:
  "generateApiKey ''pk'' (replicate 16 (1::8 word)) = ''pk_01010101010101010101010101010101''"
  "generateApiKey ''sk'' (replicate 16 (2::8 word)) = ''sk_02020202020202020202020202020202''"
  "generateApiKey ''pk'' (replicate 16 (3::8 word)) = ''pk_03030303030303030303030303030303''"
  "generateApiKey ''sk'' (replicate 16 (4::8 word)) = ''sk_04040404040404040404040404040404''"
  by code_simp+

subsection \<open>regenerate\<close>

lemma unique_id_row:
  assumes "distinct (map ak_id rows)" and "k \<in> set rows" and "x \<in> set rows" and "ak_id x = ak_id k"
  shows "x = k"
  using assms by (meson distinct_map inj_onD)

lemma unique_id_filter:
  assumes "distinct (map ak_id rows)" and "k \<in> set rows"
  shows "filter (\<lambda>x. ak_id x = ak_id k) rows = [k]"
  using assms
proof (induction rows)
  case Nil
  then show ?case by simp
next
  case (Cons r rows)
  show ?case
  proof (cases "r = k")
    case True
    with Cons.prems have "\<forall>x \<in> set rows. ak_id x \<noteq> ak_id k" by (auto simp: image_iff)
    then have "filter (\<lambda>x. ak_id x = ak_id k) rows = []" by (simp add: filter_empty_conv)
    with True show ?thesis by simp
  next
    case False
    with Cons.prems have "k \<in> set rows" and "ak_id r \<noteq> ak_id k"
      by (auto simp: image_iff)
    with Cons show ?thesis by simp
  qed
qed

lemma regenerate_success:
  assumes d: "distinct (map ak_id (api_keys s))" and k: "k \<in> set (api_keys s)"
    and p: "parsedExpiresAt now expiresAt = Inr parsed"
    and e: "e = (if (expiresAt = Undefined \<or> expiresAt = Null) \<and> ak_expires_at k \<noteq> None
                 then ak_expires_at k else parsed)"
  shows "ApiKeysService_regenerate sha256_hex s now g (ak_id k) expiresAt =
    (Inr (api_key_view.extend
       (view_of (k\<lparr>ak_public_key := generateApiKey ''pk'' (pk_bytes g),
          ak_hashed_secret_key := hashSecretKey sha256_hex (generateApiKey ''sk'' (sk_bytes g)),
          ak_display_secret_key := display_fragment (generateApiKey ''sk'' (sk_bytes g)),
          ak_updated_at := Some now, ak_expires_at := e\<rparr>))
       \<lparr>rk_secretKey = generateApiKey ''sk'' (sk_bytes g)\<rparr>),
     s\<lparr>api_keys := map (\<lambda>x. if ak_id x = ak_id k
         then x\<lparr>ak_public_key := generateApiKey ''pk'' (pk_bytes g),
           ak_hashed_secret_key := hashSecretKey sha256_hex (generateApiKey ''sk'' (sk_bytes g)),
           ak_display_secret_key := display_fragment (generateApiKey ''sk'' (sk_bytes g)),
           ak_updated_at := Some now, ak_expires_at := e\<rparr>
         else x) (api_keys s)\<rparr>)"
proof -
  let ?upd = "\<lambda>x. x\<lparr>ak_public_key := generateApiKey ''pk'' (pk_bytes g),
           ak_hashed_secret_key := hashSecretKey sha256_hex (generateApiKey ''sk'' (sk_bytes g)),
           ak_display_secret_key := display_fragment (generateApiKey ''sk'' (sk_bytes g)),
           ak_updated_at := Some now, ak_expires_at := e\<rparr>"
  have f: "filter (\<lambda>x. ak_id x = ak_id k) (api_keys s) = [k]"
    using d k by (rule unique_id_filter)
  have "filter (\<lambda>x. ak_id x = ak_id k)
      (map (\<lambda>x. if ak_id x = ak_id k then ?upd x else x) (api_keys s)) =
      map ?upd (filter (\<lambda>x. ak_id x = ak_id k) (api_keys s))"
    by (induction "api_keys s") (auto simp: filter_map o_def)
  then have f': "filter (\<lambda>x. ak_id x = ak_id k)
      (map (\<lambda>x. if ak_id x = ak_id k then ?upd x else x) (api_keys s)) = [?upd k]"
    using f by simp
  have tx: "ApiKeysService_regenerate_tx sha256_hex now g (ak_id k) expiresAt parsed s =
      Inr (api_key_view.extend (view_of (?upd k))
             \<lparr>rk_secretKey = generateApiKey ''sk'' (sk_bytes g)\<rparr>,
           s\<lparr>api_keys := map (\<lambda>x. if ak_id x = ak_id k then ?upd x else x) (api_keys s)\<rparr>)"
    by (simp only: ApiKeysService_regenerate_tx_def Let_def f list.case e [symmetric] f')
  show ?thesis
    by (simp only: ApiKeysService_regenerate_def p sum.case transaction_def tx prod.case)
qed

text \<open>
  Claim C4, as the code has it. The key \<open>k\<close> is a row of a table whose identifiers are
  unique. \<open>regenerate\<close> overwrites its public key, hash and display fragment with fresh
  material and sets \<open>updated_at\<close>; identifier, note and every other column stay. When
  \<open>expiresAt\<close> is left out or is \<open>null\<close>, the stored expiration stays as well: an
  explicit \<open>null\<close> does not clear it. Any other value that JavaScript takes for true
  is read as a date: a date in the future replaces the stored expiration; a date that
  is not in the future, or a value that is no date, is refused before the transaction
  and nothing changes. The values JavaScript takes for false other than \<open>null\<close> and
  \<open>undefined\<close> (the empty string, 0, \<open>false\<close>) pass unvalidated and the stored
  expiration is cleared.
\<close>

theorem regenerate_expiration:
  "distinct (map ak_id (api_keys s)) \<and> k \<in> set (api_keys s) \<longrightarrow>
     ((expiresAt = Undefined \<or> expiresAt = Null) \<longrightarrow>
        ApiKeysService_regenerate sha256_hex s now g (ak_id k) expiresAt =
          (Inr (api_key_view.extend
             (view_of (k\<lparr>ak_public_key := generateApiKey ''pk'' (pk_bytes g),
                ak_hashed_secret_key := hashSecretKey sha256_hex (generateApiKey ''sk'' (sk_bytes g)),
                ak_display_secret_key := display_fragment (generateApiKey ''sk'' (sk_bytes g)),
                ak_updated_at := Some now\<rparr>))
             \<lparr>rk_secretKey = generateApiKey ''sk'' (sk_bytes g)\<rparr>),
           s\<lparr>api_keys := map (\<lambda>x. if ak_id x = ak_id k
               then x\<lparr>ak_public_key := generateApiKey ''pk'' (pk_bytes g),
                 ak_hashed_secret_key := hashSecretKey sha256_hex (generateApiKey ''sk'' (sk_bytes g)),
                 ak_display_secret_key := display_fragment (generateApiKey ''sk'' (sk_bytes g)),
                 ak_updated_at := Some now\<rparr>
               else x) (api_keys s)\<rparr>)) \<and>
     (now < t \<longrightarrow>
        ApiKeysService_regenerate sha256_hex s now g (ak_id k) (DateValue (Some t)) =
          (Inr (api_key_view.extend
             (view_of (k\<lparr>ak_public_key := generateApiKey ''pk'' (pk_bytes g),
                ak_hashed_secret_key := hashSecretKey sha256_hex (generateApiKey ''sk'' (sk_bytes g)),
                ak_display_secret_key := display_fragment (generateApiKey ''sk'' (sk_bytes g)),
                ak_updated_at := Some now, ak_expires_at := Some t\<rparr>))
             \<lparr>rk_secretKey = generateApiKey ''sk'' (sk_bytes g)\<rparr>),
           s\<lparr>api_keys := map (\<lambda>x. if ak_id x = ak_id k
               then x\<lparr>ak_public_key := generateApiKey ''pk'' (pk_bytes g),
                 ak_hashed_secret_key := hashSecretKey sha256_hex (generateApiKey ''sk'' (sk_bytes g)),
                 ak_display_secret_key := display_fragment (generateApiKey ''sk'' (sk_bytes g)),
                 ak_updated_at := Some now, ak_expires_at := Some t\<rparr>
               else x) (api_keys s)\<rparr>)) \<and>
     (t \<le> now \<longrightarrow>
        ApiKeysService_regenerate sha256_hex s now g (ak_id k) (DateValue (Some t)) =
          (Inl (BusinessLogicError past_date_message), s)) \<and>
     ApiKeysService_regenerate sha256_hex s now g (ak_id k) (DateValue None) =
       (Inl (BusinessLogicError invalid_date_message), s) \<and>
     ApiKeysService_regenerate sha256_hex s now g (ak_id k) Falsy =
       (Inr (api_key_view.extend
          (view_of (k\<lparr>ak_public_key := generateApiKey ''pk'' (pk_bytes g),
             ak_hashed_secret_key := hashSecretKey sha256_hex (generateApiKey ''sk'' (sk_bytes g)),
             ak_display_secret_key := display_fragment (generateApiKey ''sk'' (sk_bytes g)),
             ak_updated_at := Some now, ak_expires_at := None\<rparr>))
          \<lparr>rk_secretKey = generateApiKey ''sk'' (sk_bytes g)\<rparr>),
        s\<lparr>api_keys := map (\<lambda>x. if ak_id x = ak_id k
            then x\<lparr>ak_public_key := generateApiKey ''pk'' (pk_bytes g),
              ak_hashed_secret_key := hashSecretKey sha256_hex (generateApiKey ''sk'' (sk_bytes g)),
              ak_display_secret_key := display_fragment (generateApiKey ''sk'' (sk_bytes g)),
              ak_updated_at := Some now, ak_expires_at := None\<rparr>
            else x) (api_keys s)\<rparr>)"
proof (intro impI conjI)
  assume h: "distinct (map ak_id (api_keys s)) \<and> k \<in> set (api_keys s)"
  let ?rot = "\<lambda>x. x\<lparr>ak_public_key := generateApiKey ''pk'' (pk_bytes g),
                 ak_hashed_secret_key := hashSecretKey sha256_hex (generateApiKey ''sk'' (sk_bytes g)),
                 ak_display_secret_key := display_fragment (generateApiKey ''sk'' (sk_bytes g)),
                 ak_updated_at := Some now\<rparr>"
  {
    assume a: "expiresAt = Undefined \<or> expiresAt = Null"
    then have p: "parsedExpiresAt now expiresAt = Inr None"
      by (auto simp: parsedExpiresAt_def)
    have e: "ak_expires_at k = (if (expiresAt = Undefined \<or> expiresAt = Null) \<and> ak_expires_at k \<noteq> None
                 then ak_expires_at k else None)"
      using a by auto
    have same: "(if ak_id x = ak_id k then (?rot x)\<lparr>ak_expires_at := ak_expires_at k\<rparr> else x) =
        (if ak_id x = ak_id k then ?rot x else x)" if "x \<in> set (api_keys s)" for x
    proof (cases "ak_id x = ak_id k")
      case True
      with h that have "x = k" using unique_id_row by blast
      then show ?thesis by simp
    next
      case False
      then show ?thesis by simp
    qed
    have m: "map (\<lambda>x. if ak_id x = ak_id k then (?rot x)\<lparr>ak_expires_at := ak_expires_at k\<rparr> else x)
          (api_keys s) =
        map (\<lambda>x. if ak_id x = ak_id k then ?rot x else x) (api_keys s)"
      using same by (rule map_cong [OF refl])
    have v: "view_of ((?rot k)\<lparr>ak_expires_at := ak_expires_at k\<rparr>) = view_of (?rot k)"
      by (simp add: view_of_def)
    from regenerate_success [where sha256_hex = sha256_hex and g = g, OF conjunct1 [OF h] conjunct2 [OF h] p e]
    show "ApiKeysService_regenerate sha256_hex s now g (ak_id k) expiresAt =
          (Inr (api_key_view.extend (view_of (?rot k))
             \<lparr>rk_secretKey = generateApiKey ''sk'' (sk_bytes g)\<rparr>),
           s\<lparr>api_keys := map (\<lambda>x. if ak_id x = ak_id k then ?rot x else x) (api_keys s)\<rparr>)"
      by (simp only: m v)
  }
  {
    assume a: "now < t"
    then have p: "parsedExpiresAt now (DateValue (Some t)) = Inr (Some t)"
      by (simp add: parsedExpiresAt_def)
    have e: "Some t = (if (DateValue (Some t) = Undefined \<or> DateValue (Some t) = Null) \<and>
          ak_expires_at k \<noteq> None then ak_expires_at k else Some t)"
      by simp
    from regenerate_success [where sha256_hex = sha256_hex and g = g, OF conjunct1 [OF h] conjunct2 [OF h] p e]
    show "ApiKeysService_regenerate sha256_hex s now g (ak_id k) (DateValue (Some t)) =
          (Inr (api_key_view.extend (view_of ((?rot k)\<lparr>ak_expires_at := Some t\<rparr>))
             \<lparr>rk_secretKey = generateApiKey ''sk'' (sk_bytes g)\<rparr>),
           s\<lparr>api_keys := map (\<lambda>x. if ak_id x = ak_id k then (?rot x)\<lparr>ak_expires_at := Some t\<rparr>
               else x) (api_keys s)\<rparr>)" .
  }
  {
    assume "t \<le> now"
    then show "ApiKeysService_regenerate sha256_hex s now g (ak_id k) (DateValue (Some t)) =
          (Inl (BusinessLogicError past_date_message), s)"
      by (simp add: ApiKeysService_regenerate_def parsedExpiresAt_def)
  }
  show "ApiKeysService_regenerate sha256_hex s now g (ak_id k) (DateValue None) =
       (Inl (BusinessLogicError invalid_date_message), s)"
    by (simp add: ApiKeysService_regenerate_def parsedExpiresAt_def)
  {
    have p: "parsedExpiresAt now Falsy = Inr None"
      by (simp add: parsedExpiresAt_def)
    have e: "None = (if (Falsy = Undefined \<or> Falsy = Null) \<and> ak_expires_at k \<noteq> None
          then ak_expires_at k else None)"
      by simp
    from regenerate_success [where sha256_hex = sha256_hex and g = g, OF conjunct1 [OF h] conjunct2 [OF h] p e]
    show "ApiKeysService_regenerate sha256_hex s now g (ak_id k) Falsy =
          (Inr (api_key_view.extend (view_of ((?rot k)\<lparr>ak_expires_at := None\<rparr>))
             \<lparr>rk_secretKey = generateApiKey ''sk'' (sk_bytes g)\<rparr>),
           s\<lparr>api_keys := map (\<lambda>x. if ak_id x = ak_id k then (?rot x)\<lparr>ak_expires_at := None\<rparr>
               else x) (api_keys s)\<rparr>)" .
  }
qed

lemmas key_example_defs = apollo_key_db_def apollo_key_def example_keys

text \<open>Apollo's key expires at 1000. Regenerated at time 20 with no \<open>expiresAt\<close> it still
  expires at 1000; regenerated with the date 2000 it expires at 2000; the date 15 and a
  value that is no date are refused; regenerated with the empty string it no longer
  expires.\<close>

theorem regenerate_expiration_witness:
  "distinct (map ak_id (api_keys apollo_key_db)) \<and> apollo_key \<in> set (api_keys apollo_key_db) \<and>
   ApiKeysService_regenerate toy_digest apollo_key_db 20 (draw [] ''r'' 3 4) ''key_ak'' Undefined =
     (Inr \<lparr>akv_id = ''key_ak'', akv_created_at = 10,
        akv_public_key = ''pk_03030303030303030303030303030303'',
        akv_display_secret_key = ''sk_04040...'', akv_last_used_at = None,
        akv_note = Some ''ci'', akv_expires_at = Some 1000,
        rk_secretKey = ''sk_04040404040404040404040404040404''\<rparr>,
      apollo_db\<lparr>api_keys :=
        [apollo_key\<lparr>ak_public_key := ''pk_03030303030303030303030303030303'',
           ak_hashed_secret_key := toy_digest ''saltsk_04040404040404040404040404040404'',
           ak_display_secret_key := ''sk_04040...'', ak_updated_at := Some 20\<rparr>]\<rparr>) \<and>
   map ak_expires_at (api_keys (snd
     (ApiKeysService_regenerate toy_digest apollo_key_db 20 (draw [] ''r'' 3 4) ''key_ak''
        (DateValue (Some 2000))))) = [Some 2000] \<and>
   ApiKeysService_regenerate toy_digest apollo_key_db 20 (draw [] ''r'' 3 4) ''key_ak''
       (DateValue (Some 15)) =
     (Inl (BusinessLogicError past_date_message), apollo_key_db) \<and>
   ApiKeysService_regenerate toy_digest apollo_key_db 20 (draw [] ''r'' 3 4) ''key_ak''
       (DateValue None) =
     (Inl (BusinessLogicError invalid_date_message), apollo_key_db) \<and>
   map ak_expires_at (api_keys (snd
     (ApiKeysService_regenerate toy_digest apollo_key_db 20 (draw [] ''r'' 3 4) ''key_ak''
        Falsy))) = [None]"
proof -
  have h: "distinct (map ak_id (api_keys apollo_key_db)) \<and> apollo_key \<in> set (api_keys apollo_key_db)"
    by (simp add: apollo_key_db_def)
  have id: "ak_id apollo_key = ''key_ak''" by (simp add: apollo_key_def)
  note inst = regenerate_expiration [where s = apollo_key_db and k = apollo_key
      and sha256_hex = toy_digest and now = 20 and g = "draw [] ''r'' 3 4", unfolded id]
  from inst [where expiresAt = Undefined] h
  have a: "ApiKeysService_regenerate toy_digest apollo_key_db 20 (draw [] ''r'' 3 4) ''key_ak'' Undefined =
     (Inr \<lparr>akv_id = ''key_ak'', akv_created_at = 10,
        akv_public_key = ''pk_03030303030303030303030303030303'',
        akv_display_secret_key = ''sk_04040...'', akv_last_used_at = None,
        akv_note = Some ''ci'', akv_expires_at = Some 1000,
        rk_secretKey = ''sk_04040404040404040404040404040404''\<rparr>,
      apollo_db\<lparr>api_keys :=
        [apollo_key\<lparr>ak_public_key := ''pk_03030303030303030303030303030303'',
           ak_hashed_secret_key := toy_digest ''saltsk_04040404040404040404040404040404'',
           ak_display_secret_key := ''sk_04040...'', ak_updated_at := Some 20\<rparr>]\<rparr>)"
    by (simp add: apollo_key_db_def draw_def example_keys id display_fragment_def
        hashSecretKey_def view_of_def api_key_view.extend_def)
       (simp add: apollo_key_def)
  from inst [where t = 2000] h
  have b: "map ak_expires_at (api_keys (snd
     (ApiKeysService_regenerate toy_digest apollo_key_db 20 (draw [] ''r'' 3 4) ''key_ak''
        (DateValue (Some 2000))))) = [Some 2000]"
    by (simp add: apollo_key_db_def id)
  from inst [where t = 15] h
  have c: "ApiKeysService_regenerate toy_digest apollo_key_db 20 (draw [] ''r'' 3 4) ''key_ak''
       (DateValue (Some 15)) =
     (Inl (BusinessLogicError past_date_message), apollo_key_db)"
    by simp
  from inst h
  have d: "ApiKeysService_regenerate toy_digest apollo_key_db 20 (draw [] ''r'' 3 4) ''key_ak''
       (DateValue None) =
     (Inl (BusinessLogicError invalid_date_message), apollo_key_db)"
    by blast
  from inst h
  have e: "map ak_expires_at (api_keys (snd
     (ApiKeysService_regenerate toy_digest apollo_key_db 20 (draw [] ''r'' 3 4) ''key_ak''
        Falsy))) = [None]"
    by (simp add: apollo_key_db_def id)
  show ?thesis using h a b c d e by blast
qed

text \<open>Apollo's key expires at 1000; regenerated with an explicit \<open>null\<close>, it still does.\<close>

theorem regenerate_null_keeps_expiration:
  "map ak_expires_at (api_keys apollo_key_db) = [Some 1000] \<and>
   map ak_expires_at (api_keys (snd
     (ApiKeysService_regenerate toy_digest apollo_key_db 20 (draw [] ''r'' 3 4) ''key_ak'' Null))) =
     [Some 1000]"
  by (simp add: apollo_key_db_def apollo_key_def ApiKeysService_regenerate_def
      ApiKeysService_regenerate_tx_def parsedExpiresAt_def transaction_def Let_def)

subsection \<open>verify\<close>

lemma create_success_cases:
  assumes "ApiKeysService_create sha256_hex s now g projectId note' expiresAt = (Inr created, s1)"
  shows "\<exists>parsed.
     parsedExpiresAt now expiresAt = Inr parsed \<and>
     filter (\<lambda>p. prj_id p = projectId \<and> prj_deleted_at p = None) (projects s) \<noteq> [] \<and>
     created = \<lparr>ck_id = generateId ''key'' g now, ck_created_at = now,
       ck_public_key = generateApiKey ''pk'' (pk_bytes g),
       ck_display_secret_key = display_fragment (generateApiKey ''sk'' (sk_bytes g)),
       ck_note = note', ck_expires_at = parsed,
       ck_secretKey = generateApiKey ''sk'' (sk_bytes g)\<rparr> \<and>
     s1 = s\<lparr>api_keys := api_keys s @
       [\<lparr>ak_id = generateId ''key'' g now, ak_project_id = projectId, ak_created_at = now,
         ak_updated_at = None, ak_public_key = generateApiKey ''pk'' (pk_bytes g),
         ak_hashed_secret_key = hashSecretKey sha256_hex (generateApiKey ''sk'' (sk_bytes g)),
         ak_display_secret_key = display_fragment (generateApiKey ''sk'' (sk_bytes g)),
         ak_note = note', ak_expires_at = parsed, ak_last_used_at = None\<rparr>]\<rparr>"
  using assms
  by (auto simp: ApiKeysService_create_def ApiKeysService_create_tx_def transaction_def Let_def
      split: sum.splits if_splits)

lemma unique_project:
  assumes "distinct (map prj_id (projects s))"
    and "filter (\<lambda>p. prj_id p = projectId \<and> prj_deleted_at p = None) (projects s) \<noteq> []"
  shows "\<exists>p \<in> set (projects s). prj_id p = projectId \<and> prj_deleted_at p = None \<and>
     filter (\<lambda>p. prj_id p = projectId) (projects s) = [p]"
proof -
  from assms(2) obtain p where p: "p \<in> set (projects s)" "prj_id p = projectId"
      "prj_deleted_at p = None"
    by (auto simp: filter_empty_conv)
  have "filter (\<lambda>x. prj_id x = prj_id p) (projects s) = [p]"
    using assms(1) p(1)
  proof (induction "projects s" arbitrary: s)
    case Nil
    then show ?case by simp
  next
    case (Cons r rows)
    from Cons(2) [symmetric] Cons(3,4) show ?case
    proof (cases "r = p")
      case True
      with Cons(2) [symmetric] Cons(3) have "\<forall>x \<in> set rows. prj_id x \<noteq> prj_id p"
        by (auto simp: image_iff)
      then have "filter (\<lambda>x. prj_id x = prj_id p) rows = []" by (simp add: filter_empty_conv)
      with True Cons(2) [symmetric] show ?thesis by simp
    next
      case False
      with Cons(2) [symmetric] Cons(3,4) have "p \<in> set rows" "prj_id r \<noteq> prj_id p"
        "distinct (map prj_id rows)"
        by (auto simp: image_iff)
      with Cons(1) [of "s\<lparr>projects := rows\<rparr>"] Cons(2) [symmetric] show ?thesis by simp
    qed
  qed
  with p show ?thesis by auto
qed

lemma verify_after_create:
  assumes c: "ApiKeysService_create sha256_hex s now g projectId note' expiresAt = (Inr created, s1)"
    and fresh: "generateApiKey ''pk'' (pk_bytes g) \<notin> ak_public_key ` set (api_keys s)"
    and uniq: "distinct (map prj_id (projects s))"
    and live: "case ck_expires_at created of None \<Rightarrow> True | Some e \<Rightarrow> now' \<le> e"
  shows "\<exists>p \<in> set (projects s). prj_id p = projectId \<and>
     ApiKeysService_verify sha256_hex s1 now' (ck_public_key created) (ck_secretKey created) =
       (Some \<lparr>pd_id = prj_id p, pd_org_id = prj_org_id p, pd_name = prj_name p\<rparr>,
        s\<lparr>api_keys := api_keys s @
          [\<lparr>ak_id = ck_id created, ak_project_id = projectId, ak_created_at = now,
            ak_updated_at = None, ak_public_key = ck_public_key created,
            ak_hashed_secret_key = hashSecretKey sha256_hex (ck_secretKey created),
            ak_display_secret_key = ck_display_secret_key created,
            ak_note = note', ak_expires_at = ck_expires_at created,
            ak_last_used_at = Some now'\<rparr>]\<rparr>)"
proof -
  from create_success_cases [OF c] obtain parsed where
    prj: "filter (\<lambda>p. prj_id p = projectId \<and> prj_deleted_at p = None) (projects s) \<noteq> []"
    and cr: "created = \<lparr>ck_id = generateId ''key'' g now, ck_created_at = now,
       ck_public_key = generateApiKey ''pk'' (pk_bytes g),
       ck_display_secret_key = display_fragment (generateApiKey ''sk'' (sk_bytes g)),
       ck_note = note', ck_expires_at = parsed,
       ck_secretKey = generateApiKey ''sk'' (sk_bytes g)\<rparr>"
    and s1: "s1 = s\<lparr>api_keys := api_keys s @
       [\<lparr>ak_id = generateId ''key'' g now, ak_project_id = projectId, ak_created_at = now,
         ak_updated_at = None, ak_public_key = generateApiKey ''pk'' (pk_bytes g),
         ak_hashed_secret_key = hashSecretKey sha256_hex (generateApiKey ''sk'' (sk_bytes g)),
         ak_display_secret_key = display_fragment (generateApiKey ''sk'' (sk_bytes g)),
         ak_note = note', ak_expires_at = parsed, ak_last_used_at = None\<rparr>]\<rparr>"
    by blast
  from unique_project [OF uniq prj] obtain p where
    p: "p \<in> set (projects s)" "prj_id p = projectId" "prj_deleted_at p = None"
      "filter (\<lambda>p. prj_id p = projectId) (projects s) = [p]"
    by blast
  have none: "filter (\<lambda>k. ak_public_key k = generateApiKey ''pk'' (pk_bytes g)) (api_keys s) = []"
    using fresh by (force simp: filter_empty_conv image_iff)
  have keep: "map (\<lambda>k. if ak_public_key k = generateApiKey ''pk'' (pk_bytes g)
        then k\<lparr>ak_last_used_at := Some now'\<rparr> else k) (api_keys s) = api_keys s"
    using fresh by (intro map_idI) (force simp: image_iff)
  have live': "\<not> (case parsed of None \<Rightarrow> False | Some e \<Rightarrow> e < now')"
    using live cr by (auto split: option.splits)
  have "ApiKeysService_verify sha256_hex s1 now' (ck_public_key created) (ck_secretKey created) =
       (Some \<lparr>pd_id = prj_id p, pd_org_id = prj_org_id p, pd_name = prj_name p\<rparr>,
        s\<lparr>api_keys := api_keys s @
          [\<lparr>ak_id = ck_id created, ak_project_id = projectId, ak_created_at = now,
            ak_updated_at = None, ak_public_key = ck_public_key created,
            ak_hashed_secret_key = hashSecretKey sha256_hex (ck_secretKey created),
            ak_display_secret_key = ck_display_secret_key created,
            ak_note = note', ak_expires_at = ck_expires_at created,
            ak_last_used_at = Some now'\<rparr>]\<rparr>)"
    using none keep live' p(3,4)
    by (simp add: ApiKeysService_verify_def cr s1 generateApiKey_nonempty Let_def)
  with p show ?thesis by blast
qed

lemma verify_no_match:
  assumes "filter (\<lambda>k. ak_public_key k = pub) (api_keys t) = k # rest"
  shows "hashSecretKey sha256_hex sec \<noteq> ak_hashed_secret_key k \<Longrightarrow>
           ApiKeysService_verify sha256_hex t now pub sec = (None, t)"
    and "ak_expires_at k = Some e \<Longrightarrow> e < now \<Longrightarrow>
           ApiKeysService_verify sha256_hex t now pub sec = (None, t)"
  using assms by (simp_all add: ApiKeysService_verify_def Let_def)

lemma verify_unknown:
  "filter (\<lambda>k. ak_public_key k = pub) (api_keys t) = [] \<Longrightarrow>
     ApiKeysService_verify sha256_hex t now pub sec = (None, t)"
  by (simp add: ApiKeysService_verify_def)

text \<open>
  Claim C3, as the code has it. A key pair returned by \<open>create\<close>, with a public key no
  other row has and in a table of projects with unique identifiers, verifies as long as
  its expiration has not passed: \<open>verify\<close> returns the project's identifier,
  organization and name and sets \<open>last_used_at\<close> on the row. A secret whose salted
  hash differs from the stored one gives no match. \<open>updateExpiration\<close> refuses a date
  that is not in the future and changes nothing, so it cannot make a key expire. A key
  whose stored expiration has passed gives no match and no change, which is also what a
  public key of no row gives.
\<close>

theorem verify_round_trip:
  "(ApiKeysService_create sha256_hex s now g projectId note' expiresAt = (Inr created, s1) \<and>
    generateApiKey ''pk'' (pk_bytes g) \<notin> ak_public_key ` set (api_keys s) \<and>
    distinct (map prj_id (projects s)) \<and>
    (case ck_expires_at created of None \<Rightarrow> True | Some e \<Rightarrow> now' \<le> e) \<longrightarrow>
      (\<exists>p \<in> set (projects s). prj_id p = projectId \<and>
         ApiKeysService_verify sha256_hex s1 now' (ck_public_key created) (ck_secretKey created) =
           (Some \<lparr>pd_id = prj_id p, pd_org_id = prj_org_id p, pd_name = prj_name p\<rparr>,
            s\<lparr>api_keys := api_keys s @
              [\<lparr>ak_id = ck_id created, ak_project_id = projectId, ak_created_at = now,
                ak_updated_at = None, ak_public_key = ck_public_key created,
                ak_hashed_secret_key = hashSecretKey sha256_hex (ck_secretKey created),
                ak_display_secret_key = ck_display_secret_key created,
                ak_note = note', ak_expires_at = ck_expires_at created,
                ak_last_used_at = Some now'\<rparr>]\<rparr>))) \<and>
   (filter (\<lambda>k. ak_public_key k = pub) (api_keys t) = k # rest \<and>
    hashSecretKey sha256_hex wrong \<noteq> ak_hashed_secret_key k \<longrightarrow>
      ApiKeysService_verify sha256_hex t now' pub wrong = (None, t)) \<and>
   (d \<le> now' \<longrightarrow>
      ApiKeysService_updateExpiration t now' id' (DateValue (Some d)) =
        (Inl (BusinessLogicError past_date_message), t)) \<and>
   (filter (\<lambda>k. ak_public_key k = pub) (api_keys t) = k # rest \<and>
    ak_expires_at k = Some e \<and> e < now' \<longrightarrow>
      ApiKeysService_verify sha256_hex t now' pub sec = (None, t)) \<and>
   (filter (\<lambda>k. ak_public_key k = pub) (api_keys t) = [] \<longrightarrow>
      ApiKeysService_verify sha256_hex t now' pub sec = (None, t))"
proof (intro conjI impI)
  assume "ApiKeysService_create sha256_hex s now g projectId note' expiresAt = (Inr created, s1) \<and>
    generateApiKey ''pk'' (pk_bytes g) \<notin> ak_public_key ` set (api_keys s) \<and>
    distinct (map prj_id (projects s)) \<and>
    (case ck_expires_at created of None \<Rightarrow> True | Some e \<Rightarrow> now' \<le> e)"
  then show "\<exists>p \<in> set (projects s). prj_id p = projectId \<and>
         ApiKeysService_verify sha256_hex s1 now' (ck_public_key created) (ck_secretKey created) =
           (Some \<lparr>pd_id = prj_id p, pd_org_id = prj_org_id p, pd_name = prj_name p\<rparr>,
            s\<lparr>api_keys := api_keys s @
              [\<lparr>ak_id = ck_id created, ak_project_id = projectId, ak_created_at = now,
                ak_updated_at = None, ak_public_key = ck_public_key created,
                ak_hashed_secret_key = hashSecretKey sha256_hex (ck_secretKey created),
                ak_display_secret_key = ck_display_secret_key created,
                ak_note = note', ak_expires_at = ck_expires_at created,
                ak_last_used_at = Some now'\<rparr>]\<rparr>)"
    using verify_after_create [of sha256_hex s now g projectId note' expiresAt created s1 now']
    by blast
next
  assume "filter (\<lambda>k. ak_public_key k = pub) (api_keys t) = k # rest \<and>
    hashSecretKey sha256_hex wrong \<noteq> ak_hashed_secret_key k"
  then show "ApiKeysService_verify sha256_hex t now' pub wrong = (None, t)"
    using verify_no_match(1) by blast
next
  assume "d \<le> now'"
  then show "ApiKeysService_updateExpiration t now' id' (DateValue (Some d)) =
        (Inl (BusinessLogicError past_date_message), t)"
    by (simp add: ApiKeysService_updateExpiration_def parsedExpiresAt_def)
next
  assume "filter (\<lambda>k. ak_public_key k = pub) (api_keys t) = k # rest \<and>
    ak_expires_at k = Some e \<and> e < now'"
  then show "ApiKeysService_verify sha256_hex t now' pub sec = (None, t)"
    using verify_no_match(2) by blast
next
  assume "filter (\<lambda>k. ak_public_key k = pub) (api_keys t) = []"
  then show "ApiKeysService_verify sha256_hex t now' pub sec = (None, t)"
    by (rule verify_unknown)
qed

lemma apollo_key_created:
  "ApiKeysService_create toy_digest apollo_db 10 (draw [] ''k'' 1 2) ''cprj1'' (Some ''ci'')
       (DateValue (Some 1000)) =
     (Inr \<lparr>ck_id = ''key_ak'', ck_created_at = 10,
        ck_public_key = ''pk_01010101010101010101010101010101'',
        ck_display_secret_key = ''sk_02020...'', ck_note = Some ''ci'',
        ck_expires_at = Some 1000,
        ck_secretKey = ''sk_02020202020202020202020202020202''\<rparr>,
      apollo_key_db)"
  by (simp add: ApiKeysService_create_def ApiKeysService_create_tx_def parsedExpiresAt_def
      transaction_def Let_def key_example_defs example_defs display_fragment_def
      generateId_def to_base36_small digit36_def)

text \<open>Apollo's key, created at time 10 to expire at 1000: it verifies at time 30, not
  with another secret, and not at time 2000; a date in the past is refused as its
  expiration; a public key of no row does not verify.\<close>

theorem verify_round_trip_witness:
  "ApiKeysService_create toy_digest apollo_db 10 (draw [] ''k'' 1 2) ''cprj1'' (Some ''ci'')
       (DateValue (Some 1000)) =
     (Inr \<lparr>ck_id = ''key_ak'', ck_created_at = 10,
        ck_public_key = ''pk_01010101010101010101010101010101'',
        ck_display_secret_key = ''sk_02020...'', ck_note = Some ''ci'',
        ck_expires_at = Some 1000,
        ck_secretKey = ''sk_02020202020202020202020202020202''\<rparr>,
      apollo_key_db) \<and>
   ApiKeysService_verify toy_digest apollo_key_db 30 ''pk_01010101010101010101010101010101''
       ''sk_02020202020202020202020202020202'' =
     (Some \<lparr>pd_id = ''cprj1'', pd_org_id = ''corg1'', pd_name = ''Apollo''\<rparr>,
      apollo_db\<lparr>api_keys := [apollo_key\<lparr>ak_last_used_at := Some 30\<rparr>]\<rparr>) \<and>
   ApiKeysService_verify toy_digest apollo_key_db 30 ''pk_01010101010101010101010101010101''
       ''sk_wrong'' = (None, apollo_key_db) \<and>
   ApiKeysService_updateExpiration apollo_key_db 30 ''key_ak'' (DateValue (Some 15)) =
     (Inl (BusinessLogicError past_date_message), apollo_key_db) \<and>
   ApiKeysService_verify toy_digest apollo_key_db 2000 ''pk_01010101010101010101010101010101''
       ''sk_02020202020202020202020202020202'' = (None, apollo_key_db) \<and>
   ApiKeysService_verify toy_digest apollo_key_db 2000 ''pk_unknown''
       ''sk_02020202020202020202020202020202'' = (None, apollo_key_db)"
proof -
  let ?created = "\<lparr>ck_id = ''key_ak'', ck_created_at = 10,
        ck_public_key = ''pk_01010101010101010101010101010101'',
        ck_display_secret_key = ''sk_02020...'', ck_note = Some ''ci'',
        ck_expires_at = Some 1000,
        ck_secretKey = ''sk_02020202020202020202020202020202''\<rparr>"
  have h1: "generateApiKey ''pk'' (pk_bytes (draw [] ''k'' 1 2)) \<notin>
        ak_public_key ` set (api_keys apollo_db) \<and>
      distinct (map prj_id (projects apollo_db)) \<and>
      (case ck_expires_at ?created of None \<Rightarrow> True | Some e \<Rightarrow> (30::int) \<le> e)"
    by (simp add: example_defs)
  have row: "filter (\<lambda>k. ak_public_key k = ''pk_01010101010101010101010101010101'')
      (api_keys apollo_key_db) = apollo_key # []"
    by (simp add: key_example_defs)
  have wrong: "hashSecretKey toy_digest ''sk_wrong'' \<noteq> ak_hashed_secret_key apollo_key"
    by (simp add: key_example_defs hashSecretKey_def toy_digest_def)
  have expired: "ak_expires_at apollo_key = Some 1000 \<and> (1000::int) < 2000"
    by (simp add: apollo_key_def)
  have unknown: "filter (\<lambda>k. ak_public_key k = ''pk_unknown'') (api_keys apollo_key_db) = []"
    by (simp add: key_example_defs)
  note a = verify_round_trip [where sha256_hex = toy_digest and s = apollo_db and now = 10
      and g = "draw [] ''k'' 1 2" and projectId = "''cprj1''" and note' = "Some ''ci''"
      and expiresAt = "DateValue (Some 1000)" and created = ?created and ?s1.0 = apollo_key_db
      and now' = 30 and t = apollo_key_db
      and pub = "''pk_01010101010101010101010101010101''" and k = apollo_key and rest = "[]"
      and wrong = "''sk_wrong''" and d = 15 and id' = "''key_ak''"]
  note b = verify_round_trip [where sha256_hex = toy_digest and now' = 2000 and t = apollo_key_db
      and pub = "''pk_01010101010101010101010101010101''" and k = apollo_key and rest = "[]"
      and e = 1000 and sec = "''sk_02020202020202020202020202020202''"]
  note c = verify_round_trip [where sha256_hex = toy_digest and now' = 2000 and t = apollo_key_db
      and pub = "''pk_unknown''" and sec = "''sk_02020202020202020202020202020202''"]
  from a apollo_key_created h1
  have v: "\<exists>p \<in> set (projects apollo_db). prj_id p = ''cprj1'' \<and>
      ApiKeysService_verify toy_digest apollo_key_db 30 (ck_public_key ?created)
          (ck_secretKey ?created) =
        (Some \<lparr>pd_id = prj_id p, pd_org_id = prj_org_id p, pd_name = prj_name p\<rparr>,
         apollo_db\<lparr>api_keys := api_keys apollo_db @
           [\<lparr>ak_id = ck_id ?created, ak_project_id = ''cprj1'', ak_created_at = 10,
             ak_updated_at = None, ak_public_key = ck_public_key ?created,
             ak_hashed_secret_key = hashSecretKey toy_digest (ck_secretKey ?created),
             ak_display_secret_key = ck_display_secret_key ?created,
             ak_note = Some ''ci'', ak_expires_at = ck_expires_at ?created,
             ak_last_used_at = Some 30\<rparr>]\<rparr>)"
    by blast
  have v': "ApiKeysService_verify toy_digest apollo_key_db 30 ''pk_01010101010101010101010101010101''
       ''sk_02020202020202020202020202020202'' =
     (Some \<lparr>pd_id = ''cprj1'', pd_org_id = ''corg1'', pd_name = ''Apollo''\<rparr>,
      apollo_db\<lparr>api_keys := [apollo_key\<lparr>ak_last_used_at := Some 30\<rparr>]\<rparr>)"
    using v by (simp add: example_defs key_example_defs display_fragment_def)
  from a row wrong
  have w: "ApiKeysService_verify toy_digest apollo_key_db 30 ''pk_01010101010101010101010101010101''
       ''sk_wrong'' = (None, apollo_key_db)"
    by blast
  from a
  have u: "ApiKeysService_updateExpiration apollo_key_db 30 ''key_ak'' (DateValue (Some 15)) =
     (Inl (BusinessLogicError past_date_message), apollo_key_db)"
    by simp
  from b row expired
  have x: "ApiKeysService_verify toy_digest apollo_key_db 2000 ''pk_01010101010101010101010101010101''
       ''sk_02020202020202020202020202020202'' = (None, apollo_key_db)"
    by blast
  from c unknown
  have n: "ApiKeysService_verify toy_digest apollo_key_db 2000 ''pk_unknown''
       ''sk_02020202020202020202020202020202'' = (None, apollo_key_db)"
    by blast
  show ?thesis using apollo_key_created v' w u x n by blast
qed

text \<open>At time 20 the date 15 is in the past: \<open>updateExpiration\<close> throws and the key, which
  expires at 1000, is as it was; at time 30 it still verifies.\<close>

theorem past_expiration_refused:
  "ApiKeysService_updateExpiration apollo_key_db 20 ''key_ak'' (DateValue (Some 15)) =
     (Inl (BusinessLogicError past_date_message), apollo_key_db) \<and>
   fst (ApiKeysService_verify toy_digest
          (snd (ApiKeysService_updateExpiration apollo_key_db 20 ''key_ak'' (DateValue (Some 15))))
          30 ''pk_01010101010101010101010101010101'' ''sk_02020202020202020202020202020202'') =
     Some \<lparr>pd_id = ''cprj1'', pd_org_id = ''corg1'', pd_name = ''Apollo''\<rparr>"
  by (simp add: ApiKeysService_updateExpiration_def parsedExpiresAt_def
      ApiKeysService_verify_def Let_def key_example_defs example_defs)

subsection \<open>What the reads show of a key\<close>

lemma view_of_without_hash: "view_of (k\<lparr>ak_hashed_secret_key := h\<rparr>) = view_of k"
  by (simp add: view_of_def)

lemma getByProject_without_hashes:
  "ApiKeysService_getByProject (without_hashes s) projectId = ApiKeysService_getByProject s projectId"
proof -
  let ?blank = "\<lambda>k. k\<lparr>ak_hashed_secret_key := []\<rparr>"
  have f: "filter (\<lambda>k. ak_project_id k = projectId) (map ?blank rows) =
      map ?blank (filter (\<lambda>k. ak_project_id k = projectId) rows)" for rows
    by (induction rows) simp_all
  have i: "insort_key (\<lambda>k. - ak_created_at k) (?blank x) (map ?blank rows) =
      map ?blank (insort_key (\<lambda>k. - ak_created_at k) x rows)" for x rows
    by (induction rows) simp_all
  have srt: "sort_key (\<lambda>k. - ak_created_at k) (map ?blank rows) =
      map ?blank (sort_key (\<lambda>k. - ak_created_at k) rows)" for rows
    by (induction rows) (simp_all add: i)
  show ?thesis
    by (simp add: ApiKeysService_getByProject_def without_hashes_def f srt o_def
        view_of_without_hash)
qed

lemma getById_without_hashes:
  "ApiKeysService_getById (without_hashes s) id' = ApiKeysService_getById s id'"
proof -
  let ?blank = "\<lambda>k. k\<lparr>ak_hashed_secret_key := []\<rparr>"
  let ?join = "\<lambda>ak. map (\<lambda>p. (ak, p))
      (filter (\<lambda>p. ak_project_id ak = prj_id p \<and> prj_deleted_at p = None) (projects s))"
  have j: "concat (map ?join (filter (\<lambda>ak. ak_id ak = id') (map ?blank rows))) =
      map (\<lambda>(ak, p). (?blank ak, p)) (concat (map ?join (filter (\<lambda>ak. ak_id ak = id') rows)))"
    for rows
    by (induction rows) (simp_all add: o_def)
  have c: "(case map (\<lambda>(ak, p). (?blank ak, p)) J of
        [] \<Rightarrow> Inl (NotFoundError ''API key'')
      | (ak, p) # _ \<Rightarrow> Inr (api_key_view.extend (view_of ak)
            \<lparr>akd_project_id = prj_id p, akd_project_name = prj_name p\<rparr>)) =
      (case J of
        [] \<Rightarrow> Inl (NotFoundError ''API key'')
      | (ak, p) # _ \<Rightarrow> Inr (api_key_view.extend (view_of ak)
            \<lparr>akd_project_id = prj_id p, akd_project_name = prj_name p\<rparr>))"
    for J :: "(api_key_row \<times> project_row) list"
    by (cases J) (auto simp: view_of_without_hash)
  show ?thesis
    by (simp add: ApiKeysService_getById_def without_hashes_def j Let_def c)
qed

lemma create_without_hashes:
  assumes "take 8 (generateApiKey ''sk'' b) = take 8 (generateApiKey ''sk'' b')"
  shows "without_hashes (snd (ApiKeysService_create sha256_hex t now (g\<lparr>sk_bytes := b\<rparr>)
           projectId note' expiresAt)) =
         without_hashes (snd (ApiKeysService_create sha256_hex t now (g\<lparr>sk_bytes := b'\<rparr>)
           projectId note' expiresAt))"
  using assms
  by (simp add: ApiKeysService_create_def ApiKeysService_create_tx_def transaction_def Let_def
      without_hashes_def display_fragment_def generateId_def split: sum.splits)

lemma filter_id_map_update:
  assumes "\<And>k. ak_id (f k) = ak_id k"
  shows "filter (\<lambda>k. ak_id k = i) (map (\<lambda>k. if ak_id k = i then f k else k) rows) =
         map f (filter (\<lambda>k. ak_id k = i) rows)"
  by (induction rows) (simp_all add: assms)

lemma regenerate_result:
  assumes p: "parsedExpiresAt now expiresAt = Inr parsed"
    and f: "filter (\<lambda>k. ak_id k = id') (api_keys t) = existingKey # rest"
  shows "ApiKeysService_regenerate sha256_hex t now g id' expiresAt =
    (Inr (api_key_view.extend
       (view_of (existingKey\<lparr>ak_public_key := generateApiKey ''pk'' (pk_bytes g),
           ak_hashed_secret_key := hashSecretKey sha256_hex (generateApiKey ''sk'' (sk_bytes g)),
           ak_display_secret_key := display_fragment (generateApiKey ''sk'' (sk_bytes g)),
           ak_updated_at := Some now,
           ak_expires_at := (if (expiresAt = Undefined \<or> expiresAt = Null) \<and>
               ak_expires_at existingKey \<noteq> None then ak_expires_at existingKey else parsed)\<rparr>))
       \<lparr>rk_secretKey = generateApiKey ''sk'' (sk_bytes g)\<rparr>),
     t\<lparr>api_keys := map (\<lambda>k. if ak_id k = id'
         then k\<lparr>ak_public_key := generateApiKey ''pk'' (pk_bytes g),
           ak_hashed_secret_key := hashSecretKey sha256_hex (generateApiKey ''sk'' (sk_bytes g)),
           ak_display_secret_key := display_fragment (generateApiKey ''sk'' (sk_bytes g)),
           ak_updated_at := Some now,
           ak_expires_at := (if (expiresAt = Undefined \<or> expiresAt = Null) \<and>
               ak_expires_at existingKey \<noteq> None then ak_expires_at existingKey else parsed)\<rparr>
         else k) (api_keys t)\<rparr>)"
proof -
  let ?upd = "\<lambda>k. k\<lparr>ak_public_key := generateApiKey ''pk'' (pk_bytes g),
           ak_hashed_secret_key := hashSecretKey sha256_hex (generateApiKey ''sk'' (sk_bytes g)),
           ak_display_secret_key := display_fragment (generateApiKey ''sk'' (sk_bytes g)),
           ak_updated_at := Some now,
           ak_expires_at := (if (expiresAt = Undefined \<or> expiresAt = Null) \<and>
               ak_expires_at existingKey \<noteq> None then ak_expires_at existingKey else parsed)\<rparr>"
  have f': "filter (\<lambda>k. ak_id k = id') (map (\<lambda>k. if ak_id k = id' then ?upd k else k) (api_keys t)) =
      ?upd existingKey # map ?upd rest"
    by (subst filter_id_map_update) (simp_all add: f)
  have tx: "ApiKeysService_regenerate_tx sha256_hex now g id' expiresAt parsed t =
      Inr (api_key_view.extend (view_of (?upd existingKey))
             \<lparr>rk_secretKey = generateApiKey ''sk'' (sk_bytes g)\<rparr>,
           t\<lparr>api_keys := map (\<lambda>k. if ak_id k = id' then ?upd k else k) (api_keys t)\<rparr>)"
    by (simp only: ApiKeysService_regenerate_tx_def Let_def f list.case f')
  show ?thesis
    by (simp only: ApiKeysService_regenerate_def p sum.case transaction_def tx prod.case)
qed

lemma regenerate_without_hashes:
  assumes "take 8 (generateApiKey ''sk'' b) = take 8 (generateApiKey ''sk'' b')"
  shows "without_hashes (snd (ApiKeysService_regenerate sha256_hex t now (g\<lparr>sk_bytes := b\<rparr>)
           id' expiresAt)) =
         without_hashes (snd (ApiKeysService_regenerate sha256_hex t now (g\<lparr>sk_bytes := b'\<rparr>)
           id' expiresAt))"
proof (cases "parsedExpiresAt now expiresAt")
  case (Inl e)
  then show ?thesis by (simp add: ApiKeysService_regenerate_def)
next
  case (Inr parsed)
  show ?thesis
  proof (cases "filter (\<lambda>k. ak_id k = id') (api_keys t)")
    case Nil
    then show ?thesis
      using Inr
      by (simp add: ApiKeysService_regenerate_def ApiKeysService_regenerate_tx_def
          transaction_def)
  next
    case (Cons existingKey rest)
    show ?thesis
      unfolding regenerate_result [OF Inr Cons]
      using assms by (simp add: without_hashes_def display_fragment_def)
  qed
qed

lemma regenerate_returns_secret:
  assumes "ApiKeysService_regenerate sha256_hex t now g id' expiresAt = (Inr r, t1)"
  shows "rk_secretKey r = generateApiKey ''sk'' (sk_bytes g) \<and>
         akv_display_secret_key r = display_fragment (generateApiKey ''sk'' (sk_bytes g)) \<and>
         akv_public_key r = generateApiKey ''pk'' (pk_bytes g)"
proof (cases "parsedExpiresAt now expiresAt")
  case (Inl e)
  with assms show ?thesis by (simp add: ApiKeysService_regenerate_def)
next
  case (Inr parsed)
  show ?thesis
  proof (cases "filter (\<lambda>k. ak_id k = id') (api_keys t)")
    case Nil
    with assms Inr show ?thesis
      by (simp add: ApiKeysService_regenerate_def ApiKeysService_regenerate_tx_def
          transaction_def)
  next
    case (Cons existingKey rest)
    from assms [unfolded regenerate_result [OF Inr Cons]] show ?thesis
      by (auto simp: view_of_def api_key_view.extend_def)
  qed
qed

text \<open>
  Claim C9. What \<open>getById\<close> and \<open>getByProject\<close> return does not depend on the stored
  hashes: the reads of a datastore and of the same datastore with the hashes blanked are
  equal. Two secrets that agree on their first eight characters leave, hashes aside, the
  same datastore behind \<open>create\<close> and behind \<open>regenerate\<close>, so every read after either
  call returns the same for both: nothing of the secret beyond the display fragment
  reaches a read. The secret itself is in what \<open>create\<close> and \<open>regenerate\<close> return,
  together with the public key and the fragment (eight characters and an ellipsis),
  neither of which is the secret.
\<close>

theorem secret_shown_once:
  "ApiKeysService_getById (without_hashes s) id' = ApiKeysService_getById s id' \<and>
   ApiKeysService_getByProject (without_hashes s) projectId =
     ApiKeysService_getByProject s projectId \<and>
   (take 8 (generateApiKey ''sk'' b) = take 8 (generateApiKey ''sk'' b') \<longrightarrow>
      without_hashes (snd (ApiKeysService_create sha256_hex s now (g\<lparr>sk_bytes := b\<rparr>)
        projectId note' expiresAt)) =
      without_hashes (snd (ApiKeysService_create sha256_hex s now (g\<lparr>sk_bytes := b'\<rparr>)
        projectId note' expiresAt)) \<and>
      without_hashes (snd (ApiKeysService_regenerate sha256_hex s now (g\<lparr>sk_bytes := b\<rparr>)
        id' expiresAt)) =
      without_hashes (snd (ApiKeysService_regenerate sha256_hex s now (g\<lparr>sk_bytes := b'\<rparr>)
        id' expiresAt))) \<and>
   (ApiKeysService_create sha256_hex s now g projectId note' expiresAt = (Inr created, s1) \<longrightarrow>
      ck_secretKey created = generateApiKey ''sk'' (sk_bytes g) \<and>
      ck_display_secret_key created = take 8 (ck_secretKey created) @ ''...'' \<and>
      ck_display_secret_key created \<noteq> ck_secretKey created \<and>
      ck_public_key created \<noteq> ck_secretKey created \<and>
      ck_id created \<noteq> ck_secretKey created) \<and>
   (ApiKeysService_regenerate sha256_hex s now g id' expiresAt = (Inr regenerated, s2) \<longrightarrow>
      rk_secretKey regenerated = generateApiKey ''sk'' (sk_bytes g) \<and>
      akv_display_secret_key regenerated = take 8 (rk_secretKey regenerated) @ ''...'' \<and>
      akv_display_secret_key regenerated \<noteq> rk_secretKey regenerated \<and>
      akv_public_key regenerated \<noteq> rk_secretKey regenerated)"
proof (intro conjI impI)
  show "ApiKeysService_getById (without_hashes s) id' = ApiKeysService_getById s id'"
    by (rule getById_without_hashes)
  show "ApiKeysService_getByProject (without_hashes s) projectId =
     ApiKeysService_getByProject s projectId"
    by (rule getByProject_without_hashes)
next
  assume e: "take 8 (generateApiKey ''sk'' b) = take 8 (generateApiKey ''sk'' b')"
  show "without_hashes (snd (ApiKeysService_create sha256_hex s now (g\<lparr>sk_bytes := b\<rparr>)
        projectId note' expiresAt)) =
      without_hashes (snd (ApiKeysService_create sha256_hex s now (g\<lparr>sk_bytes := b'\<rparr>)
        projectId note' expiresAt))"
    using e by (rule create_without_hashes)
  show "without_hashes (snd (ApiKeysService_regenerate sha256_hex s now (g\<lparr>sk_bytes := b\<rparr>)
        id' expiresAt)) =
      without_hashes (snd (ApiKeysService_regenerate sha256_hex s now (g\<lparr>sk_bytes := b'\<rparr>)
        id' expiresAt))"
    using e by (rule regenerate_without_hashes)
next
  assume c: "ApiKeysService_create sha256_hex s now g projectId note' expiresAt = (Inr created, s1)"
  from create_success_cases [OF c] obtain parsed where
    cr: "created = \<lparr>ck_id = generateId ''key'' g now, ck_created_at = now,
       ck_public_key = generateApiKey ''pk'' (pk_bytes g),
       ck_display_secret_key = display_fragment (generateApiKey ''sk'' (sk_bytes g)),
       ck_note = note', ck_expires_at = parsed,
       ck_secretKey = generateApiKey ''sk'' (sk_bytes g)\<rparr>"
    by blast
  show "ck_secretKey created = generateApiKey ''sk'' (sk_bytes g)"
    and "ck_display_secret_key created = take 8 (ck_secretKey created) @ ''...''"
    and "ck_display_secret_key created \<noteq> ck_secretKey created"
    and "ck_public_key created \<noteq> ck_secretKey created"
    and "ck_id created \<noteq> ck_secretKey created"
    using display_fragment_differs [of "sk_bytes g"]
      public_key_differs [of "pk_bytes g" "sk_bytes g"] key_id_differs [of g now "sk_bytes g"]
    by (simp_all add: cr display_fragment_def)
next
  assume r: "ApiKeysService_regenerate sha256_hex s now g id' expiresAt = (Inr regenerated, s2)"
  from regenerate_returns_secret [OF r]
  show "rk_secretKey regenerated = generateApiKey ''sk'' (sk_bytes g)"
    and "akv_display_secret_key regenerated = take 8 (rk_secretKey regenerated) @ ''...''"
    and "akv_display_secret_key regenerated \<noteq> rk_secretKey regenerated"
    and "akv_public_key regenerated \<noteq> rk_secretKey regenerated"
    using display_fragment_differs [of "sk_bytes g"]
      public_key_differs [of "pk_bytes g" "sk_bytes g"]
    by (simp_all add: display_fragment_def)
qed

lemma example_prefix:
  "take 8 (generateApiKey ''sk'' (replicate 16 (2::8 word))) =
   take 8 (generateApiKey ''sk'' ([2, 2, 2] @ replicate 13 (9::8 word)))"
  "generateApiKey ''sk'' (replicate 16 (2::8 word)) \<noteq>
   generateApiKey ''sk'' ([2, 2, 2] @ replicate 13 (9::8 word))"
  by code_simp+

text \<open>Two keys created for Apollo with different secrets that share their first eight
  characters: the reads after either creation return the same. What \<open>getById\<close> returns
  for Apollo's key.\<close>

theorem secret_shown_once_witness:
  "take 8 (generateApiKey ''sk'' (replicate 16 (2::8 word))) =
     take 8 (generateApiKey ''sk'' ([2, 2, 2] @ replicate 13 (9::8 word))) \<and>
   generateApiKey ''sk'' (replicate 16 (2::8 word)) \<noteq>
     generateApiKey ''sk'' ([2, 2, 2] @ replicate 13 (9::8 word)) \<and>
   ApiKeysService_getById
     (snd (ApiKeysService_create toy_digest apollo_db 10
        ((draw [] ''k'' 1 2)\<lparr>sk_bytes := replicate 16 2\<rparr>) ''cprj1'' (Some ''ci'') Null))
     ''key_ak'' =
   ApiKeysService_getById
     (snd (ApiKeysService_create toy_digest apollo_db 10
        ((draw [] ''k'' 1 2)\<lparr>sk_bytes := [2, 2, 2] @ replicate 13 9\<rparr>) ''cprj1'' (Some ''ci'') Null))
     ''key_ak'' \<and>
   ApiKeysService_getByProject
     (snd (ApiKeysService_create toy_digest apollo_db 10
        ((draw [] ''k'' 1 2)\<lparr>sk_bytes := replicate 16 2\<rparr>) ''cprj1'' (Some ''ci'') Null))
     ''cprj1'' =
   ApiKeysService_getByProject
     (snd (ApiKeysService_create toy_digest apollo_db 10
        ((draw [] ''k'' 1 2)\<lparr>sk_bytes := [2, 2, 2] @ replicate 13 9\<rparr>) ''cprj1'' (Some ''ci'') Null))
     ''cprj1'' \<and>
   ApiKeysService_getById apollo_key_db ''key_ak'' =
     Inr \<lparr>akv_id = ''key_ak'', akv_created_at = 10,
       akv_public_key = ''pk_01010101010101010101010101010101'',
       akv_display_secret_key = ''sk_02020...'', akv_last_used_at = None,
       akv_note = Some ''ci'', akv_expires_at = Some 1000,
       akd_project_id = ''cprj1'', akd_project_name = ''Apollo''\<rparr> \<and>
   ''sk_02020...'' \<noteq> ''sk_02020202020202020202020202020202'' \<and>
   ''pk_01010101010101010101010101010101'' \<noteq> ''sk_02020202020202020202020202020202''"
proof -
  let ?g = "draw [] ''k'' 1 2"
  let ?s1 = "snd (ApiKeysService_create toy_digest apollo_db 10
        (?g\<lparr>sk_bytes := replicate 16 2\<rparr>) ''cprj1'' (Some ''ci'') Null)"
  let ?s2 = "snd (ApiKeysService_create toy_digest apollo_db 10
        (?g\<lparr>sk_bytes := [2, 2, 2] @ replicate 13 9\<rparr>) ''cprj1'' (Some ''ci'') Null)"
  from secret_shown_once [where s = apollo_db and b = "replicate 16 2"
      and b' = "[2, 2, 2] @ replicate 13 9" and g = ?g and sha256_hex = toy_digest and now = 10
      and projectId = "''cprj1''" and note' = "Some ''ci''" and expiresAt = Null]
    example_prefix(1)
  have wh: "without_hashes ?s1 = without_hashes ?s2" by blast
  from secret_shown_once [where s = ?s1 and id' = "''key_ak''" and projectId = "''cprj1''"]
  have r1: "ApiKeysService_getById (without_hashes ?s1) ''key_ak'' =
        ApiKeysService_getById ?s1 ''key_ak''"
      "ApiKeysService_getByProject (without_hashes ?s1) ''cprj1'' =
        ApiKeysService_getByProject ?s1 ''cprj1''"
    by blast+
  from secret_shown_once [where s = ?s2 and id' = "''key_ak''" and projectId = "''cprj1''"]
  have r2: "ApiKeysService_getById (without_hashes ?s2) ''key_ak'' =
        ApiKeysService_getById ?s2 ''key_ak''"
      "ApiKeysService_getByProject (without_hashes ?s2) ''cprj1'' =
        ApiKeysService_getByProject ?s2 ''cprj1''"
    by blast+
  have a: "ApiKeysService_getById ?s1 ''key_ak'' = ApiKeysService_getById ?s2 ''key_ak''"
    using r1(1) r2(1) wh by simp
  have b: "ApiKeysService_getByProject ?s1 ''cprj1'' = ApiKeysService_getByProject ?s2 ''cprj1''"
    using r1(2) r2(2) wh by simp
  let ?c = "\<lparr>ck_id = ''key_ak'', ck_created_at = 10,
        ck_public_key = ''pk_01010101010101010101010101010101'',
        ck_display_secret_key = ''sk_02020...'', ck_note = Some ''ci'',
        ck_expires_at = Some 1000,
        ck_secretKey = ''sk_02020202020202020202020202020202''\<rparr>"
  from secret_shown_once [where s = apollo_db and sha256_hex = toy_digest and now = 10 and g = ?g
      and projectId = "''cprj1''" and note' = "Some ''ci''" and expiresAt = "DateValue (Some 1000)"
      and ?s1.0 = apollo_key_db and created = ?c] apollo_key_created
  have "ck_display_secret_key ?c \<noteq> ck_secretKey ?c \<and> ck_public_key ?c \<noteq> ck_secretKey ?c"
    by blast
  then have c: "''sk_02020...'' \<noteq> ''sk_02020202020202020202020202020202'' \<and>
      ''pk_01010101010101010101010101010101'' \<noteq> ''sk_02020202020202020202020202020202''"
    by simp
  have d: "ApiKeysService_getById apollo_key_db ''key_ak'' =
     Inr \<lparr>akv_id = ''key_ak'', akv_created_at = 10,
       akv_public_key = ''pk_01010101010101010101010101010101'',
       akv_display_secret_key = ''sk_02020...'', akv_last_used_at = None,
       akv_note = Some ''ci'', akv_expires_at = Some 1000,
       akd_project_id = ''cprj1'', akd_project_name = ''Apollo''\<rparr>"
    by (simp add: ApiKeysService_getById_def key_example_defs example_defs view_of_def
        api_key_view.extend_def display_fragment_def)
  show ?thesis using example_prefix a b c d by blast
qed

subsection \<open>Creating a project\<close>

lemma ProjectsService_create_failure_unchanged:
  "fst (ProjectsService_create sha256_hex s now g f name orgId) = Inl e \<Longrightarrow>
   snd (ProjectsService_create sha256_hex s now g f name orgId) = s"
  by (auto simp: ProjectsService_create_def transaction_def split: if_splits sum.splits)

lemma ProjectsService_create_success_pre:
  assumes "fst (ProjectsService_create sha256_hex s now g f name orgId) = Inr r"
  shows "name \<noteq> [] \<and> trim name \<noteq> [] \<and> orgId \<noteq> [] \<and> orgId \<in> org_id ` set (organizations s) \<and>
    org_check_fault f = None \<and> project_insert_fault f = None \<and> key_insert_fault f = None"
proof -
  have "filter (\<lambda>r. org_id r = orgId) (organizations s) \<noteq> [] \<Longrightarrow>
      orgId \<in> org_id ` set (organizations s)"
    by (auto simp: filter_empty_conv)
  with assms show ?thesis
    by (auto simp: ProjectsService_create_def ProjectsService_create_tx_def transaction_def
        Let_def split: if_splits option.splits)
qed

lemma length_generateApiKey: "length (generateApiKey ''sk'' bs) = 3 + 2 * length bs"
  by (simp add: generateApiKey_def length_to_hex)

text \<open>
  Claim C10. For a name that is not blank and an organization that exists, and when the
  database accepts the three queries, \<open>ProjectsService.create\<close> returns the project
  with the public key and the full secret, and the datastore differs from the old one in
  exactly two appended rows: the project, and one key of that project holding the public
  key, the salted hash of the secret and the display fragment, with no note, expiration
  or use. A call returns only in that case. A call that throws leaves the datastore as it
  was, whichever step failed: when the database rejects the insertion of the key, after
  the project row has been inserted, the transaction is rolled back and neither row
  exists. No column of the key row is the secret: not the public key, not the fragment,
  and not the hash, a SHA-256 digest in hexadecimal having 64 characters and the secret
  35.
\<close>

theorem project_create_provisions_key:
  "(name \<noteq> [] \<and> trim name \<noteq> [] \<and> orgId \<noteq> [] \<and> orgId \<in> org_id ` set (organizations s) \<and>
    org_check_fault f = None \<and> project_insert_fault f = None \<and> key_insert_fault f = None \<longrightarrow>
      ProjectsService_create sha256_hex s now g f name orgId =
        (Inr \<lparr>project = \<lparr>prj_id = generateId ''prj'' g now, prj_name = trim name,
                 prj_org_id = orgId, prj_deleted_at = None, prj_created_at = now,
                 prj_updated_at = now\<rparr>,
               apiKeys = \<lparr>publicKey = generateApiKey ''pk'' (pk_bytes g),
                 secretKey = generateApiKey ''sk'' (sk_bytes g)\<rparr>\<rparr>,
         s\<lparr>projects := projects s @
              [\<lparr>prj_id = generateId ''prj'' g now, prj_name = trim name,
                prj_org_id = orgId, prj_deleted_at = None, prj_created_at = now,
                prj_updated_at = now\<rparr>],
            api_keys := api_keys s @
              [\<lparr>ak_id = generateId ''key'' g now, ak_project_id = generateId ''prj'' g now,
                ak_created_at = now, ak_updated_at = None,
                ak_public_key = generateApiKey ''pk'' (pk_bytes g),
                ak_hashed_secret_key =
                  hashSecretKey sha256_hex (generateApiKey ''sk'' (sk_bytes g)),
                ak_display_secret_key =
                  take 8 (generateApiKey ''sk'' (sk_bytes g)) @ ''...'',
                ak_note = None, ak_expires_at = None, ak_last_used_at = None\<rparr>]\<rparr>)) \<and>
   (fst (ProjectsService_create sha256_hex s now g f name orgId) = Inr r \<longrightarrow>
      name \<noteq> [] \<and> trim name \<noteq> [] \<and> orgId \<noteq> [] \<and> orgId \<in> org_id ` set (organizations s) \<and>
      org_check_fault f = None \<and> project_insert_fault f = None \<and> key_insert_fault f = None) \<and>
   (fst (ProjectsService_create sha256_hex s now g f name orgId) = Inl e \<longrightarrow>
      snd (ProjectsService_create sha256_hex s now g f name orgId) = s) \<and>
   (name \<noteq> [] \<and> trim name \<noteq> [] \<and> orgId \<noteq> [] \<and> orgId \<in> org_id ` set (organizations s) \<and>
    org_check_fault f = None \<and> project_insert_fault f = None \<and>
    key_insert_fault f = Some rejected \<longrightarrow>
      ProjectsService_create sha256_hex s now g f name orgId =
        (Inl (DatabaseError transaction_message (Some rejected)), s)) \<and>
   generateApiKey ''pk'' (pk_bytes g) \<noteq> generateApiKey ''sk'' (sk_bytes g) \<and>
   take 8 (generateApiKey ''sk'' (sk_bytes g)) @ ''...'' \<noteq> generateApiKey ''sk'' (sk_bytes g) \<and>
   (length (sk_bytes g) = 16 \<and>
    length (sha256_hex (''salt'' @ generateApiKey ''sk'' (sk_bytes g))) = 64 \<longrightarrow>
      hashSecretKey sha256_hex (generateApiKey ''sk'' (sk_bytes g)) \<noteq>
        generateApiKey ''sk'' (sk_bytes g))"
proof (intro conjI impI)
  assume h: "name \<noteq> [] \<and> trim name \<noteq> [] \<and> orgId \<noteq> [] \<and> orgId \<in> org_id ` set (organizations s) \<and>
    org_check_fault f = None \<and> project_insert_fault f = None \<and> key_insert_fault f = None"
  then have "filter (\<lambda>r. org_id r = orgId) (organizations s) \<noteq> []"
    by (auto simp: filter_empty_conv)
  with h show "ProjectsService_create sha256_hex s now g f name orgId =
        (Inr \<lparr>project = \<lparr>prj_id = generateId ''prj'' g now, prj_name = trim name,
                 prj_org_id = orgId, prj_deleted_at = None, prj_created_at = now,
                 prj_updated_at = now\<rparr>,
               apiKeys = \<lparr>publicKey = generateApiKey ''pk'' (pk_bytes g),
                 secretKey = generateApiKey ''sk'' (sk_bytes g)\<rparr>\<rparr>,
         s\<lparr>projects := projects s @
              [\<lparr>prj_id = generateId ''prj'' g now, prj_name = trim name,
                prj_org_id = orgId, prj_deleted_at = None, prj_created_at = now,
                prj_updated_at = now\<rparr>],
            api_keys := api_keys s @
              [\<lparr>ak_id = generateId ''key'' g now, ak_project_id = generateId ''prj'' g now,
                ak_created_at = now, ak_updated_at = None,
                ak_public_key = generateApiKey ''pk'' (pk_bytes g),
                ak_hashed_secret_key =
                  hashSecretKey sha256_hex (generateApiKey ''sk'' (sk_bytes g)),
                ak_display_secret_key =
                  take 8 (generateApiKey ''sk'' (sk_bytes g)) @ ''...'',
                ak_note = None, ak_expires_at = None, ak_last_used_at = None\<rparr>]\<rparr>)"
    by (simp add: ProjectsService_create_def ProjectsService_create_tx_def transaction_def
        Let_def display_fragment_def)
next
  assume "fst (ProjectsService_create sha256_hex s now g f name orgId) = Inr r"
  from ProjectsService_create_success_pre [OF this]
  show "name \<noteq> []" and "trim name \<noteq> []" and "orgId \<noteq> []"
    and "orgId \<in> org_id ` set (organizations s)"
    and "org_check_fault f = None" and "project_insert_fault f = None"
    and "key_insert_fault f = None"
    by simp_all
next
  assume "fst (ProjectsService_create sha256_hex s now g f name orgId) = Inl e"
  then show "snd (ProjectsService_create sha256_hex s now g f name orgId) = s"
    by (rule ProjectsService_create_failure_unchanged)
next
  assume h: "name \<noteq> [] \<and> trim name \<noteq> [] \<and> orgId \<noteq> [] \<and> orgId \<in> org_id ` set (organizations s) \<and>
    org_check_fault f = None \<and> project_insert_fault f = None \<and>
    key_insert_fault f = Some rejected"
  then have "filter (\<lambda>r. org_id r = orgId) (organizations s) \<noteq> []"
    by (auto simp: filter_empty_conv)
  with h show "ProjectsService_create sha256_hex s now g f name orgId =
        (Inl (DatabaseError transaction_message (Some rejected)), s)"
    by (simp add: ProjectsService_create_def ProjectsService_create_tx_def transaction_def
        Let_def)
next
  show "generateApiKey ''pk'' (pk_bytes g) \<noteq> generateApiKey ''sk'' (sk_bytes g)"
    by (rule public_key_differs)
  show "take 8 (generateApiKey ''sk'' (sk_bytes g)) @ ''...'' \<noteq> generateApiKey ''sk'' (sk_bytes g)"
    using display_fragment_differs [of "sk_bytes g"] by (simp add: display_fragment_def)
next
  assume "length (sk_bytes g) = 16 \<and>
    length (sha256_hex (''salt'' @ generateApiKey ''sk'' (sk_bytes g))) = 64"
  then have "length (hashSecretKey sha256_hex (generateApiKey ''sk'' (sk_bytes g))) \<noteq>
      length (generateApiKey ''sk'' (sk_bytes g))"
    by (simp add: hashSecretKey_def length_generateApiKey)
  then show "hashSecretKey sha256_hex (generateApiKey ''sk'' (sk_bytes g)) \<noteq>
        generateApiKey ''sk'' (sk_bytes g)"
    by auto
qed

lemma padded_example:
  "padded_digest (''salt'' @ ''sk_02020202020202020202020202020202'') =
     ''20202020202020202020202020202020_kstlas0000000000000000000000000''"
  "length ''20202020202020202020202020202020_kstlas0000000000000000000000000'' = 64"
  by code_simp+

text \<open>
  Project Apollo created in Acme at time 5, the generators returning \<open>cprj2\<close>, \<open>k\<close> and
  the bytes 01...01 and 02...02. The name ends in an ideographic space (U+3000), which
  is trimmed. The same call leaves Acme's datastore as it was when the database rejects
  the insertion of the key, and when the organization does not exist; a name that is a
  no-break space (U+00A0) is refused as blank.
\<close>

theorem project_create_provisions_key_witness:
  "ProjectsService_create padded_digest acme_db 5 (draw ''cprj2'' ''k'' 1 2) no_faults
       (''Apollo'' @ [CHR 0xE3, CHR 0x80, CHR 0x80]) ''corg1'' =
     (Inr \<lparr>project = \<lparr>prj_id = ''cprj2'', prj_name = ''Apollo'', prj_org_id = ''corg1'',
              prj_deleted_at = None, prj_created_at = 5, prj_updated_at = 5\<rparr>,
            apiKeys = \<lparr>publicKey = ''pk_01010101010101010101010101010101'',
              secretKey = ''sk_02020202020202020202020202020202''\<rparr>\<rparr>,
      acme_db\<lparr>projects :=
          [\<lparr>prj_id = ''cprj2'', prj_name = ''Apollo'', prj_org_id = ''corg1'',
            prj_deleted_at = None, prj_created_at = 5, prj_updated_at = 5\<rparr>],
        api_keys :=
          [\<lparr>ak_id = ''key_5k'', ak_project_id = ''cprj2'', ak_created_at = 5,
            ak_updated_at = None, ak_public_key = ''pk_01010101010101010101010101010101'',
            ak_hashed_secret_key =
              ''20202020202020202020202020202020_kstlas0000000000000000000000000'',
            ak_display_secret_key = ''sk_02020...'',
            ak_note = None, ak_expires_at = None, ak_last_used_at = None\<rparr>]\<rparr>) \<and>
   ProjectsService_create padded_digest acme_db 5 (draw ''cprj2'' ''k'' 1 2)
       (no_faults\<lparr>key_insert_fault := Some unique_violation\<rparr>)
       (''Apollo'' @ [CHR 0xE3, CHR 0x80, CHR 0x80]) ''corg1'' =
     (Inl (DatabaseError transaction_message (Some unique_violation)), acme_db) \<and>
   ProjectsService_create padded_digest acme_db 5 (draw ''cprj2'' ''k'' 1 2) no_faults
       (''Apollo'' @ [CHR 0xE3, CHR 0x80, CHR 0x80]) ''corg9'' =
     (Inl (DatabaseError transaction_message (Some (NotFoundError Organizacion))), acme_db) \<and>
   ProjectsService_create padded_digest acme_db 5 (draw ''cprj2'' ''k'' 1 2) no_faults
       [CHR 0xC2, CHR 0xA0] ''corg1'' =
     (Inl (BusinessLogicError ''El nombre es requerido''), acme_db) \<and>
   hashSecretKey padded_digest ''sk_02020202020202020202020202020202'' \<noteq>
     ''sk_02020202020202020202020202020202''"
proof -
  let ?g = "draw ''cprj2'' ''k'' 1 2"
  let ?name = "''Apollo'' @ [CHR 0xE3, CHR 0x80, CHR 0x80]"
  let ?f = "no_faults\<lparr>key_insert_fault := Some unique_violation\<rparr>"
  note i = project_create_provisions_key [where sha256_hex = padded_digest and s = acme_db
      and now = 5 and g = ?g and f = no_faults and name = ?name and orgId = "''corg1''"]
  have ev: "generateId ''prj'' ?g 5 = ''cprj2''" "generateId ''key'' ?g 5 = ''key_5k''"
    "pk_bytes ?g = replicate 16 1" "sk_bytes ?g = replicate 16 2"
    "projects acme_db = []" "api_keys acme_db = []"
    by (simp_all add: generateId_def to_base36_small digit36_def example_defs)
  have tr: "trim ?name = ''Apollo''" "trim [CHR 0xC2, CHR 0xA0] = []"
    by (rule trim_examples)+
  have nf: "org_check_fault no_faults = None" "project_insert_fault no_faults = None"
    "key_insert_fault no_faults = None"
    "org_check_fault ?f = None" "project_insert_fault ?f = None"
    "key_insert_fault ?f = Some unique_violation"
    by (simp_all add: no_faults_def)
  have org: "''corg1'' \<in> org_id ` set (organizations acme_db)"
    by (simp add: example_defs)
  have pre: "?name \<noteq> [] \<and> trim ?name \<noteq> [] \<and> ''corg1'' \<noteq> [] \<and>
      ''corg1'' \<in> org_id ` set (organizations acme_db) \<and>
      org_check_fault no_faults = None \<and> project_insert_fault no_faults = None \<and>
      key_insert_fault no_faults = None"
    unfolding tr nf using org by simp
  from i pre
  have a: "ProjectsService_create padded_digest acme_db 5 ?g no_faults ?name ''corg1'' =
        (Inr \<lparr>project = \<lparr>prj_id = generateId ''prj'' ?g 5, prj_name = trim ?name,
                 prj_org_id = ''corg1'', prj_deleted_at = None, prj_created_at = 5,
                 prj_updated_at = 5\<rparr>,
               apiKeys = \<lparr>publicKey = generateApiKey ''pk'' (pk_bytes ?g),
                 secretKey = generateApiKey ''sk'' (sk_bytes ?g)\<rparr>\<rparr>,
         acme_db\<lparr>projects := projects acme_db @
              [\<lparr>prj_id = generateId ''prj'' ?g 5, prj_name = trim ?name,
                prj_org_id = ''corg1'', prj_deleted_at = None, prj_created_at = 5,
                prj_updated_at = 5\<rparr>],
            api_keys := api_keys acme_db @
              [\<lparr>ak_id = generateId ''key'' ?g 5, ak_project_id = generateId ''prj'' ?g 5,
                ak_created_at = 5, ak_updated_at = None,
                ak_public_key = generateApiKey ''pk'' (pk_bytes ?g),
                ak_hashed_secret_key =
                  hashSecretKey padded_digest (generateApiKey ''sk'' (sk_bytes ?g)),
                ak_display_secret_key =
                  take 8 (generateApiKey ''sk'' (sk_bytes ?g)) @ ''...'',
                ak_note = None, ak_expires_at = None, ak_last_used_at = None\<rparr>]\<rparr>)"
    by blast
  have a': "ProjectsService_create padded_digest acme_db 5 ?g no_faults ?name ''corg1'' =
     (Inr \<lparr>project = \<lparr>prj_id = ''cprj2'', prj_name = ''Apollo'', prj_org_id = ''corg1'',
              prj_deleted_at = None, prj_created_at = 5, prj_updated_at = 5\<rparr>,
            apiKeys = \<lparr>publicKey = ''pk_01010101010101010101010101010101'',
              secretKey = ''sk_02020202020202020202020202020202''\<rparr>\<rparr>,
      acme_db\<lparr>projects :=
          [\<lparr>prj_id = ''cprj2'', prj_name = ''Apollo'', prj_org_id = ''corg1'',
            prj_deleted_at = None, prj_created_at = 5, prj_updated_at = 5\<rparr>],
        api_keys :=
          [\<lparr>ak_id = ''key_5k'', ak_project_id = ''cprj2'', ak_created_at = 5,
            ak_updated_at = None, ak_public_key = ''pk_01010101010101010101010101010101'',
            ak_hashed_secret_key =
              ''20202020202020202020202020202020_kstlas0000000000000000000000000'',
            ak_display_secret_key = ''sk_02020...'',
            ak_note = None, ak_expires_at = None, ak_last_used_at = None\<rparr>]\<rparr>)"
    unfolding a ev tr example_keys hashSecretKey_def padded_example by simp
  have pre': "?name \<noteq> [] \<and> trim ?name \<noteq> [] \<and> ''corg1'' \<noteq> [] \<and>
      ''corg1'' \<in> org_id ` set (organizations acme_db) \<and>
      org_check_fault ?f = None \<and> project_insert_fault ?f = None \<and>
      key_insert_fault ?f = Some unique_violation"
    unfolding tr nf using org by simp
  from project_create_provisions_key [where sha256_hex = padded_digest and s = acme_db
      and now = 5 and g = ?g and f = ?f and name = ?name and orgId = "''corg1''"
      and rejected = unique_violation] pre'
  have r: "ProjectsService_create padded_digest acme_db 5 ?g ?f ?name ''corg1'' =
      (Inl (DatabaseError transaction_message (Some unique_violation)), acme_db)"
    by blast
  let ?e = "DatabaseError transaction_message (Some (NotFoundError Organizacion))"
  have f: "fst (ProjectsService_create padded_digest acme_db 5 ?g no_faults ?name ''corg9'') =
      Inl ?e"
    unfolding ProjectsService_create_def ProjectsService_create_tx_def transaction_def tr nf
    by (simp add: example_defs)
  from project_create_provisions_key [where sha256_hex = padded_digest and s = acme_db
      and now = 5 and g = ?g and f = no_faults and name = ?name and orgId = "''corg9''"
      and e = ?e] f
  have "snd (ProjectsService_create padded_digest acme_db 5 ?g no_faults ?name ''corg9'') =
      acme_db"
    by blast
  with f have b: "ProjectsService_create padded_digest acme_db 5 ?g no_faults ?name ''corg9'' =
      (Inl ?e, acme_db)"
    by (simp add: prod_eq_iff)
  let ?blank = "BusinessLogicError ''El nombre es requerido''"
  have f2: "fst (ProjectsService_create padded_digest acme_db 5 ?g no_faults
      [CHR 0xC2, CHR 0xA0] ''corg1'') = Inl ?blank"
    unfolding ProjectsService_create_def tr by simp
  from project_create_provisions_key [where sha256_hex = padded_digest and s = acme_db
      and now = 5 and g = ?g and f = no_faults and name = "[CHR 0xC2, CHR 0xA0]"
      and orgId = "''corg1''" and e = ?blank] f2
  have "snd (ProjectsService_create padded_digest acme_db 5 ?g no_faults
      [CHR 0xC2, CHR 0xA0] ''corg1'') = acme_db"
    by blast
  with f2 have n: "ProjectsService_create padded_digest acme_db 5 ?g no_faults
      [CHR 0xC2, CHR 0xA0] ''corg1'' = (Inl ?blank, acme_db)"
    by (simp add: prod_eq_iff)
  have l: "length (sk_bytes ?g) = 16 \<and>
      length (padded_digest (''salt'' @ generateApiKey ''sk'' (sk_bytes ?g))) = 64"
    unfolding ev example_keys padded_example by simp
  from i l have "hashSecretKey padded_digest (generateApiKey ''sk'' (sk_bytes ?g)) \<noteq>
      generateApiKey ''sk'' (sk_bytes ?g)"
    by blast
  then have c: "hashSecretKey padded_digest ''sk_02020202020202020202020202020202'' \<noteq>
     ''sk_02020202020202020202020202020202''"
    unfolding ev example_keys .
  show ?thesis using a' r b n c by blast
qed

end
